theory Spec2Isabelle
  imports Main "HOL-Library.Sublist" "HOL-Library.Product_Lexorder"
begin

section \<open>Common modelling conventions\<close>

text \<open>
  Every network function of the emulator is a FastAPI application whose handlers read and
  write module-level dictionaries.  A handler is modelled as a function from the request
  and the state of its module to a response and the new state.  A response is either an
  \<open>HTTPException\<close> (only its status code is kept; the detail text embeds Python
  exception messages) or the returned body (HTTP 200).

  Values drawn from the environment are parameters of the model: \<open>uuid.uuid4()\<close>
  results, \<open>datetime.utcnow()\<close> readings (integer microseconds), answers of other
  network functions, and the SHA-256 hash.
\<close>

datatype http_error = HTTPException (status_code: int)

type_synonym 'a response = "http_error + 'a"

text \<open>JSON bodies that a handler receives as a plain \<open>Dict\<close>.  Floats are not modelled.\<close>

datatype json =
    JNull
  | JBool bool
  | JInt int
  | JStr string
  | JList "json list"
  | JObj "(string \<times> json) list"

text \<open>Python truthiness of a JSON value (\<open>not x\<close> is its negation).\<close>

fun truthy :: "json \<Rightarrow> bool" where
  "truthy JNull = False"
| "truthy (JBool b) = b"
| "truthy (JInt i) = (i \<noteq> 0)"
| "truthy (JStr s) = (s \<noteq> [])"
| "truthy (JList xs) = (xs \<noteq> [])"
| "truthy (JObj kvs) = (kvs \<noteq> [])"

text \<open>\<open>d.get(k)\<close> on a dictionary kept as an association list (first binding wins; the
  lists built here never repeat a key).\<close>

definition dict_get :: "(string \<times> 'v) list \<Rightarrow> string \<Rightarrow> 'v option" where
  "dict_get d k = map_of d k"

text \<open>\<open>d[k] = v\<close>: an existing key keeps its position, a new key goes to the end.\<close>

fun dict_set :: "(string \<times> 'v) list \<Rightarrow> string \<Rightarrow> 'v \<Rightarrow> (string \<times> 'v) list" where
  "dict_set [] k v = [(k, v)]"
| "dict_set ((k', v') # d) k v = (if k' = k then (k, v) # d else (k', v') # dict_set d k v)"

text \<open>\<open>d.update(e)\<close>.\<close>

fun dict_update :: "(string \<times> 'v) list \<Rightarrow> (string \<times> 'v) list \<Rightarrow> (string \<times> 'v) list" where
  "dict_update d [] = d"
| "dict_update d ((k, v) # e) = dict_update (dict_set d k v) e"

text \<open>\<open>del d[k]\<close> for a key known to be present.\<close>

definition dict_del :: "(string \<times> 'v) list \<Rightarrow> string \<Rightarrow> (string \<times> 'v) list" where
  "dict_del d k = filter (\<lambda>kv. fst kv \<noteq> k) d"

text \<open>\<open>str(n)\<close> for a Python integer.\<close>

definition digit_char :: "nat \<Rightarrow> char" where
  "digit_char n = ''0123456789'' ! n"

fun str_nat :: "nat \<Rightarrow> string" where
  "str_nat n = (if n < 10 then [digit_char n] else str_nat (n div 10) @ [digit_char (n mod 10)])"

declare str_nat.simps [simp del]

definition str_int :: "int \<Rightarrow> string" where
  "str_int i = (if i < 0 then CHR ''-'' # str_nat (nat (- i)) else str_nat (nat i))"

text \<open>
  Exceptions inside a handler body.  \<open>HTTPException\<close> is a subclass of \<open>Exception\<close>:
  a handler whose only clause is \<open>except Exception\<close> catches the \<open>HTTPException\<close>s
  raised in its own \<open>try\<close> block and answers 500 for them; a handler that first has
  \<open>except HTTPException: raise\<close> lets them through.
\<close>

datatype py_exception =
    RaisedHTTP int | KeyError | TypeError | AttributeError | ValueError | OverflowError

definition except_Exception_500 :: "py_exception + 'a \<Rightarrow> 'a response" where
  "except_Exception_500 r = (case r of Inl e \<Rightarrow> Inl (HTTPException 500) | Inr v \<Rightarrow> Inr v)"

definition except_HTTPException_reraise :: "py_exception + 'a \<Rightarrow> 'a response" where
  "except_HTTPException_reraise r =
     (case r of
        Inl (RaisedHTTP c) \<Rightarrow> Inl (HTTPException c)
      | Inl _ \<Rightarrow> Inl (HTTPException 500)
      | Inr v \<Rightarrow> Inr v)"

text \<open>The integer key that a JSON value selects in a dictionary with integer keys
  (\<open>True == 1\<close> in Python); lists and objects are unhashable.\<close>

fun int_key :: "json \<Rightarrow> py_exception + int option" where
  "int_key (JInt i) = Inr (Some i)"
| "int_key (JBool b) = Inr (Some (if b then 1 else 0))"
| "int_key JNull = Inr None"
| "int_key (JStr s) = Inr None"
| "int_key (JList xs) = Inl TypeError"
| "int_key (JObj kvs) = Inl TypeError"

text \<open>How an f-string renders a scalar JSON value (the \<open>repr\<close> of lists and objects is
  not rendered).\<close>

fun py_str :: "json \<Rightarrow> string" where
  "py_str (JInt i) = str_int i"
| "py_str (JBool b) = (if b then ''True'' else ''False'')"
| "py_str JNull = ''None''"
| "py_str (JStr s) = s"
| "py_str (JList xs) = []"
| "py_str (JObj kvs) = []"


section \<open>User plane function: \<open>upf_enhanced.py\<close>\<close>

subsection \<open>PFCP and GTP-U data\<close>

text \<open>The pydantic models, with the fields the handlers read.\<close>

record OuterHeaderCreation =
  ohc_teid :: "string option"
  ohc_ipv4_address :: "string option"
  ohc_ipv6_address :: "string option"

record FTeid =
  teid :: string
  ipv4_address :: "string option"
  ipv6_address :: "string option"

record CreatePdr =
  pdr_id :: int
  precedence :: int
  pdi_f_teid :: "FTeid option"
  pdr_far_id :: "int option"

record CreateFar =
  far_id :: int
  apply_action :: int
  outer_header_creation :: "OuterHeaderCreation option"
    \<comment> \<open>\<open>forwarding_parameters.outer_header_creation\<close>; \<open>None\<close> when either is absent\<close>

record Mbr =
  ul_mbr :: int
  dl_mbr :: int

record Gbr =
  ul_gbr :: int
  dl_gbr :: int

record CreateQer =
  qer_id :: int
  mbr :: "Mbr option"
  gbr :: "Gbr option"
  qfi :: "int option"
  qer_averaging_window :: "int option"

record CreateUrr =
  urr_id :: int
  measurement_method :: int
  reporting_triggers :: int

record PfcpSessionEstablishmentRequest =
  node_id :: string
  f_seid :: FTeid
  create_pdr :: "CreatePdr list"
  create_far :: "CreateFar list"
  create_urr :: "CreateUrr list option"
  create_qer :: "CreateQer list option"
  pdn_type :: "string option"

record GtpuHeader =
  gtpu_teid :: string
  gtpu_length :: int
  sequence_number :: "int option"

record GtpuPacket =
  header :: GtpuHeader
  payload :: string

record QosParameters =
  fiveqi :: int
  priority_level :: "int option"
  packet_delay_budget :: "int option"
  packet_error_rate :: "string option"
  maximum_data_burst_volume :: "int option"
  qos_averaging_window :: "int option"
  maximum_bitrate_ul :: "int option"
  maximum_bitrate_dl :: "int option"
  guaranteed_bitrate_ul :: "int option"
  guaranteed_bitrate_dl :: "int option"

record TrafficStats =
  packets_ul :: int
  packets_dl :: int
  bytes_ul :: int
  bytes_dl :: int
  dropped_packets_ul :: int
  dropped_packets_dl :: int

definition TrafficStats0 :: TrafficStats where
  "TrafficStats0 = \<lparr>packets_ul = 0, packets_dl = 0, bytes_ul = 0, bytes_dl = 0,
     dropped_packets_ul = 0, dropped_packets_dl = 0\<rparr>"

record gtp_tunnel =
  tunnel_id :: string
  local_teid :: string
  local_ipv4 :: "string option"
  local_ipv6 :: "string option"
  remote_teid :: "string option"
  remote_ipv4 :: "string option"
  remote_ipv6 :: "string option"
  tunnel_state :: string
  stats :: TrafficStats

text \<open>The stored rule dictionaries (\<open>pdr.dict()\<close> and so on) over the modelled fields.\<close>

definition opt_json :: "('a \<Rightarrow> json) \<Rightarrow> 'a option \<Rightarrow> json" where
  "opt_json f x = (case x of None \<Rightarrow> JNull | Some v \<Rightarrow> f v)"

definition fteid_dict :: "FTeid \<Rightarrow> json" where
  "fteid_dict t = JObj [(''teid'', JStr (teid t)),
     (''ipv4_address'', opt_json JStr (ipv4_address t)),
     (''ipv6_address'', opt_json JStr (ipv6_address t))]"

definition pdr_dict :: "CreatePdr \<Rightarrow> (string \<times> json) list" where
  "pdr_dict p = [(''pdr_id'', JInt (pdr_id p)), (''precedence'', JInt (precedence p)),
     (''pdi'', JObj [(''f_teid'', opt_json fteid_dict (pdi_f_teid p))]),
     (''far_id'', opt_json JInt (pdr_far_id p))]"

definition ohc_dict :: "OuterHeaderCreation \<Rightarrow> json" where
  "ohc_dict h = JObj [(''teid'', opt_json JStr (ohc_teid h)),
     (''ipv4_address'', opt_json JStr (ohc_ipv4_address h)),
     (''ipv6_address'', opt_json JStr (ohc_ipv6_address h))]"

definition far_dict :: "CreateFar \<Rightarrow> (string \<times> json) list" where
  "far_dict f = [(''far_id'', JInt (far_id f)), (''apply_action'', JInt (apply_action f)),
     (''forwarding_parameters'',
        JObj [(''outer_header_creation'', opt_json ohc_dict (outer_header_creation f))])]"

definition qer_dict :: "CreateQer \<Rightarrow> (string \<times> json) list" where
  "qer_dict q = [(''qer_id'', JInt (qer_id q)),
     (''mbr'', opt_json (\<lambda>m. JObj [(''ul_mbr'', JInt (ul_mbr m)), (''dl_mbr'', JInt (dl_mbr m))]) (mbr q)),
     (''gbr'', opt_json (\<lambda>g. JObj [(''ul_gbr'', JInt (ul_gbr g)), (''dl_gbr'', JInt (dl_gbr g))]) (gbr q)),
     (''qfi'', opt_json JInt (qfi q)),
     (''averaging_window'', opt_json JInt (qer_averaging_window q))]"

definition urr_dict :: "CreateUrr \<Rightarrow> (string \<times> json) list" where
  "urr_dict u = [(''urr_id'', JInt (urr_id u)),
     (''measurement_method'', JInt (measurement_method u)),
     (''reporting_triggers'', JInt (reporting_triggers u))]"

record pfcp_session =
  upf_seid :: string
  smf_seid :: string
  session_node_id :: string
  allocated_ips :: "(string \<times> string) list"
  pdrs :: "int \<rightharpoonup> (string \<times> json) list"
  fars :: "int \<rightharpoonup> (string \<times> json) list"
  qers :: "int \<rightharpoonup> (string \<times> json) list"
  urrs :: "int \<rightharpoonup> (string \<times> json) list"
  session_gtp_tunnels :: "string list"
  session_state :: string
  last_modified :: int

record token_bucket =
  tokens :: int
  max_tokens :: int
  last_refill :: int
  refill_rate :: int

text \<open>
  The whole state of the module: the \<open>UPF_Enhanced\<close> instance with its
  \<open>QosScheduler\<close>, and the module-level dictionaries.  \<open>ipv4_hosts\<close> is
  \<open>[str(ip) for ip in self.ipv4_pool.hosts()]\<close>; \<open>ipv6_subnets\<close> lists, for each /64
  subnet of \<open>self.ipv6_pool\<close> in order, its first host address and the subnet itself.
  \<open>qos_enforcement\<close> keeps insertion order, which the scheduler's lookup depends on.
\<close>

record upf_state =
  ipv4_hosts :: "string list"
  ipv6_subnets :: "(string \<times> string) list"
  allocated_ipv4 :: "string set"
  allocated_ipv6 :: "string set"
  pfcp_sessions :: "string \<rightharpoonup> pfcp_session"
  gtp_tunnels :: "string \<rightharpoonup> gtp_tunnel"
  traffic_statistics :: "string \<rightharpoonup> TrafficStats"
  qos_enforcement :: "(string \<times> QosParameters) list"
  token_buckets :: "string \<rightharpoonup> token_bucket"
  priority_queues :: "(string \<times> GtpuPacket list) list"

subsection \<open>IP address pools\<close>

text \<open>\<open>UPF_Enhanced.allocate_ip_address\<close>: the first pool address not yet allocated, for
  each address family the PDN type asks for.  A family whose pool has no free address adds
  nothing to the result; nothing is raised.\<close>

definition allocate_ip_address :: "upf_state \<Rightarrow> string \<Rightarrow> (string \<times> string) list \<times> upf_state" where
  "allocate_ip_address s pdn =
     (let (r4, s4) =
            (if pdn \<in> {''IPV4'', ''IPV4V6''} then
               (case find (\<lambda>ip. ip \<notin> allocated_ipv4 s) (ipv4_hosts s) of
                  None \<Rightarrow> ([], s)
                | Some ip \<Rightarrow> ([(''ipv4'', ip)], s\<lparr>allocated_ipv4 := insert ip (allocated_ipv4 s)\<rparr>))
             else ([], s));
          (r6, s6) =
            (if pdn \<in> {''IPV6'', ''IPV4V6''} then
               (case find (\<lambda>(a, n). a \<notin> allocated_ipv6 s4) (ipv6_subnets s4) of
                  None \<Rightarrow> ([], s4)
                | Some (a, n) \<Rightarrow> ([(''ipv6'', a), (''ipv6_prefix'', n)],
                                 s4\<lparr>allocated_ipv6 := insert a (allocated_ipv6 s4)\<rparr>))
             else ([], s4))
      in (r4 @ r6, s6))"

text \<open>\<open>UPF_Enhanced.release_ip_address\<close>.\<close>

definition release_ip_address :: "upf_state \<Rightarrow> string \<Rightarrow> upf_state" where
  "release_ip_address s ip =
     s\<lparr>allocated_ipv4 := allocated_ipv4 s - {ip}, allocated_ipv6 := allocated_ipv6 s - {ip}\<rparr>"

subsection \<open>PFCP session establishment\<close>

text \<open>\<open>UPF_Enhanced.create_gtp_tunnel\<close>; \<open>tid\<close> is the UUID drawn for the tunnel.\<close>

definition create_gtp_tunnel :: "upf_state \<Rightarrow> string \<Rightarrow> FTeid \<Rightarrow> CreateFar \<Rightarrow> upf_state" where
  "create_gtp_tunnel s tid ft far =
     (let ohc = outer_header_creation far;
          info = \<lparr>tunnel_id = tid, local_teid = teid ft, local_ipv4 = ipv4_address ft,
                   local_ipv6 = ipv6_address ft,
                   remote_teid = (case ohc of None \<Rightarrow> None | Some h \<Rightarrow> ohc_teid h),
                   remote_ipv4 = (case ohc of None \<Rightarrow> None | Some h \<Rightarrow> ohc_ipv4_address h),
                   remote_ipv6 = (case ohc of None \<Rightarrow> None | Some h \<Rightarrow> ohc_ipv6_address h),
                   tunnel_state = ''ACTIVE'', stats = TrafficStats0\<rparr>
      in s\<lparr>gtp_tunnels := (gtp_tunnels s)(tid \<mapsto> info)\<rparr>)"

text \<open>\<open>UPF_Enhanced.enforce_qos_policies\<close>: one \<open>QosParameters\<close> per QER, stored under
  the key \<open>f"{session_id}_{qer.qer_id}"\<close>.  \<open>qer.qfi or 9\<close> takes 9 for an absent or zero
  QFI.\<close>

definition qos_key :: "string \<Rightarrow> int \<Rightarrow> string" where
  "qos_key session_id qid = session_id @ ''_'' @ str_int qid"

definition qos_of_qer :: "CreateQer \<Rightarrow> QosParameters" where
  "qos_of_qer qer =
     \<lparr>fiveqi = (case qfi qer of None \<Rightarrow> 9 | Some q \<Rightarrow> if q = 0 then 9 else q),
      priority_level = Some 1,
      packet_delay_budget = None, packet_error_rate = None, maximum_data_burst_volume = None,
      qos_averaging_window = qer_averaging_window qer,
      maximum_bitrate_ul = map_option ul_mbr (mbr qer),
      maximum_bitrate_dl = map_option dl_mbr (mbr qer),
      guaranteed_bitrate_ul = map_option ul_gbr (gbr qer),
      guaranteed_bitrate_dl = map_option dl_gbr (gbr qer)\<rparr>"

fun enforce_qos_policies :: "upf_state \<Rightarrow> string \<Rightarrow> CreateQer list \<Rightarrow> upf_state" where
  "enforce_qos_policies s session_id [] = s"
| "enforce_qos_policies s session_id (qer # rest) =
     enforce_qos_policies
       (s\<lparr>qos_enforcement := dict_set (qos_enforcement s) (qos_key session_id (qer_id qer)) (qos_of_qer qer)\<rparr>)
       session_id rest"

text \<open>The PDR loop of the establishment handler.  \<open>uuids\<close> is the supply of UUIDs for the
  tunnels, consumed from the front; the loop returns the session, the state and the
  remaining supply.  The handler's supply is long enough when it has one UUID per PDR.\<close>

fun process_pdrs ::
  "CreateFar list \<Rightarrow> CreatePdr list \<Rightarrow> string list \<Rightarrow> pfcp_session \<times> upf_state
     \<Rightarrow> pfcp_session \<times> upf_state" where
  "process_pdrs fs [] uuids (ctx, s) = (ctx, s)"
| "process_pdrs fs (pdr # ps) uuids (ctx, s) =
     (let ctx1 = ctx\<lparr>pdrs := (pdrs ctx)(pdr_id pdr \<mapsto> pdr_dict pdr)\<rparr> in
      case pdi_f_teid pdr of
        None \<Rightarrow> process_pdrs fs ps uuids (ctx1, s)
      | Some ft \<Rightarrow>
         (case find (\<lambda>f. Some (far_id f) = pdr_far_id pdr) fs of
            None \<Rightarrow> process_pdrs fs ps uuids (ctx1, s)
          | Some far \<Rightarrow>
             (let tid = hd uuids in
              process_pdrs fs ps (tl uuids)
                (ctx1\<lparr>session_gtp_tunnels := session_gtp_tunnels ctx1 @ [tid]\<rparr>,
                 create_gtp_tunnel s tid ft far))))"

record establishment_response =
  messageType :: int
  cause :: int
  upFSeid :: "string option"
  allocatedUeIpAddresses :: "(string \<times> string) list"
  createdPdr :: "int list"

text \<open>\<open>pfcp_session_establishment\<close> (POST /pfcp/v1/sessions).  \<open>seid\<close> is the UUID drawn
  for the session, \<open>uuids\<close> those for its tunnels (one per PDR suffices), \<open>now\<close> the clock.
  No statement of the \<open>try\<close> block raises on a request of this type, so the
  \<open>SYSTEM_FAILURE\<close> answer of the \<open>except\<close> branch is never produced; the handler
  always answers HTTP 200 with cause \<open>REQUEST_ACCEPTED\<close> (1).\<close>

definition pfcp_session_establishment ::
  "upf_state \<Rightarrow> string \<Rightarrow> string list \<Rightarrow> int \<Rightarrow> PfcpSessionEstablishmentRequest
     \<Rightarrow> establishment_response response \<times> upf_state" where
  "pfcp_session_establishment s seid uuids now req =
     (let pdn = (case pdn_type req of None \<Rightarrow> ''IPV4'' | Some p \<Rightarrow> if p = [] then ''IPV4'' else p);
          (ips, s1) = allocate_ip_address s pdn;
          ctx0 = \<lparr>upf_seid = seid, smf_seid = teid (f_seid req), session_node_id = node_id req,
                  allocated_ips = ips, pdrs = Map.empty, fars = Map.empty, qers = Map.empty,
                  urrs = Map.empty, session_gtp_tunnels = [], session_state = ''ACTIVE'',
                  last_modified = now\<rparr>;
          (ctx1, s2) = process_pdrs (create_far req) (create_pdr req) uuids (ctx0, s1);
          ctx2 = foldl (\<lambda>c f. c\<lparr>fars := (fars c)(far_id f \<mapsto> far_dict f)\<rparr>) ctx1 (create_far req);
          (ctx3, s3) =
            (case create_qer req of
               None \<Rightarrow> (ctx2, s2)
             | Some qs \<Rightarrow>
                 if qs = [] then (ctx2, s2)
                 else (foldl (\<lambda>c q. c\<lparr>qers := (qers c)(qer_id q \<mapsto> qer_dict q)\<rparr>) ctx2 qs,
                       enforce_qos_policies s2 seid qs));
          ctx4 = (case create_urr req of
                    None \<Rightarrow> ctx3
                  | Some us \<Rightarrow> foldl (\<lambda>c u. c\<lparr>urrs := (urrs c)(urr_id u \<mapsto> urr_dict u)\<rparr>) ctx3 us);
          s4 = s3\<lparr>pfcp_sessions := (pfcp_sessions s3)(seid \<mapsto> ctx4),
                  traffic_statistics := (traffic_statistics s3)(seid \<mapsto> TrafficStats0)\<rparr>
      in (Inr \<lparr>messageType = 51, cause = 1, upFSeid = Some seid,
                allocatedUeIpAddresses = ips,
                createdPdr = map pdr_id (create_pdr req)\<rparr>, s4))"


subsection \<open>PFCP session modification and deletion\<close>

record modification_request =
  updatePdr :: "(string \<times> json) list list option"
  updateFar :: "(string \<times> json) list list option"
  updateQer :: "(string \<times> json) list list option"

text \<open>The loop over \<open>updatePdr\<close> (and \<open>updateFar\<close>): \<open>idk\<close> is the key holding the rule
  id, \<open>label\<close> the word in the log entry.  The rules are updated in place, so what was
  done before an exception stays done.\<close>

fun update_rule_loop ::
  "string \<Rightarrow> string \<Rightarrow> (int \<rightharpoonup> (string \<times> json) list) \<Rightarrow> string list \<Rightarrow> (string \<times> json) list list
     \<Rightarrow> py_exception option \<times> (int \<rightharpoonup> (string \<times> json) list) \<times> string list" where
  "update_rule_loop idk label rules applied [] = (None, rules, applied)"
| "update_rule_loop idk label rules applied (u # us) =
     (case dict_get u idk of
        None \<Rightarrow> (Some KeyError, rules, applied)
      | Some v \<Rightarrow>
         (case int_key v of
            Inl e \<Rightarrow> (Some e, rules, applied)
          | Inr None \<Rightarrow> update_rule_loop idk label rules applied us
          | Inr (Some i) \<Rightarrow>
             (case rules i of
                None \<Rightarrow> update_rule_loop idk label rules applied us
              | Some d \<Rightarrow>
                  update_rule_loop idk label (rules(i \<mapsto> dict_update d u))
                    (applied @ [label @ '' '' @ py_str v @ '' updated'']) us)))"

text \<open>A rate read from \<open>update_qer["mbr"].get(...)\<close>.  The source stores whatever JSON
  value it finds; here a value that is not an integer is read as \<open>None\<close>.\<close>

fun rate_of :: "json option \<Rightarrow> int option" where
  "rate_of (Some (JInt i)) = Some i"
| "rate_of (Some (JBool b)) = Some (if b then 1 else 0)"
| "rate_of _ = None"

fun update_qer_loop ::
  "string \<Rightarrow> (int \<rightharpoonup> (string \<times> json) list) \<Rightarrow> (string \<times> QosParameters) list \<Rightarrow> string list
     \<Rightarrow> (string \<times> json) list list
     \<Rightarrow> py_exception option \<times> (int \<rightharpoonup> (string \<times> json) list) \<times> (string \<times> QosParameters) list \<times> string list" where
  "update_qer_loop seid rules qe applied [] = (None, rules, qe, applied)"
| "update_qer_loop seid rules qe applied (u # us) =
     (case dict_get u ''qerId'' of
        None \<Rightarrow> (Some KeyError, rules, qe, applied)
      | Some v \<Rightarrow>
         (case int_key v of
            Inl e \<Rightarrow> (Some e, rules, qe, applied)
          | Inr None \<Rightarrow> update_qer_loop seid rules qe applied us
          | Inr (Some i) \<Rightarrow>
             (case rules i of
                None \<Rightarrow> update_qer_loop seid rules qe applied us
              | Some d \<Rightarrow>
                 (let rules' = rules(i \<mapsto> dict_update d u);
                      applied' = applied @ [''QER '' @ py_str v @ '' updated''];
                      key = seid @ ''_'' @ py_str v
                  in case dict_get qe key of
                       None \<Rightarrow> update_qer_loop seid rules' qe applied' us
                     | Some qp \<Rightarrow>
                        (case dict_get u ''mbr'' of
                           None \<Rightarrow> update_qer_loop seid rules' qe applied' us
                         | Some (JObj m) \<Rightarrow>
                             update_qer_loop seid rules'
                               (dict_set qe key
                                  (qp\<lparr>maximum_bitrate_ul := rate_of (dict_get m ''ulMbr''),
                                      maximum_bitrate_dl := rate_of (dict_get m ''dlMbr'')\<rparr>))
                               applied' us
                         | Some _ \<Rightarrow> (Some AttributeError, rules', qe, applied'))))))"

record modification_response =
  mod_messageType :: int
  mod_cause :: int
  modificationsApplied :: "string list"

text \<open>The \<open>try\<close> block of \<open>pfcp_session_modification\<close>.\<close>

definition pfcp_session_modification_body ::
  "upf_state \<Rightarrow> string \<Rightarrow> modification_request \<Rightarrow> int
     \<Rightarrow> (py_exception + modification_response) \<times> upf_state" where
  "pfcp_session_modification_body s seid req now =
     (case pfcp_sessions s seid of
        None \<Rightarrow> (Inl (RaisedHTTP 404), s)
      | Some session \<Rightarrow>
         (let (e1, pdrs1, a1) = update_rule_loop ''pdrId'' ''PDR'' (pdrs session) []
                                  (case updatePdr req of None \<Rightarrow> [] | Some us \<Rightarrow> us);
              session1 = session\<lparr>pdrs := pdrs1\<rparr>;
              s1 = s\<lparr>pfcp_sessions := (pfcp_sessions s)(seid \<mapsto> session1)\<rparr>
          in case e1 of
               Some e \<Rightarrow> (Inl e, s1)
             | None \<Rightarrow>
                (let (e2, fars2, a2) = update_rule_loop ''farId'' ''FAR'' (fars session1) a1
                                         (case updateFar req of None \<Rightarrow> [] | Some us \<Rightarrow> us);
                     session2 = session1\<lparr>fars := fars2\<rparr>;
                     s2 = s1\<lparr>pfcp_sessions := (pfcp_sessions s1)(seid \<mapsto> session2)\<rparr>
                 in case e2 of
                      Some e \<Rightarrow> (Inl e, s2)
                    | None \<Rightarrow>
                       (let (e3, qers3, qe3, a3) =
                              update_qer_loop seid (qers session2) (qos_enforcement s2) a2
                                (case updateQer req of None \<Rightarrow> [] | Some us \<Rightarrow> us);
                            session3 = session2\<lparr>qers := qers3\<rparr>;
                            s3 = s2\<lparr>pfcp_sessions := (pfcp_sessions s2)(seid \<mapsto> session3),
                                    qos_enforcement := qe3\<rparr>
                        in case e3 of
                             Some e \<Rightarrow> (Inl e, s3)
                           | None \<Rightarrow>
                              (Inr \<lparr>mod_messageType = 53, mod_cause = 1, modificationsApplied = a3\<rparr>,
                               s3\<lparr>pfcp_sessions :=
                                    (pfcp_sessions s3)(seid \<mapsto> session3\<lparr>last_modified := now\<rparr>)\<rparr>)))))"

text \<open>\<open>pfcp_session_modification\<close> (PATCH /pfcp/v1/sessions/{seid}): the body under the
  handler's only clause, \<open>except Exception\<close>.\<close>

definition pfcp_session_modification ::
  "upf_state \<Rightarrow> string \<Rightarrow> modification_request \<Rightarrow> int
     \<Rightarrow> modification_response response \<times> upf_state" where
  "pfcp_session_modification s seid req now =
     (let (r, s') = pfcp_session_modification_body s seid req now in (except_Exception_500 r, s'))"

record deletion_response =
  del_messageType :: int
  del_cause :: int

text \<open>The \<open>try\<close> block of \<open>pfcp_session_deletion\<close>.  \<open>seid in key\<close> is a substring
  test.\<close>

definition pfcp_session_deletion_body ::
  "upf_state \<Rightarrow> string \<Rightarrow> (py_exception + deletion_response) \<times> upf_state" where
  "pfcp_session_deletion_body s seid =
     (case pfcp_sessions s seid of
        None \<Rightarrow> (Inl (RaisedHTTP 404), s)
      | Some session \<Rightarrow>
         (let s1 = foldl (\<lambda>st (ip_type, ip_addr).
                            if ip_type \<in> {''ipv4'', ''ipv6''} then release_ip_address st ip_addr else st)
                     s (allocated_ips session);
              s2 = s1\<lparr>gtp_tunnels :=
                        foldl (\<lambda>m tid. m(tid := None)) (gtp_tunnels s1) (session_gtp_tunnels session)\<rparr>;
              s3 = s2\<lparr>qos_enforcement := filter (\<lambda>(k, qp). \<not> sublist seid k) (qos_enforcement s2)\<rparr>;
              s4 = s3\<lparr>traffic_statistics := (traffic_statistics s3)(seid := None)\<rparr>;
              s5 = s4\<lparr>pfcp_sessions := (pfcp_sessions s4)(seid := None)\<rparr>
          in (Inr \<lparr>del_messageType = 55, del_cause = 1\<rparr>, s5)))"

text \<open>\<open>pfcp_session_deletion\<close> (DELETE /pfcp/v1/sessions/{seid}), again under
  \<open>except Exception\<close> alone.\<close>

definition pfcp_session_deletion ::
  "upf_state \<Rightarrow> string \<Rightarrow> deletion_response response \<times> upf_state" where
  "pfcp_session_deletion s seid =
     (let (r, s') = pfcp_session_deletion_body s seid in (except_Exception_500 r, s'))"


subsection \<open>GTP-U processing and the QoS scheduler\<close>

text \<open>\<open>QosScheduler.enforce_qos\<close>, first part: the first entry of \<open>qos_enforcement\<close>
  whose key contains the tunnel id as a substring.\<close>

definition find_qos_params :: "(string \<times> QosParameters) list \<Rightarrow> string \<Rightarrow> QosParameters option" where
  "find_qos_params qe tid = map_option snd (find (\<lambda>(k, p). sublist tid k) qe)"

definition bucket_key :: "string \<Rightarrow> string \<Rightarrow> string" where
  "bucket_key tid direction = tid @ ''_'' @ direction"

definition max_rate_of :: "QosParameters \<Rightarrow> string \<Rightarrow> int option" where
  "max_rate_of qp direction =
     (if direction = ''uplink'' then maximum_bitrate_ul qp else maximum_bitrate_dl qp)"

text \<open>The creation of the bucket: only when the key is new and the rate is neither
  \<open>None\<close> nor zero.  \<open>t_new\<close> is the clock reading stored as \<open>last_refill\<close>.\<close>

definition ensure_bucket :: "upf_state \<Rightarrow> QosParameters \<Rightarrow> string \<Rightarrow> string \<Rightarrow> int \<Rightarrow> upf_state" where
  "ensure_bucket s qp tid direction t_new =
     (case token_buckets s (bucket_key tid direction) of
        Some b \<Rightarrow> s
      | None \<Rightarrow>
         (case max_rate_of qp direction of
            None \<Rightarrow> s
          | Some r \<Rightarrow>
              if r = 0 then s
              else s\<lparr>token_buckets := (token_buckets s)(bucket_key tid direction \<mapsto>
                        \<lparr>tokens = r div 8, max_tokens = r div 8, last_refill = t_new,
                         refill_rate = r div 8\<rparr>)\<rparr>))"

text \<open>
  Binary floating point.  \<open>round_double n d\<close> is the double nearest to the fraction
  \<open>n / d\<close> (ties to the even significand), as the pair \<open>(m, e)\<close> of a significand below
  \<open>2^53\<close> (or equal to it, after a carry) and an exponent, standing for \<open>m * 2^e\<close>; this
  is what Python's true division of two integers and its conversion of an integer to
  \<open>float\<close> return, and what the multiplication of two doubles returns for their exact
  product.  A result of \<open>2^1024\<close> or more is no finite double.  (No value below the
  normal range arises here: a clock difference that is not zero is at least \<open>1e-6\<close>.)
\<close>

fun bitlen :: "nat \<Rightarrow> nat" where
  "bitlen n = (if n = 0 then 0 else Suc (bitlen (n div 2)))"

declare bitlen.simps [simp del]

definition round_double :: "nat \<Rightarrow> nat \<Rightarrow> nat \<times> int" where
  "round_double n d =
     (if n = 0 then (0, 0)
      else
        (let k = int (bitlen n) - int (bitlen d);
             flog = (if (if 0 \<le> k then d * 2 ^ nat k \<le> n else d \<le> n * 2 ^ nat (- k))
                     then k else k - 1);
             e = flog - 52;
             num = (if 0 \<le> e then n else n * 2 ^ nat (- e));
             den = (if 0 \<le> e then d * 2 ^ nat e else d);
             m0 = num div den;
             r = num mod den
         in ((if den < 2 * r \<or> (2 * r = den \<and> odd m0) then m0 + 1 else m0), e)))"

definition finite_double :: "nat \<times> int \<Rightarrow> bool" where
  "finite_double x = (int (bitlen (fst x)) + snd x \<le> 1024)"

text \<open>\<open>int(time_diff * bucket["refill_rate"])\<close>, where \<open>time_diff\<close> is
  \<open>(now - last_refill).total_seconds()\<close>: the difference of the two clock readings in
  microseconds, divided by \<open>10^6\<close> into a double; the rate converted to a double
  (\<open>OverflowError\<close> when it is too large); their product rounded to a double; \<open>int\<close>
  truncates it towards zero and raises \<open>OverflowError\<close> for an infinite one.  \<open>None\<close>
  stands for the \<open>OverflowError\<close>.\<close>

definition tokens_to_add :: "int \<Rightarrow> int \<Rightarrow> int option" where
  "tokens_to_add dt_us rate =
     (let time_diff = round_double (nat \<bar>dt_us\<bar>) 1000000;
          rate_f = round_double (nat \<bar>rate\<bar>) 1
      in if \<not> finite_double rate_f then None
         else
           (let e = snd time_diff + snd rate_f;
                mm = fst time_diff * fst rate_f;
                product = (if 0 \<le> e then round_double (mm * 2 ^ nat e) 1
                           else round_double mm (2 ^ nat (- e)))
            in if \<not> finite_double product then None
               else
                 (let t = (if 0 \<le> snd product then int (fst product) * 2 ^ nat (snd product)
                           else int (fst product) div 2 ^ nat (- snd product))
                  in Some (if (dt_us < 0) \<noteq> (rate < 0) then - t else t))))"

text \<open>The refill of a bucket at the clock reading \<open>now\<close>; \<open>None\<close> when the computation
  of \<open>tokens_to_add\<close> raises, which leaves the bucket as it was.\<close>

definition refill :: "token_bucket \<Rightarrow> int \<Rightarrow> token_bucket option" where
  "refill b now =
     (case tokens_to_add (now - last_refill b) (refill_rate b) of
        None \<Rightarrow> None
      | Some n \<Rightarrow> Some (b\<lparr>tokens := min (max_tokens b) (tokens b + n), last_refill := now\<rparr>))"

text \<open>\<open>QosScheduler._get_priority_from_fiveqi\<close>.\<close>

definition priority_map :: "(int \<times> int) list" where
  "priority_map = [(1, 20), (2, 40), (3, 30), (4, 50), (5, 10), (6, 60), (7, 70), (8, 80), (9, 90),
     (65, 7), (66, 20), (67, 15), (75, 25), (79, 65), (80, 68), (82, 19), (83, 22), (84, 24), (85, 21)]"

definition get_priority_from_fiveqi :: "int \<Rightarrow> int" where
  "get_priority_from_fiveqi q = (case map_of priority_map q of None \<Rightarrow> 90 | Some p \<Rightarrow> p)"

text \<open>\<open>QosScheduler._process_priority_queues\<close>: every non-empty queue loses its first
  packet (the order in which the queues are visited leaves no trace in the state).\<close>

definition process_priority_queues :: "(string \<times> GtpuPacket list) list \<Rightarrow> (string \<times> GtpuPacket list) list" where
  "process_priority_queues qs = map (\<lambda>(k, ps). (k, drop 1 ps)) qs"

text \<open>\<open>QosScheduler.enforce_qos\<close>.  \<open>t_new\<close> and \<open>now\<close> are the two clock readings of the
  call, in microseconds: the one stored in a bucket that is created, and the one of the
  refill.  An \<open>OverflowError\<close> in the refill leaves the call after the bucket has been
  created.\<close>

definition enforce_qos ::
  "upf_state \<Rightarrow> string \<Rightarrow> GtpuPacket \<Rightarrow> string \<Rightarrow> int \<Rightarrow> int \<Rightarrow> (py_exception + bool) \<times> upf_state" where
  "enforce_qos s tid packet direction t_new now =
     (case find_qos_params (qos_enforcement s) tid of
        None \<Rightarrow> (Inr True, s)
      | Some qp \<Rightarrow>
         (let s1 = ensure_bucket s qp tid direction t_new;
              key = bucket_key tid direction
          in case token_buckets s1 key of
               Some b \<Rightarrow>
                 (case refill b now of
                    None \<Rightarrow> (Inl OverflowError, s1)
                  | Some b' \<Rightarrow>
                     (let packet_size = int (length (payload packet))
                      in if packet_size \<le> tokens b'
                         then (Inr True,
                               s1\<lparr>token_buckets :=
                                    (token_buckets s1)(key \<mapsto> b'\<lparr>tokens := tokens b' - packet_size\<rparr>)\<rparr>)
                         else (Inr False, s1\<lparr>token_buckets := (token_buckets s1)(key \<mapsto> b')\<rparr>)))
             | None \<Rightarrow>
                 (let queue_key = tid @ ''_'' @ str_int (get_priority_from_fiveqi (fiveqi qp));
                      q = (case dict_get (priority_queues s1) queue_key of None \<Rightarrow> [] | Some ps \<Rightarrow> ps);
                      qs = dict_set (priority_queues s1) queue_key (q @ [packet])
                  in (Inr True, s1\<lparr>priority_queues := process_priority_queues qs\<rparr>))))"

text \<open>\<open>UPF_Enhanced.process_gtp_packet\<close>.\<close>

definition count_packet :: "TrafficStats \<Rightarrow> string \<Rightarrow> int \<Rightarrow> TrafficStats" where
  "count_packet st direction packet_size =
     (if direction = ''uplink''
      then st\<lparr>packets_ul := packets_ul st + 1, bytes_ul := bytes_ul st + packet_size\<rparr>
      else st\<lparr>packets_dl := packets_dl st + 1, bytes_dl := bytes_dl st + packet_size\<rparr>)"

definition count_drop :: "TrafficStats \<Rightarrow> string \<Rightarrow> TrafficStats" where
  "count_drop st direction =
     (if direction = ''uplink''
      then st\<lparr>dropped_packets_ul := dropped_packets_ul st + 1\<rparr>
      else st\<lparr>dropped_packets_dl := dropped_packets_dl st + 1\<rparr>)"

definition process_gtp_packet ::
  "upf_state \<Rightarrow> string \<Rightarrow> GtpuPacket \<Rightarrow> string \<Rightarrow> int \<Rightarrow> int \<Rightarrow> (py_exception + bool) \<times> upf_state" where
  "process_gtp_packet s tid packet direction t_new now =
     (case gtp_tunnels s tid of
        None \<Rightarrow> (Inr False, s)
      | Some tunnel \<Rightarrow>
         (let tunnel1 = tunnel\<lparr>stats := count_packet (stats tunnel) direction (int (length (payload packet)))\<rparr>;
              s1 = s\<lparr>gtp_tunnels := (gtp_tunnels s)(tid \<mapsto> tunnel1)\<rparr>
          in case enforce_qos s1 tid packet direction t_new now of
               (Inl e, s2) \<Rightarrow> (Inl e, s2)
             | (Inr qos_result, s2) \<Rightarrow>
                 if \<not> qos_result
                 then (Inr False,
                       s2\<lparr>gtp_tunnels :=
                            (gtp_tunnels s2)(tid \<mapsto> tunnel1\<lparr>stats := count_drop (stats tunnel1) direction\<rparr>)\<rparr>)
                 else (Inr True, s2)))"

text \<open>The endpoint POST /gtp-u/process-packet.  A missing \<open>header\<close> or \<open>payload\<close> is a
  \<open>KeyError\<close>; a missing \<open>tunnel_id\<close> is \<open>None\<close>, which is no key of \<open>gtp_tunnels\<close>.\<close>

record packet_data =
  req_tunnel_id :: "string option"
  req_direction :: "string option"
  req_header :: "GtpuHeader option"
  req_payload :: "string option"

record packet_response =
  status :: string
  resp_tunnel_id :: "string option"
  resp_direction :: string
  processed :: bool

definition process_gtp_packet_endpoint ::
  "upf_state \<Rightarrow> packet_data \<Rightarrow> int \<Rightarrow> int \<Rightarrow> packet_response response \<times> upf_state" where
  "process_gtp_packet_endpoint s pd t_new now =
     (let direction = (case req_direction pd of None \<Rightarrow> ''uplink'' | Some d \<Rightarrow> d) in
      case (req_header pd, req_payload pd) of
        (Some h, Some pl) \<Rightarrow>
          (let (result, s') =
                 (case req_tunnel_id pd of
                    None \<Rightarrow> (Inr False, s)
                  | Some tid \<Rightarrow> process_gtp_packet s tid \<lparr>header = h, payload = pl\<rparr> direction t_new now)
           in (except_Exception_500
                 (case result of
                    Inl e \<Rightarrow> Inl e
                  | Inr success \<Rightarrow>
                      Inr \<lparr>status = (if success then ''SUCCESS'' else ''DROPPED''),
                            resp_tunnel_id = req_tunnel_id pd, resp_direction = direction,
                            processed = success\<rparr>), s'))
      | _ \<Rightarrow> (except_Exception_500 (Inl KeyError), s))"

subsection \<open>The instance as \<open>UPF_Enhanced.__init__\<close> leaves it\<close>

definition default_qos :: "int \<Rightarrow> int \<Rightarrow> int \<Rightarrow> string \<Rightarrow> int option \<Rightarrow> string \<times> QosParameters" where
  "default_qos q prio pdb per mdbv =
     (str_int q, \<lparr>fiveqi = q, priority_level = Some prio, packet_delay_budget = Some pdb,
                  packet_error_rate = Some per, maximum_data_burst_volume = mdbv,
                  qos_averaging_window = None, maximum_bitrate_ul = None, maximum_bitrate_dl = None,
                  guaranteed_bitrate_ul = None, guaranteed_bitrate_dl = None\<rparr>)"

definition default_qos_configs :: "(string \<times> QosParameters) list" where
  "default_qos_configs =
     [default_qos 1 20 100 ''1E-2'' None, default_qos 2 40 150 ''1E-3'' None,
      default_qos 3 30 50 ''1E-3'' None, default_qos 4 50 300 ''1E-6'' None,
      default_qos 5 10 100 ''1E-6'' None, default_qos 6 60 300 ''1E-6'' None,
      default_qos 7 70 100 ''1E-3'' None, default_qos 8 80 300 ''1E-6'' None,
      default_qos 9 90 300 ''1E-6'' None, default_qos 65 7 75 ''1E-2'' None,
      default_qos 66 20 100 ''1E-2'' None, default_qos 67 15 100 ''1E-3'' None,
      default_qos 75 25 50 ''1E-2'' None, default_qos 79 65 50 ''1E-2'' (Some 255),
      default_qos 80 68 10 ''1E-6'' (Some 1354), default_qos 82 19 10 ''1E-4'' (Some 255),
      default_qos 83 22 10 ''1E-4'' (Some 1354), default_qos 84 24 30 ''1E-5'' (Some 1354),
      default_qos 85 21 5 ''1E-5'' (Some 255)]"

text \<open>The pools are parameters: the host addresses of the IPv4 network and the /64 subnets
  of the IPv6 network.\<close>

definition upf_init :: "string list \<Rightarrow> (string \<times> string) list \<Rightarrow> upf_state" where
  "upf_init hosts subnets =
     \<lparr>ipv4_hosts = hosts, ipv6_subnets = subnets, allocated_ipv4 = {}, allocated_ipv6 = {},
      pfcp_sessions = Map.empty, gtp_tunnels = Map.empty, traffic_statistics = Map.empty,
      qos_enforcement = default_qos_configs, token_buckets = Map.empty, priority_queues = []\<rparr>"


subsection \<open>Scenario inputs for the user plane function\<close>

text \<open>A pool with the two host addresses of a /30 network, and an establishment request
  for an IPv4 session without rules.\<close>

definition pool_slash30 :: upf_state where
  "pool_slash30 = upf_init [''192.168.100.1'', ''192.168.100.2''] []"

definition ipv4_request :: PfcpSessionEstablishmentRequest where
  "ipv4_request = \<lparr>node_id = ''smf'', f_seid = \<lparr>teid = ''1'', ipv4_address = None, ipv6_address = None\<rparr>,
     create_pdr = [], create_far = [], create_urr = None, create_qer = None, pdn_type = Some ''IPV4''\<rparr>"

definition after_two_ipv4_sessions :: upf_state where
  "after_two_ipv4_sessions =
     snd (pfcp_session_establishment
            (snd (pfcp_session_establishment pool_slash30 ''seid-a'' [] 0 ipv4_request))
            ''seid-b'' [] 1 ipv4_request)"

subsection \<open>Packet traces\<close>

text \<open>A trace of packets on one tunnel and direction.  Each event carries the two clock
  readings of its call and the packet; the run returns the number of payload bytes of the
  packets that \<open>process_gtp_packet\<close> accepted.\<close>

type_synonym packet_event = "int \<times> int \<times> GtpuPacket"

fun run_packets :: "upf_state \<Rightarrow> string \<Rightarrow> string \<Rightarrow> packet_event list \<Rightarrow> int \<times> upf_state" where
  "run_packets s tid direction [] = (0, s)"
| "run_packets s tid direction ((t_new, now, p) # es) =
     (let (result, s1) = process_gtp_packet s tid p direction t_new now;
          (n, s2) = run_packets s1 tid direction es
      in ((if result = Inr True then int (length (payload p)) else 0) + n, s2))"

text \<open>The payload bytes that a trace offers.\<close>

definition offered_bytes :: "packet_event list \<Rightarrow> int" where
  "offered_bytes es = sum_list (map (\<lambda>e. int (length (payload (snd (snd e))))) es)"

text \<open>A session with one PDR carrying an F-TEID, its FAR, and one QER with an MBR of 320 bit/s
  (40 bytes per second) in both directions, established with one UUID for the session
  and another for its tunnel.\<close>

definition qer_request :: PfcpSessionEstablishmentRequest where
  "qer_request =
     \<lparr>node_id = ''smf'', f_seid = \<lparr>teid = ''1'', ipv4_address = None, ipv6_address = None\<rparr>,
      create_pdr = [\<lparr>pdr_id = 1, precedence = 200,
                      pdi_f_teid = Some \<lparr>teid = ''1001'', ipv4_address = None, ipv6_address = None\<rparr>,
                      pdr_far_id = Some 1\<rparr>],
      create_far = [\<lparr>far_id = 1, apply_action = 2, outer_header_creation = None\<rparr>],
      create_urr = None,
      create_qer = Some [\<lparr>qer_id = 1, mbr = Some \<lparr>ul_mbr = 320, dl_mbr = 320\<rparr>, gbr = None,
                           qfi = Some 9, qer_averaging_window = None\<rparr>],
      pdn_type = Some ''IPV4''\<rparr>"

definition session_uuid :: string where
  "session_uuid = ''3f2b8c1e-5a47-4d09-9e61-0c7d2a1b4e55''"

definition tunnel_uuid :: string where
  "tunnel_uuid = ''a91d04f7-62c3-4b8e-8f15-7e3a9c0d2b64''"

definition qos_session_upf :: upf_state where
  "qos_session_upf =
     snd (pfcp_session_establishment pool_slash30 session_uuid [tunnel_uuid] 0 qer_request)"

text \<open>Seven packets of ten bytes within 0.8 s: four at once, three more 0.8 s later.\<close>

definition ten_bytes :: GtpuPacket where
  "ten_bytes = \<lparr>header = \<lparr>gtpu_teid = ''1001'', gtpu_length = 10, sequence_number = None\<rparr>,
                 payload = ''0123456789''\<rparr>"

definition burst_events :: "packet_event list" where
  "burst_events = [(0, 0, ten_bytes), (0, 0, ten_bytes), (0, 0, ten_bytes), (0, 0, ten_bytes),
     (800000, 800000, ten_bytes), (800000, 800000, ten_bytes), (800000, 800000, ten_bytes)]"

section \<open>Authentication server function: \<open>ausf.py\<close>\<close>

text \<open>
  An entry of \<open>authentication_contexts\<close>.  The vector fields hold whatever JSON values the
  UDM answered (the handler stores them unchecked); \<open>kseaf\<close> and \<open>completedAt\<close> are keys
  that only the confirmation adds.  Time stamps are not kept.
\<close>

record auth_ctx =
  ctx_supi :: string
  ctx_servingNetworkName :: string
  ctx_authType :: string
  ctx_rand :: json
  ctx_autn :: json
  ctx_hxresstar :: json
  ctx_kausf :: json
  ctx_status :: string
  ctx_kseaf :: "string option"
  ctx_completed :: bool

type_synonym ausf_state = "string \<rightharpoonup> auth_ctx"

text \<open>\<open>AUSF.derive_kseaf\<close>; \<open>H\<close> stands for \<open>hashlib.sha256(...).hexdigest()\<close>.\<close>

definition derive_kseaf :: "(string \<Rightarrow> string) \<Rightarrow> string \<Rightarrow> string \<Rightarrow> string" where
  "derive_kseaf H kausf serving_network_name = H (kausf @ serving_network_name @ ''KSEAF'')"

text \<open>\<open>AUSF.generate_5g_aka_vectors\<close>; \<open>rnd\<close>, \<open>sqn\<close> and \<open>mac\<close> are the
  \<open>secrets.token_hex\<close> draws that enter the result.\<close>

definition generate_5g_aka_vectors ::
  "(string \<Rightarrow> string) \<Rightarrow> string \<Rightarrow> string \<Rightarrow> string \<Rightarrow> string \<Rightarrow> (string \<times> json) list" where
  "generate_5g_aka_vectors H supi rnd sqn mac =
     (let autn = sqn @ ''8000'' @ mac
      in [(''rand'', JStr rnd), (''autn'', JStr autn),
          (''hxresstar'', JStr (take 16 (H (supi @ rnd @ autn)))),
          (''kausf'', JStr (H (supi @ rnd @ ''KAUSF'')))])"

text \<open>\<open>AUSF.verify_authentication_response\<close>.\<close>

definition verify_authentication_response :: "ausf_state \<Rightarrow> string \<Rightarrow> string \<Rightarrow> bool" where
  "verify_authentication_response s auth_ctx_id res_star =
     (case s auth_ctx_id of None \<Rightarrow> False | Some c \<Rightarrow> JStr res_star = ctx_hxresstar c)"

text \<open>\<open>"imsi-" + supi.split("-")[-1]\<close> for a SUCI.\<close>

definition supi_of :: "string \<Rightarrow> string" where
  "supi_of supi_or_suci =
     (if take 5 supi_or_suci = ''suci-''
      then ''imsi-'' @ rev (takeWhile (\<lambda>c. c \<noteq> CHR ''-'') (rev supi_or_suci))
      else supi_or_suci)"

text \<open>Whether pydantic accepts a JSON value for a \<open>str\<close> field.\<close>

fun str_field_ok :: "json \<Rightarrow> bool" where
  "str_field_ok (JStr s) = True"
| "str_field_ok (JInt i) = True"
| "str_field_ok (JBool b) = True"
| "str_field_ok _ = False"

record auth_vector =
  av_rand :: json
  av_autn :: json
  av_hxresstar :: json
  av_kausf :: json

record authentication_info_result =
  air_authType :: string
  air_vector :: auth_vector
  air_supi :: string
  air_href :: string

text \<open>The vector the handler works with: the UDM's \<open>authenticationVector\<close> (an empty
  dictionary when the key is missing), or the local one when the UDM gave nothing.\<close>

definition auth_vectors_of ::
  "(string \<Rightarrow> string) \<Rightarrow> string \<Rightarrow> (string \<times> json) list option \<Rightarrow> string \<Rightarrow> string \<Rightarrow> string
     \<Rightarrow> py_exception + (string \<times> json) list" where
  "auth_vectors_of H supi udm rnd sqn mac =
     (case udm of
        None \<Rightarrow> Inr (generate_5g_aka_vectors H supi rnd sqn mac)
      | Some d \<Rightarrow>
          if d = [] then Inr (generate_5g_aka_vectors H supi rnd sqn mac)
          else (case dict_get d ''authenticationVector'' of
                  None \<Rightarrow> Inr []
                | Some (JObj v) \<Rightarrow> Inr v
                | Some _ \<Rightarrow> Inl TypeError))"

text \<open>The four subscripts \<open>auth_vectors["rand"]\<close>, ...; \<open>None\<close> stands for the
  \<open>KeyError\<close> of the first missing key.\<close>

definition vector_fields :: "(string \<times> json) list \<Rightarrow> (json \<times> json \<times> json \<times> json) option" where
  "vector_fields v =
     (case dict_get v ''rand'' of
        None \<Rightarrow> None
      | Some r \<Rightarrow>
         (case dict_get v ''autn'' of
            None \<Rightarrow> None
          | Some a \<Rightarrow>
             (case dict_get v ''hxresstar'' of
                None \<Rightarrow> None
              | Some h \<Rightarrow>
                 (case dict_get v ''kausf'' of
                    None \<Rightarrow> None
                  | Some k \<Rightarrow> Some (r, a, h, k)))))"

definition new_auth_ctx :: "string \<Rightarrow> string \<Rightarrow> json \<times> json \<times> json \<times> json \<Rightarrow> auth_ctx" where
  "new_auth_ctx supi snn f =
     (case f of (r, a, h, k) \<Rightarrow>
        \<lparr>ctx_supi = supi, ctx_servingNetworkName = snn, ctx_authType = ''5G_AKA'',
         ctx_rand = r, ctx_autn = a, ctx_hxresstar = h, ctx_kausf = k,
         ctx_status = ''ONGOING'', ctx_kseaf = None, ctx_completed = False\<rparr>)"

definition auth_info_result :: "string \<Rightarrow> string \<Rightarrow> json \<times> json \<times> json \<times> json
     \<Rightarrow> py_exception + authentication_info_result" where
  "auth_info_result supi auth_ctx_id f =
     (case f of (r, a, h, k) \<Rightarrow>
        if str_field_ok r \<and> str_field_ok a \<and> str_field_ok h \<and> str_field_ok k
        then Inr \<lparr>air_authType = ''5G_AKA'',
                   air_vector = \<lparr>av_rand = r, av_autn = a, av_hxresstar = h, av_kausf = k\<rparr>,
                   air_supi = supi,
                   air_href = ''/nausf-auth/v1/ue-authentications/'' @ auth_ctx_id
                              @ ''/5g-aka-confirmation''\<rparr>
        else Inl ValueError)"

text \<open>The \<open>try\<close> block of \<open>ue_authentication_request\<close>.  \<open>udm\<close> is the answer of the
  UDM (\<open>None\<close> when it is unreachable or does not answer 200), \<open>auth_ctx_id\<close> the UUID
  drawn, \<open>rnd\<close>, \<open>sqn\<close>, \<open>mac\<close> the random draws of the local fallback.  The context is
  stored before the response model is validated.\<close>

definition ue_authentication_request_body ::
  "(string \<Rightarrow> string) \<Rightarrow> ausf_state \<Rightarrow> string \<Rightarrow> string \<Rightarrow> (string \<times> json) list option
     \<Rightarrow> string \<Rightarrow> string \<Rightarrow> string \<Rightarrow> string
     \<Rightarrow> (py_exception + authentication_info_result) \<times> ausf_state" where
  "ue_authentication_request_body H s supi_or_suci snn udm auth_ctx_id rnd sqn mac =
     (case auth_vectors_of H (supi_of supi_or_suci) udm rnd sqn mac of
        Inl e \<Rightarrow> (Inl e, s)
      | Inr v \<Rightarrow>
         (case vector_fields v of
            None \<Rightarrow> (Inl KeyError, s)
          | Some f \<Rightarrow>
              (auth_info_result (supi_of supi_or_suci) auth_ctx_id f,
               s(auth_ctx_id \<mapsto> new_auth_ctx (supi_of supi_or_suci) snn f))))"

text \<open>\<open>ue_authentication_request\<close> (POST /nausf-auth/v1/ue-authentications): its only
  clause is \<open>except Exception\<close>.\<close>

definition ue_authentication_request ::
  "(string \<Rightarrow> string) \<Rightarrow> ausf_state \<Rightarrow> string \<Rightarrow> string \<Rightarrow> (string \<times> json) list option
     \<Rightarrow> string \<Rightarrow> string \<Rightarrow> string \<Rightarrow> string
     \<Rightarrow> authentication_info_result response \<times> ausf_state" where
  "ue_authentication_request H s supi_or_suci snn udm auth_ctx_id rnd sqn mac =
     (let (r, s') = ue_authentication_request_body H s supi_or_suci snn udm auth_ctx_id rnd sqn mac
      in (except_Exception_500 r, s'))"

record confirmation_response =
  authResult :: string
  cr_supi :: "string option"
  cr_kseaf :: "string option"
  cr_vector :: "auth_vector option"

text \<open>The \<open>try\<close> block of \<open>authentication_confirmation\<close>.  Nothing looks at the status
  the context already has.\<close>

definition authentication_confirmation_body ::
  "(string \<Rightarrow> string) \<Rightarrow> ausf_state \<Rightarrow> string \<Rightarrow> string
     \<Rightarrow> (py_exception + confirmation_response) \<times> ausf_state" where
  "authentication_confirmation_body H s authCtxId resStar =
     (case s authCtxId of
        None \<Rightarrow> (Inl (RaisedHTTP 404), s)
      | Some c \<Rightarrow>
         if verify_authentication_response s authCtxId resStar then
           (case ctx_kausf c of
              JStr kausf \<Rightarrow>
                (let kseaf = derive_kseaf H kausf (ctx_servingNetworkName c);
                     s' = s(authCtxId \<mapsto> c\<lparr>ctx_status := ''SUCCESS'', ctx_kseaf := Some kseaf,
                                             ctx_completed := True\<rparr>)
                 in if str_field_ok (ctx_rand c) \<and> str_field_ok (ctx_autn c)
                       \<and> str_field_ok (ctx_hxresstar c)
                    then (Inr \<lparr>authResult = ''AUTHENTICATION_SUCCESS'', cr_supi = Some (ctx_supi c),
                                cr_kseaf = Some kseaf,
                                cr_vector = Some \<lparr>av_rand = ctx_rand c, av_autn = ctx_autn c,
                                                   av_hxresstar = ctx_hxresstar c,
                                                   av_kausf = ctx_kausf c\<rparr>\<rparr>, s')
                    else (Inl ValueError, s'))
            | _ \<Rightarrow> (Inl TypeError, s))
         else
           (Inr \<lparr>authResult = ''AUTHENTICATION_FAILURE'', cr_supi = None, cr_kseaf = None,
                  cr_vector = None\<rparr>,
            s(authCtxId \<mapsto> c\<lparr>ctx_status := ''FAILURE'', ctx_completed := True\<rparr>)))"

text \<open>\<open>authentication_confirmation\<close> (PUT .../{authCtxId}/5g-aka-confirmation): here
  \<open>except HTTPException: raise\<close> comes first.\<close>

definition authentication_confirmation ::
  "(string \<Rightarrow> string) \<Rightarrow> ausf_state \<Rightarrow> string \<Rightarrow> string
     \<Rightarrow> confirmation_response response \<times> ausf_state" where
  "authentication_confirmation H s authCtxId resStar =
     (let (r, s') = authentication_confirmation_body H s authCtxId resStar
      in (except_HTTPException_reraise r, s'))"

text \<open>\<open>delete_authentication_context\<close> (the GET handler reads only).\<close>

definition delete_authentication_context :: "ausf_state \<Rightarrow> string \<Rightarrow> unit response \<times> ausf_state" where
  "delete_authentication_context s authCtxId =
     (case s authCtxId of
        None \<Rightarrow> (Inl (HTTPException 404), s)
      | Some c \<Rightarrow> (Inr (), s(authCtxId := None)))"

text \<open>The operations that write \<open>authentication_contexts\<close>, and runs of them from the
  empty dictionary of a fresh process.\<close>

datatype ausf_op =
    AuthRequest string string "(string \<times> json) list option" string string string string
  | Confirm string string
  | DeleteCtx string

fun ausf_step :: "(string \<Rightarrow> string) \<Rightarrow> ausf_state \<Rightarrow> ausf_op \<Rightarrow> ausf_state" where
  "ausf_step H s (AuthRequest supi_or_suci snn udm auth_ctx_id rnd sqn mac) =
     snd (ue_authentication_request H s supi_or_suci snn udm auth_ctx_id rnd sqn mac)"
| "ausf_step H s (Confirm authCtxId resStar) = snd (authentication_confirmation H s authCtxId resStar)"
| "ausf_step H s (DeleteCtx authCtxId) = snd (delete_authentication_context s authCtxId)"

definition ausf_run :: "(string \<Rightarrow> string) \<Rightarrow> ausf_op list \<Rightarrow> ausf_state" where
  "ausf_run H ops = foldl (ausf_step H) Map.empty ops"

text \<open>A UUID drawn for a new context is not one already in use.\<close>

fun fresh_id :: "ausf_state \<Rightarrow> ausf_op \<Rightarrow> bool" where
  "fresh_id s (AuthRequest supi_or_suci snn udm auth_ctx_id rnd sqn mac) = (s auth_ctx_id = None)"
| "fresh_id s _ = True"

definition terminal :: "string \<Rightarrow> bool" where
  "terminal st = (st = ''SUCCESS'' \<or> st = ''FAILURE'')"

text \<open>A toy hash for concrete runs (any function serves: the handlers only compare and
  store its results).\<close>

definition toy_hash :: "string \<Rightarrow> string" where
  "toy_hash x = rev x"

definition one_auth_request :: ausf_op where
  "one_auth_request = AuthRequest ''suci-001-01-0000-000000001'' ''5G:mnc001.mcc001.3gppnetwork.org''
     (Some [(''authenticationVector'',
             JObj [(''rand'', JStr ''r''), (''autn'', JStr ''a''), (''hxresstar'', JStr ''abc''),
                   (''kausf'', JStr ''k'')])])
     ''ctx-1'' [] [] []"

text \<open>Every context in status \<open>SUCCESS\<close> carries a \<open>kseaf\<close>.\<close>

definition kseaf_inv :: "ausf_state \<Rightarrow> bool" where
  "kseaf_inv s = (\<forall>i c. s i = Some c \<longrightarrow> ctx_status c = ''SUCCESS'' \<longrightarrow> ctx_kseaf c \<noteq> None)"

text \<open>A context after a challenge and a correct confirmation.\<close>

definition confirmed_state :: ausf_state where
  "confirmed_state = ausf_run toy_hash [one_auth_request, Confirm ''ctx-1'' ''abc'']"

definition confirmed_ctx :: auth_ctx where
  "confirmed_ctx =
     \<lparr>ctx_supi = ''imsi-000000001'', ctx_servingNetworkName = ''5G:mnc001.mcc001.3gppnetwork.org'',
      ctx_authType = ''5G_AKA'', ctx_rand = JStr ''r'', ctx_autn = JStr ''a'',
      ctx_hxresstar = JStr ''abc'', ctx_kausf = JStr ''k'', ctx_status = ''SUCCESS'',
      ctx_kseaf = Some (toy_hash ''k5G:mnc001.mcc001.3gppnetwork.orgKSEAF''), ctx_completed = True\<rparr>"

section \<open>Session management function: \<open>smf.py\<close>\<close>

text \<open>The answer of the UPF to the PFCP establishment request that
  \<open>_send_pfcp_establishment_request\<close> posts: a \<open>requests.RequestException\<close> (no
  connection, timeout, or an error status through \<open>raise_for_status\<close>), a body that is not
  a JSON object, or the JSON object.\<close>

datatype n4_outcome = N4RequestException | N4BadBody | N4Response "(string \<times> json) list"

text \<open>\<open>_send_pfcp_establishment_request\<close>; \<open>upf_url\<close> is the module variable set by the
  discovery at start-up.\<close>

definition send_pfcp_establishment_request ::
  "string option \<Rightarrow> n4_outcome \<Rightarrow> py_exception + (string \<times> json) list" where
  "send_pfcp_establishment_request upf_url n4 =
     (case upf_url of
        None \<Rightarrow> Inl (RaisedHTTP 502)
      | Some u \<Rightarrow>
          if u = [] then Inl (RaisedHTTP 502)
          else (case n4 of
                  N4RequestException \<Rightarrow> Inl (RaisedHTTP 502)
                | N4BadBody \<Rightarrow> Inl AttributeError
                | N4Response d \<Rightarrow> Inr d))"

text \<open>The integer that a JSON value is in arithmetic: \<open>x % 254\<close> and \<open>+ 1\<close> raise
  \<open>TypeError\<close> for strings (whatever the format specifiers), lists, objects and
  \<open>None\<close>.\<close>

fun py_int_of :: "json \<Rightarrow> int option" where
  "py_int_of (JInt i) = Some i"
| "py_int_of (JBool b) = Some (if b then 1 else 0)"
| "py_int_of _ = None"

definition required_fields :: "string list" where
  "required_fields = [''supi'', ''pduSessionId'', ''dnn'', ''sNssai'', ''anType'']"

text \<open>\<open>[field for field in required_fields if not pdu_session_data.get(field)]\<close>.\<close>

definition missing_fields :: "(string \<times> json) list \<Rightarrow> string list" where
  "missing_fields d =
     filter (\<lambda>f. case dict_get d f of None \<Rightarrow> True | Some v \<Rightarrow> \<not> truthy v) required_fields"

record qos_flow =
  qf_qfi :: int
  qf_5qi :: int
  qf_priority :: int

record sm_context_response =
  sm_status :: string
  sm_cause :: string
  sm_pduSessionId :: json
  ueIpAddress :: string
  qosFlowSetupRequestList :: "qos_flow list"
  contextId :: string

type_synonym smf_state = "(string \<times> (string \<times> json) list) list"

text \<open>The \<open>try\<close> block of \<open>create_sm_context\<close>.\<close>

definition create_sm_context_body ::
  "smf_state \<Rightarrow> string option \<Rightarrow> n4_outcome \<Rightarrow> (string \<times> json) list
     \<Rightarrow> (py_exception + sm_context_response) \<times> smf_state" where
  "create_sm_context_body s upf_url n4 d =
     (let supi = (case dict_get d ''supi'' of None \<Rightarrow> JNull | Some v \<Rightarrow> v);
          pdu_session_id = (case dict_get d ''pduSessionId'' of None \<Rightarrow> JNull | Some v \<Rightarrow> v)
      in case py_int_of pdu_session_id of
           None \<Rightarrow> (Inl TypeError, s)
         | Some i \<Rightarrow>
            (let ue_ip = ''10.'' @ str_int ((i mod 254) + 1) @ ''.0.1'';
                 session_context =
                   dict_set (dict_set d ''ueIpAddress'' (JStr ue_ip)) ''sessionState'' (JStr ''ESTABLISHING'')
             in case send_pfcp_establishment_request upf_url n4 of
                  Inl e \<Rightarrow> (Inl e, s)
                | Inr n4_response \<Rightarrow>
                   (let session_key = py_str supi @ '':'' @ py_str pdu_session_id;
                        stored =
                          dict_set
                            (dict_set
                               (dict_set session_context ''sessionState'' (JStr ''ACTIVE''))
                               ''pfcpSeid''
                               (case dict_get n4_response ''upfSeid'' of
                                  None \<Rightarrow> JStr ''upf-seid-unknown'' | Some v \<Rightarrow> v))
                            ''n3TunnelInfo''
                            (case dict_get n4_response ''n3_endpoint'' of None \<Rightarrow> JNull | Some v \<Rightarrow> v)
                    in (Inr \<lparr>sm_status = ''CREATED'', sm_cause = ''PDU_SESSION_ESTABLISHMENT_ACCEPTED'',
                              sm_pduSessionId = pdu_session_id, ueIpAddress = ue_ip,
                              qosFlowSetupRequestList = [\<lparr>qf_qfi = 9, qf_5qi = 9, qf_priority = 80\<rparr>],
                              contextId = session_key\<rparr>,
                        dict_set s session_key stored))))"

text \<open>\<open>create_sm_context\<close> (POST /nsmf-pdusession/v1/sm-contexts).  The check of the
  mandatory fields stands before the \<open>try\<close>; the \<open>try\<close> has \<open>except HTTPException:
  raise\<close> before \<open>except Exception\<close>.\<close>

definition create_sm_context ::
  "smf_state \<Rightarrow> string option \<Rightarrow> n4_outcome \<Rightarrow> (string \<times> json) list
     \<Rightarrow> sm_context_response response \<times> smf_state" where
  "create_sm_context s upf_url n4 d =
     (if missing_fields d \<noteq> [] then (Inl (HTTPException 400), s)
      else (let (r, s') = create_sm_context_body s upf_url n4 d
            in (except_HTTPException_reraise r, s')))"

text \<open>The request of scenario S2.\<close>

definition s2_request :: "(string \<times> json) list" where
  "s2_request = [(''supi'', JStr ''imsi-001010000000001''), (''pduSessionId'', JInt 1),
     (''dnn'', JStr ''internet''), (''sNssai'', JObj [(''sst'', JInt 1), (''sd'', JStr ''010203'')]),
     (''anType'', JStr ''3GPP_ACCESS'')]"

section \<open>Access and mobility management function: \<open>amf_nas.py\<close>\<close>

record Snssai =
  sst :: int
  sd :: "string option"

record RegistrationRequest =
  suci :: string
  registration_type :: int
  ue_security_capability :: json
  requested_nssai :: "Snssai list option"

text \<open>An entry of \<open>ue_contexts\<close>.  \<open>registration_state\<close> is the string the handlers
  store.  \<open>allowed_nssai\<close>, \<open>security_mode_complete\<close> and \<open>imeisv\<close> are keys that later
  steps add.  The registration time is not kept.\<close>

record ue_context =
  uc_supi :: string
  uc_suci :: string
  uc_registration_type :: int
  uc_ue_security_capability :: json
  uc_requested_nssai :: "Snssai list option"
  registration_state :: string
  guti :: "string option"
  allowed_nssai :: "Snssai list option"
  security_mode_complete :: bool
  imeisv :: "json option"

record amf_pdu_session =
  ps_pdu_session_id :: int
  ps_pti :: int
  ps_pdu_session_type :: int
  ps_ssc_mode :: int
  ps_state :: string
  smf_context :: "json option"

record amf_state =
  ue_contexts :: "string \<rightharpoonup> ue_context"
  pdu_sessions :: "string \<rightharpoonup> amf_pdu_session"

definition amf_init :: amf_state where
  "amf_init = \<lparr>ue_contexts = Map.empty, pdu_sessions = Map.empty\<rparr>"

text \<open>\<open>hex(n)[2:].upper().zfill(8)\<close> for a natural number.\<close>

definition hex_digit :: "nat \<Rightarrow> char" where
  "hex_digit n = ''0123456789ABCDEF'' ! n"

fun hex_nat :: "nat \<Rightarrow> string" where
  "hex_nat n = (if n < 16 then [hex_digit n] else hex_nat (n div 16) @ [hex_digit (n mod 16)])"

declare hex_nat.simps [simp del]

definition zfill8 :: "string \<Rightarrow> string" where
  "zfill8 x = replicate (8 - length x) (CHR ''0'') @ x"

text \<open>\<open>AMF_NAS.generate_5g_guti\<close>; \<open>py_hash\<close> is Python's \<open>hash\<close> on strings (it
  differs from process to process), and \<open>hash(imsi) & 0xFFFFFFFF\<close> is its residue modulo
  \<open>2^32\<close>.\<close>

definition generate_5g_guti :: "(string \<Rightarrow> int) \<Rightarrow> string \<Rightarrow> string" where
  "generate_5g_guti py_hash supi =
     (let imsi = (if take 5 supi = ''imsi-'' then drop 5 supi else ''001010000000001'')
      in ''4'' @ ''001010001001'' @ zfill8 (hex_nat (nat (py_hash imsi mod 4294967296))))"

record registration_accept =
  mobile_identity :: string
  ra_allowed_nssai :: "Snssai list option"
  ra_rejected_nssai :: "Snssai list option"

text \<open>The slice/service types of \<open>plmn_support_list\<close>.\<close>

definition supported_sst :: "int list" where
  "supported_sst = [1, 2]"

text \<open>\<open>AMF_NAS.create_registration_accept\<close>.\<close>

definition create_registration_accept ::
  "(string \<Rightarrow> int) \<Rightarrow> string \<Rightarrow> Snssai list option \<Rightarrow> registration_accept" where
  "create_registration_accept py_hash supi requested =
     (let req = (case requested of None \<Rightarrow> [] | Some xs \<Rightarrow> xs);
          allowed = (if req \<noteq> [] then filter (\<lambda>x. sst x \<in> set supported_sst) req
                     else [\<lparr>sst = 1, sd = Some ''010203''\<rparr>]);
          rejected = (if req \<noteq> [] then filter (\<lambda>x. sst x \<notin> set supported_sst) req else [])
      in \<lparr>mobile_identity = generate_5g_guti py_hash supi,
          ra_allowed_nssai = (if allowed \<noteq> [] then Some allowed else None),
          ra_rejected_nssai = (if rejected \<noteq> [] then Some rejected else None)\<rparr>)"

datatype nas_message =
    AuthenticationRequestMsg json json
  | RegistrationAcceptMsg registration_accept

record registration_response =
  reg_status :: string
  reg_nas_message :: nas_message
  reg_guti :: "string option"
  reg_udm_registered :: "bool option"

text \<open>\<open>AMF_NAS.create_authentication_request\<close> on \<open>auth_result["authenticationVector"]\<close>:
  the subscripts and the validation of the two \<open>str\<close> fields.\<close>

definition create_authentication_request :: "(string \<times> json) list \<Rightarrow> py_exception + nas_message" where
  "create_authentication_request auth_result =
     (case dict_get auth_result ''authenticationVector'' of
        None \<Rightarrow> Inl KeyError
      | Some (JObj v) \<Rightarrow>
         (case dict_get v ''rand'' of
            None \<Rightarrow> Inl KeyError
          | Some r \<Rightarrow>
             (case dict_get v ''autn'' of
                None \<Rightarrow> Inl KeyError
              | Some a \<Rightarrow>
                  if str_field_ok r \<and> str_field_ok a then Inr (AuthenticationRequestMsg r a)
                  else Inl ValueError))
      | Some _ \<Rightarrow> Inl TypeError)"

text \<open>The \<open>try\<close> block of \<open>process_registration_request\<close>.  \<open>auth_result\<close> is what
  \<open>initiate_authentication\<close> returns (the AUSF's JSON answer, or \<open>None\<close>), \<open>udm_ok\<close>
  what \<open>register_with_udm\<close> returns.\<close>

definition initial_ue_context :: "string \<Rightarrow> RegistrationRequest \<Rightarrow> ue_context" where
  "initial_ue_context supi req =
     \<lparr>uc_supi = supi, uc_suci = suci req, uc_registration_type = registration_type req,
      uc_ue_security_capability = ue_security_capability req,
      uc_requested_nssai = requested_nssai req, registration_state = ''INITIAL'',
      guti = None, allowed_nssai = None, security_mode_complete = False, imeisv = None\<rparr>"

definition authentication_initiated :: "RegistrationRequest \<Rightarrow> (string \<times> json) list option \<Rightarrow> bool" where
  "authentication_initiated req auth_result =
     (registration_type req \<in> {1, 3} \<and> (case auth_result of None \<Rightarrow> False | Some d \<Rightarrow> d \<noteq> []))"

definition process_registration_request_body ::
  "(string \<Rightarrow> int) \<Rightarrow> amf_state \<Rightarrow> RegistrationRequest \<Rightarrow> (string \<times> json) list option \<Rightarrow> bool
     \<Rightarrow> (py_exception + registration_response) \<times> amf_state" where
  "process_registration_request_body py_hash s req auth_result udm_ok =
     (let supi = supi_of (suci req);
          ue = initial_ue_context supi req;
          s1 = s\<lparr>ue_contexts := (ue_contexts s)(supi \<mapsto> ue)\<rparr>
      in if authentication_initiated req auth_result then
           (case create_authentication_request (the auth_result) of
              Inl e \<Rightarrow> (Inl e, s1)
            | Inr msg \<Rightarrow>
                (Inr \<lparr>reg_status = ''AUTHENTICATION_REQUIRED'', reg_nas_message = msg,
                       reg_guti = None, reg_udm_registered = None\<rparr>, s1))
         else
           (let acc = create_registration_accept py_hash supi (requested_nssai req);
                ue' = ue\<lparr>registration_state := ''REGISTERED'', guti := Some (mobile_identity acc),
                         allowed_nssai := ra_allowed_nssai acc\<rparr>
            in (Inr \<lparr>reg_status = ''REGISTRATION_ACCEPT'', reg_nas_message = RegistrationAcceptMsg acc,
                      reg_guti = Some (mobile_identity acc), reg_udm_registered = Some udm_ok\<rparr>,
                s1\<lparr>ue_contexts := (ue_contexts s1)(supi \<mapsto> ue')\<rparr>)))"

text \<open>\<open>process_registration_request\<close> (POST /nas/registration-request).\<close>

definition process_registration_request ::
  "(string \<Rightarrow> int) \<Rightarrow> amf_state \<Rightarrow> RegistrationRequest \<Rightarrow> (string \<times> json) list option \<Rightarrow> bool
     \<Rightarrow> registration_response response \<times> amf_state" where
  "process_registration_request py_hash s req auth_result udm_ok =
     (let (r, s') = process_registration_request_body py_hash s req auth_result udm_ok
      in (except_Exception_500 r, s'))"

text \<open>\<open>process_security_mode_complete\<close> (POST /nas/security-mode-complete), the other
  handler that writes \<open>ue_contexts\<close>; \<open>supi\<close> is \<open>security_data.get("supi")\<close>.  (The
  handler of the authentication response writes \<open>nas_security_contexts\<close> only.)\<close>

definition process_security_mode_complete ::
  "(string \<Rightarrow> int) \<Rightarrow> amf_state \<Rightarrow> string option \<Rightarrow> json option
     \<Rightarrow> registration_accept response \<times> amf_state" where
  "process_security_mode_complete py_hash s supi imeisv_value =
     (case supi of
        None \<Rightarrow> (except_Exception_500 (Inl (RaisedHTTP 404)), s)
      | Some u \<Rightarrow>
         (case ue_contexts s u of
            None \<Rightarrow> (except_Exception_500 (Inl (RaisedHTTP 404)), s)
          | Some ue \<Rightarrow>
             (let acc = create_registration_accept py_hash u (uc_requested_nssai ue);
                  ue' = ue\<lparr>security_mode_complete := True, imeisv := imeisv_value,
                           registration_state := ''REGISTERED'', guti := Some (mobile_identity acc)\<rparr>
              in (except_Exception_500 (Inr acc), s\<lparr>ue_contexts := (ue_contexts s)(u \<mapsto> ue')\<rparr>))))"

datatype amf_op =
    RegistrationReq RegistrationRequest "(string \<times> json) list option" bool
  | SecurityModeComplete "string option" "json option"

fun amf_step :: "(string \<Rightarrow> int) \<Rightarrow> amf_state \<Rightarrow> amf_op \<Rightarrow> amf_state" where
  "amf_step py_hash s (RegistrationReq req auth_result udm_ok) =
     snd (process_registration_request py_hash s req auth_result udm_ok)"
| "amf_step py_hash s (SecurityModeComplete supi imeisv_value) =
     snd (process_security_mode_complete py_hash s supi imeisv_value)"

definition amf_run :: "(string \<Rightarrow> int) \<Rightarrow> amf_op list \<Rightarrow> amf_state" where
  "amf_run py_hash ops = foldl (amf_step py_hash) amf_init ops"

subsection \<open>PDU session establishment\<close>

record PduSessionEstablishmentRequest =
  pdu_session_id :: int
  pti :: int
  pdu_session_type :: int
  ssc_mode :: int

text \<open>The \<open>smf_request\<close> dictionary.\<close>

definition smf_request_of :: "PduSessionEstablishmentRequest \<Rightarrow> (string \<times> json) list" where
  "smf_request_of pdu_req =
     [(''pduSessionId'', JInt (pdu_session_id pdu_req)), (''dnn'', JStr ''internet''),
      (''sNssai'', JObj [(''sst'', JInt 1), (''sd'', JStr ''010203'')]),
      (''pduSessionType'', JStr ''IPV4''), (''sscMode'', JStr ''SSC_MODE_1'')]"

text \<open>What \<open>requests.post\<close> gives: an exception, or a response with its status code and its
  JSON body (\<open>None\<close> when the body is not JSON).\<close>

datatype http_outcome = ConnectionError | HttpResponse int "json option"

record pdu_session_response =
  pdu_status :: string
  resp_pdu_session_id :: int
  session_context :: "amf_pdu_session option"
  allocated_ip :: "string option"

text \<open>\<open>process_pdu_session_establishment_request\<close> (POST
  /nas/pdu-session-establishment-request).  \<open>session_id\<close> is the UUID drawn, \<open>smf_url\<close>
  the module variable, \<open>smf\<close> the peer that answers the POST to
  \<open>/nsmf-pdusession/v1/sm-contexts\<close>.\<close>

definition process_pdu_session_establishment_request ::
  "amf_state \<Rightarrow> string \<Rightarrow> PduSessionEstablishmentRequest \<Rightarrow> string option
     \<Rightarrow> ((string \<times> json) list \<Rightarrow> http_outcome)
     \<Rightarrow> pdu_session_response response \<times> amf_state" where
  "process_pdu_session_establishment_request s session_id pdu_req smf_url smf =
     (let pdu_session = \<lparr>ps_pdu_session_id = pdu_session_id pdu_req, ps_pti = pti pdu_req,
                          ps_pdu_session_type = pdu_session_type pdu_req,
                          ps_ssc_mode = ssc_mode pdu_req, ps_state = ''CREATING'',
                          smf_context = None\<rparr>;
          s1 = s\<lparr>pdu_sessions := (pdu_sessions s)(session_id \<mapsto> pdu_session)\<rparr>;
          fallback =
            (Inr \<lparr>pdu_status = ''PDU_SESSION_ESTABLISHMENT_ACCEPT'',
                   resp_pdu_session_id = pdu_session_id pdu_req, session_context = None,
                   allocated_ip = Some ''192.168.1.100''\<rparr>,
             s1\<lparr>pdu_sessions := (pdu_sessions s1)(session_id \<mapsto> pdu_session\<lparr>ps_state := ''ACTIVE''\<rparr>)\<rparr>)
      in if (case smf_url of None \<Rightarrow> False | Some u \<Rightarrow> u \<noteq> []) then
           (case smf (smf_request_of pdu_req) of
              ConnectionError \<Rightarrow> (Inl (HTTPException 500), s1)
            | HttpResponse code body \<Rightarrow>
                if code \<in> {200, 201} then
                  (case body of
                     None \<Rightarrow> (Inl (HTTPException 500),
                               s1\<lparr>pdu_sessions :=
                                    (pdu_sessions s1)(session_id \<mapsto> pdu_session\<lparr>ps_state := ''ACTIVE''\<rparr>)\<rparr>)
                   | Some b \<Rightarrow>
                      (let active = pdu_session\<lparr>ps_state := ''ACTIVE'', smf_context := Some b\<rparr>
                       in (Inr \<lparr>pdu_status = ''PDU_SESSION_ESTABLISHMENT_ACCEPT'',
                                 resp_pdu_session_id = pdu_session_id pdu_req,
                                 session_context = Some active, allocated_ip = None\<rparr>,
                           s1\<lparr>pdu_sessions := (pdu_sessions s1)(session_id \<mapsto> active)\<rparr>)))
                else fallback)
         else fallback)"

text \<open>The SMF of this repository as the peer: its handler's answer as an HTTP response
  (an \<open>HTTPException\<close> becomes a response with that status and a JSON body holding the
  detail; the body of a success is not looked into here).\<close>

definition smf_peer ::
  "smf_state \<Rightarrow> string option \<Rightarrow> n4_outcome \<Rightarrow> (string \<times> json) list \<Rightarrow> http_outcome" where
  "smf_peer ss upf_url n4 d =
     (case fst (create_sm_context ss upf_url n4 d) of
        Inl (HTTPException c) \<Rightarrow> HttpResponse c (Some (JObj [(''detail'', JNull)]))
      | Inr r \<Rightarrow> HttpResponse 200 (Some (JObj [(''status'', JStr (sm_status r))])))"

text \<open>The registration request of scenario S1 and an answer of the AUSF to it.\<close>

definition s1_registration :: RegistrationRequest where
  "s1_registration = \<lparr>suci = ''suci-001-01-0000-000000001'', registration_type = 1,
     ue_security_capability = JObj [], requested_nssai = None\<rparr>"

definition s1_auth_result :: "(string \<times> json) list" where
  "s1_auth_result = [(''authType'', JStr ''5G_AKA''),
     (''authenticationVector'', JObj [(''rand'', JStr ''r''), (''autn'', JStr ''a''),
        (''hxresstar'', JStr ''abc''), (''kausf'', JStr ''k'')]),
     (''supi'', JStr ''imsi-000000001'')]"

definition amf_state_inv :: "amf_state \<Rightarrow> bool" where
  "amf_state_inv s =
     (\<forall>u c. ue_contexts s u = Some c \<longrightarrow> registration_state c \<in> {''INITIAL'', ''REGISTERED''})"

section \<open>Policy control function: \<open>pcf.py\<close>\<close>

datatype PolicyControlRequestTrigger =
    PLMN_CH | RES_MO_RE | AC_TY_CH | UE_IP_CH | UE_MAC_CH | AN_CH_COR | US_RE | APP_STA
  | APP_STO | AN_INFO | CM_SES_FAIL | PS_DA_OFF | DEF_QOS_CH | SE_AMBR_CH | QOS_NOTIF
  | NO_CREDIT | REALLO_OF_CREDIT | PRA_CH | SAREA_CH | SCNN_CH | RE_TIMEOUT | RES_RELEASE
  | SUCC_RESOURCE_ALLO | RAI_CH | RFSP_CH | PCC_UPD

text \<open>The values of the enumeration.\<close>

definition trigger_values :: "(string \<times> PolicyControlRequestTrigger) list" where
  "trigger_values =
     [(''PLMN_CH'', PLMN_CH), (''RES_MO_RE'', RES_MO_RE), (''AC_TY_CH'', AC_TY_CH),
      (''UE_IP_CH'', UE_IP_CH), (''UE_MAC_CH'', UE_MAC_CH), (''AN_CH_COR'', AN_CH_COR),
      (''US_RE'', US_RE), (''APP_STA'', APP_STA), (''APP_STO'', APP_STO),
      (''AN_INFO'', AN_INFO), (''CM_SES_FAIL'', CM_SES_FAIL), (''PS_DA_OFF'', PS_DA_OFF),
      (''DEF_QOS_CH'', DEF_QOS_CH), (''SE_AMBR_CH'', SE_AMBR_CH), (''QOS_NOTIF'', QOS_NOTIF),
      (''NO_CREDIT'', NO_CREDIT), (''REALLO_OF_CREDIT'', REALLO_OF_CREDIT),
      (''PRA_CH'', PRA_CH), (''SAREA_CH'', SAREA_CH), (''SCNN_CH'', SCNN_CH),
      (''RE_TIMEOUT'', RE_TIMEOUT), (''RES_RELEASE'', RES_RELEASE),
      (''SUCC_RESOURCE_ALLO'', SUCC_RESOURCE_ALLO), (''RAI_CH'', RAI_CH),
      (''RFSP_CH'', RFSP_CH), (''PCC_UPD'', PCC_UPD)]"

text \<open>\<open>PolicyControlRequestTrigger(t)\<close>: the member with value \<open>t\<close>; for any other
  value the enumeration raises \<open>ValueError\<close> (\<open>None\<close> here).\<close>

fun trigger_of_json :: "json \<Rightarrow> PolicyControlRequestTrigger option" where
  "trigger_of_json (JStr v) = map_of trigger_values v"
| "trigger_of_json _ = None"

record Arp =
  arp_priority_level :: int
  pre_emption_capability :: string
  pre_emption_vulnerability :: string

record QosData =
  qosId :: string
  qd_fiveqi :: "int option"
  maxbrUl :: "string option"
  maxbrDl :: "string option"
  gbrUl :: "string option"
  gbrDl :: "string option"
  arp :: "Arp option"
  priorityLevel :: "int option"
  averWindow :: "int option"
  maxPacketLossRateDl :: "int option"
  maxPacketLossRateUl :: "int option"
  qosFlowUsage :: "string option"

record FlowInformation =
  flowDescription :: string
  flowDirection :: string

record PccRule =
  pccRuleId :: string
  flowInfos :: "FlowInformation list"
  appId :: "string option"
  pccRuleStatus :: string
  rule_precedence :: int
  refQosData :: "string list"

text \<open>The fields of \<open>SmPolicyDecision\<close> that \<open>create_sm_policy_decision\<close> sets; the others
  stay \<open>None\<close>.  Times are in seconds.\<close>

record SmPolicyDecision =
  pccRules :: "(string \<times> PccRule) list"
  qosDecs :: "(string \<times> QosData) list"
  dec_online :: bool
  dec_offline :: bool
  policyCtrlReqTriggers :: "PolicyControlRequestTrigger list"
  revalidationTime :: int
  dec_supi :: string
  suppFeat :: string

text \<open>The fields of \<open>SmPolicyContextData\<close> that the handlers read.\<close>

record SmPolicyContextData =
  pc_supi :: string
  pc_dnn :: string
  pc_notificationUri :: string
  pc_online :: "bool option"
  pc_offline :: "bool option"

text \<open>The dictionaries of the module.  Objects are held by value: a \<open>QosData\<close> of a
  decision is a value of its own, not a reference into \<open>qos_data_database\<close>.  The two
  dictionaries \<open>pccRules\<close> and \<open>qosDecs\<close> of a decision are the ones that the shallow
  \<open>copy()\<close> in \<open>update_sm_policy_decision\<close> shares with the stored decision.\<close>

record pcf_state =
  policy_associations :: "string \<rightharpoonup> SmPolicyContextData"
  sm_policy_decisions :: "string \<rightharpoonup> SmPolicyDecision"
  pcc_rules_database :: "(string \<times> PccRule) list"
  qos_data_database :: "(string \<times> QosData) list"

definition qos_data :: "string \<Rightarrow> int \<Rightarrow> Arp \<Rightarrow> int \<Rightarrow> QosData" where
  "qos_data i q a p =
     \<lparr>qosId = i, qd_fiveqi = Some q, maxbrUl = None, maxbrDl = None, gbrUl = None, gbrDl = None,
      arp = Some a, priorityLevel = Some p, averWindow = None, maxPacketLossRateDl = None,
      maxPacketLossRateUl = None, qosFlowUsage = None\<rparr>"

text \<open>\<open>PCF._initialize_default_policies\<close>.\<close>

definition default_qos_data :: "(string \<times> QosData) list" where
  "default_qos_data =
     [(''qos_internet'',
        qos_data ''qos_internet'' 9
          \<lparr>arp_priority_level = 8, pre_emption_capability = ''NOT_PREEMPT'',
           pre_emption_vulnerability = ''NOT_PREEMPTABLE''\<rparr> 8),
      (''qos_ims'',
        (qos_data ''qos_ims'' 5
          \<lparr>arp_priority_level = 1, pre_emption_capability = ''MAY_PREEMPT'',
           pre_emption_vulnerability = ''NOT_PREEMPTABLE''\<rparr> 1)
        \<lparr>gbrUl := Some ''128 Kbps'', gbrDl := Some ''128 Kbps'', maxbrUl := Some ''256 Kbps'',
         maxbrDl := Some ''256 Kbps'', qosFlowUsage := Some ''IMS_SIG''\<rparr>),
      (''qos_video'',
        (qos_data ''qos_video'' 2
          \<lparr>arp_priority_level = 4, pre_emption_capability = ''NOT_PREEMPT'',
           pre_emption_vulnerability = ''PREEMPTABLE''\<rparr> 4)
        \<lparr>gbrUl := Some ''2 Mbps'', gbrDl := Some ''10 Mbps'', maxbrUl := Some ''5 Mbps'',
         maxbrDl := Some ''25 Mbps'', averWindow := Some 2000, maxPacketLossRateDl := Some 1,
         maxPacketLossRateUl := Some 1\<rparr>),
      (''qos_gaming'',
        (qos_data ''qos_gaming'' 83
          \<lparr>arp_priority_level = 7, pre_emption_capability = ''NOT_PREEMPT'',
           pre_emption_vulnerability = ''PREEMPTABLE''\<rparr> 7)
        \<lparr>gbrUl := Some ''500 Kbps'', gbrDl := Some ''1 Mbps'', maxbrUl := Some ''1 Mbps'',
         maxbrDl := Some ''2 Mbps''\<rparr>)]"

definition default_pcc_rules :: "(string \<times> PccRule) list" where
  "default_pcc_rules =
     [(''rule_internet_default'',
        \<lparr>pccRuleId = ''rule_internet_default'',
         flowInfos = [\<lparr>flowDescription = ''permit out ip from any to assigned'',
                       flowDirection = ''DOWNLINK''\<rparr>,
                      \<lparr>flowDescription = ''permit in ip from any to assigned'',
                       flowDirection = ''UPLINK''\<rparr>],
         appId = None, pccRuleStatus = ''ACTIVE'', rule_precedence = 1000,
         refQosData = [''qos_internet'']\<rparr>),
      (''rule_ims_signalling'',
        \<lparr>pccRuleId = ''rule_ims_signalling'',
         flowInfos = [\<lparr>flowDescription = ''permit out 17 from any 5060 to assigned'',
                       flowDirection = ''BIDIRECTIONAL''\<rparr>],
         appId = None, pccRuleStatus = ''ACTIVE'', rule_precedence = 100,
         refQosData = [''qos_ims'']\<rparr>),
      (''rule_video_streaming'',
        \<lparr>pccRuleId = ''rule_video_streaming'',
         flowInfos = [\<lparr>flowDescription = ''permit out tcp from any 80,443 to assigned'',
                       flowDirection = ''DOWNLINK''\<rparr>],
         appId = Some ''video_streaming_app'', pccRuleStatus = ''ACTIVE'', rule_precedence = 200,
         refQosData = [''qos_video'']\<rparr>),
      (''rule_gaming'',
        \<lparr>pccRuleId = ''rule_gaming'',
         flowInfos = [\<lparr>flowDescription = ''permit out udp from any 7000-8000 to assigned'',
                       flowDirection = ''BIDIRECTIONAL''\<rparr>],
         appId = Some ''gaming_app'', pccRuleStatus = ''ACTIVE'', rule_precedence = 300,
         refQosData = [''qos_gaming'']\<rparr>)]"

definition pcf_init :: pcf_state where
  "pcf_init = \<lparr>policy_associations = Map.empty, sm_policy_decisions = Map.empty,
               pcc_rules_database = default_pcc_rules, qos_data_database = default_qos_data\<rparr>"

definition policy_triggers :: "PolicyControlRequestTrigger list" where
  "policy_triggers = [PLMN_CH, RES_MO_RE, AC_TY_CH, UE_IP_CH, AN_CH_COR, US_RE, APP_STA, APP_STO,
     DEF_QOS_CH, SE_AMBR_CH, QOS_NOTIF, SUCC_RESOURCE_ALLO, RAI_CH, PCC_UPD]"

text \<open>\<open>rules[r] = pcc_rules_database[r]; qos[q] = qos_data_database[q]\<close>; a key that a
  database lacks raises \<open>KeyError\<close>.\<close>

definition add_rule_and_qos ::
  "pcf_state \<Rightarrow> string \<Rightarrow> string \<Rightarrow> (string \<times> PccRule) list \<times> (string \<times> QosData) list
     \<Rightarrow> py_exception + (string \<times> PccRule) list \<times> (string \<times> QosData) list" where
  "add_rule_and_qos s r q dicts =
     (case dict_get (pcc_rules_database s) r of
        None \<Rightarrow> Inl KeyError
      | Some rule \<Rightarrow>
         (case dict_get (qos_data_database s) q of
            None \<Rightarrow> Inl KeyError
          | Some qd \<Rightarrow> Inr (dict_set (fst dicts) r rule, dict_set (snd dicts) q qd)))"

text \<open>\<open>PCF.create_sm_policy_decision\<close>; \<open>now\<close> is \<open>datetime.utcnow()\<close>.\<close>

definition create_sm_policy_decision ::
  "pcf_state \<Rightarrow> SmPolicyContextData \<Rightarrow> int \<Rightarrow> py_exception + SmPolicyDecision" where
  "create_sm_policy_decision s context_data now =
     (case add_rule_and_qos s ''rule_internet_default'' ''qos_internet'' ([], []) of
        Inl e \<Rightarrow> Inl e
      | Inr d0 \<Rightarrow>
         (case (if pc_dnn context_data = ''ims''
                then add_rule_and_qos s ''rule_ims_signalling'' ''qos_ims'' d0
                else if sublist ''video'' (pc_dnn context_data)
                then add_rule_and_qos s ''rule_video_streaming'' ''qos_video'' d0
                else if sublist ''gaming'' (pc_dnn context_data)
                then add_rule_and_qos s ''rule_gaming'' ''qos_gaming'' d0
                else Inr d0) of
            Inl e \<Rightarrow> Inl e
          | Inr d1 \<Rightarrow>
              Inr \<lparr>pccRules = fst d1, qosDecs = snd d1, dec_online = True, dec_offline = True,
                    policyCtrlReqTriggers = policy_triggers, revalidationTime = now + 86400,
                    dec_supi = pc_supi context_data, suppFeat = ''0x1f''\<rparr>))"

text \<open>\<open>create_sm_policy\<close> (POST /npcf-smpolicycontrol/v1/sm-policies);
  \<open>policy_association_id\<close> is the UUID drawn.\<close>

definition create_sm_policy ::
  "pcf_state \<Rightarrow> string \<Rightarrow> SmPolicyContextData \<Rightarrow> int \<Rightarrow> SmPolicyDecision response \<times> pcf_state" where
  "create_sm_policy s policy_association_id context_data now =
     (let s1 = s\<lparr>policy_associations := (policy_associations s)(policy_association_id \<mapsto> context_data)\<rparr>
      in case create_sm_policy_decision s context_data now of
           Inl e \<Rightarrow> (Inl (HTTPException 500), s1)
         | Inr d \<Rightarrow>
             (Inr d, s1\<lparr>sm_policy_decisions := (sm_policy_decisions s1)(policy_association_id \<mapsto> d)\<rparr>))"

text \<open>\<open>get_sm_policy\<close> (GET): its 404 is raised outside any \<open>try\<close>.\<close>

definition get_sm_policy :: "pcf_state \<Rightarrow> string \<Rightarrow> SmPolicyDecision response" where
  "get_sm_policy s smPolicyId =
     (case sm_policy_decisions s smPolicyId of
        None \<Rightarrow> Inl (HTTPException 404)
      | Some d \<Rightarrow> Inr d)"

subsection \<open>Update of a policy association\<close>

text \<open>\<open>for t in v\<close>: the items of a list, the characters of a string, the keys of a
  dictionary; any other JSON value is not iterable.\<close>

fun py_iter :: "json \<Rightarrow> py_exception + json list" where
  "py_iter (JList xs) = Inr xs"
| "py_iter (JStr v) = Inr (map (\<lambda>c. JStr [c]) v)"
| "py_iter (JObj kvs) = Inr (map (\<lambda>kv. JStr (fst kv)) kvs)"
| "py_iter _ = Inl TypeError"

text \<open>\<open>[PolicyControlRequestTrigger(t) for t in ts]\<close>.\<close>

fun convert_triggers :: "json list \<Rightarrow> py_exception + PolicyControlRequestTrigger list" where
  "convert_triggers [] = Inr []"
| "convert_triggers (t # ts) =
     (case trigger_of_json t of
        None \<Rightarrow> Inl ValueError
      | Some g \<Rightarrow>
         (case convert_triggers ts of
            Inl e \<Rightarrow> Inl e
          | Inr gs \<Rightarrow> Inr (g # gs)))"

text \<open>The \<open>triggers\<close> of the handler: empty unless \<open>update_data\<close> is a non-empty
  dictionary with the key \<open>"triggers"\<close>.\<close>

definition triggers_of :: "(string \<times> json) list option \<Rightarrow> py_exception + PolicyControlRequestTrigger list" where
  "triggers_of update_data =
     (case update_data of
        None \<Rightarrow> Inr []
      | Some d \<Rightarrow>
         (case dict_get d ''triggers'' of
            None \<Rightarrow> Inr []
          | Some v \<Rightarrow>
             (case py_iter v of
                Inl e \<Rightarrow> Inl e
              | Inr ts \<Rightarrow> convert_triggers ts)))"

text \<open>\<open>update_data.get("context_updates", {}) if update_data else {}\<close>.\<close>

definition context_updates_of :: "(string \<times> json) list option \<Rightarrow> json" where
  "context_updates_of update_data =
     (case update_data of
        None \<Rightarrow> JObj []
      | Some d \<Rightarrow> (case dict_get d ''context_updates'' of None \<Rightarrow> JObj [] | Some v \<Rightarrow> v))"

text \<open>\<open>k in v\<close>, \<open>v[k]\<close> and \<open>v.get(k)\<close> for a string \<open>k\<close> and a JSON value \<open>v\<close>.\<close>

fun py_contains :: "json \<Rightarrow> string \<Rightarrow> py_exception + bool" where
  "py_contains (JObj kvs) k = Inr (k \<in> set (map fst kvs))"
| "py_contains (JList xs) k = Inr (JStr k \<in> set xs)"
| "py_contains (JStr v) k = Inr (sublist k v)"
| "py_contains _ k = Inl TypeError"

fun py_subscript :: "json \<Rightarrow> string \<Rightarrow> py_exception + json" where
  "py_subscript (JObj kvs) k = (case dict_get kvs k of None \<Rightarrow> Inl KeyError | Some v \<Rightarrow> Inr v)"
| "py_subscript _ k = Inl TypeError"

fun py_get :: "json \<Rightarrow> string \<Rightarrow> py_exception + json" where
  "py_get (JObj kvs) k = Inr (case dict_get kvs k of None \<Rightarrow> JNull | Some v \<Rightarrow> v)"
| "py_get _ k = Inl AttributeError"

text \<open>\<open>if context_updates and k in context_updates: x = context_updates[k]\<close>: the value
  \<open>x\<close> when the guard holds.\<close>

definition guarded_lookup :: "json \<Rightarrow> string \<Rightarrow> py_exception + json option" where
  "guarded_lookup context_updates k =
     (if \<not> truthy context_updates then Inr None
      else case py_contains context_updates k of
             Inl e \<Rightarrow> Inl e
           | Inr False \<Rightarrow> Inr None
           | Inr True \<Rightarrow>
              (case py_subscript context_updates k of Inl e \<Rightarrow> Inl e | Inr v \<Rightarrow> Inr (Some v)))"

text \<open>\<open>v == 1\<close> (\<open>True == 1\<close> in Python).\<close>

fun equals_one :: "json \<Rightarrow> bool" where
  "equals_one (JInt i) = (i = 1)"
| "equals_one (JBool b) = b"
| "equals_one _ = False"

definition qos_voice :: QosData where
  "qos_voice =
     \<lparr>qosId = ''qos_voice'', qd_fiveqi = Some 1, maxbrUl = None, maxbrDl = None,
      gbrUl = Some ''64 Kbps'', gbrDl = Some ''64 Kbps'',
      arp = Some \<lparr>arp_priority_level = 2, pre_emption_capability = ''NOT_PREEMPT'',
                  pre_emption_vulnerability = ''NOT_PREEMPTABLE''\<rparr>,
      priorityLevel = None, averWindow = None, maxPacketLossRateDl = None,
      maxPacketLossRateUl = None, qosFlowUsage = None\<rparr>"

definition reduce_best_effort :: "QosData \<Rightarrow> QosData" where
  "reduce_best_effort qd =
     (if qd_fiveqi qd = Some 9 then qd\<lparr>maxbrUl := Some ''500 Kbps'', maxbrDl := Some ''1 Mbps''\<rparr>
      else qd)"

text \<open>One round of the loop over the triggers in \<open>update_sm_policy_decision\<close>, on the
  two dictionaries of the decision.\<close>

definition apply_trigger ::
  "pcf_state \<Rightarrow> json \<Rightarrow> SmPolicyDecision \<Rightarrow> PolicyControlRequestTrigger
     \<Rightarrow> py_exception + SmPolicyDecision" where
  "apply_trigger s context_updates d trigger =
     (if trigger = RES_MO_RE then
        (case guarded_lookup context_updates ''qos_requirements'' of
           Inl e \<Rightarrow> Inl e
         | Inr None \<Rightarrow> Inr d
         | Inr (Some new_qos) \<Rightarrow>
            (case py_get new_qos ''fiveqi'' of
               Inl e \<Rightarrow> Inl e
             | Inr v \<Rightarrow>
                 if equals_one v then Inr (d\<lparr>qosDecs := dict_set (qosDecs d) ''qos_voice'' qos_voice\<rparr>)
                 else Inr d))
      else if trigger = APP_STA then
        (case guarded_lookup context_updates ''app_id'' of
           Inl e \<Rightarrow> Inl e
         | Inr None \<Rightarrow> Inr d
         | Inr (Some app_id) \<Rightarrow>
             if app_id = JStr ''video_streaming_app'' then
               (case add_rule_and_qos s ''rule_video_streaming'' ''qos_video'' (pccRules d, qosDecs d) of
                  Inl e \<Rightarrow> Inl e
                | Inr dicts \<Rightarrow> Inr (d\<lparr>pccRules := fst dicts, qosDecs := snd dicts\<rparr>))
             else Inr d)
      else if trigger = APP_STO then
        (case guarded_lookup context_updates ''app_id'' of
           Inl e \<Rightarrow> Inl e
         | Inr None \<Rightarrow> Inr d
         | Inr (Some app_id) \<Rightarrow>
             if app_id = JStr ''video_streaming_app''
                \<and> ''rule_video_streaming'' \<in> set (map fst (pccRules d)) then
               (if ''qos_video'' \<in> set (map fst (qosDecs d))
                then Inr (d\<lparr>pccRules := dict_del (pccRules d) ''rule_video_streaming'',
                            qosDecs := dict_del (qosDecs d) ''qos_video''\<rparr>)
                else Inl KeyError)
             else Inr d)
      else if trigger = QOS_NOTIF then
        (case guarded_lookup context_updates ''qos_notification'' of
           Inl e \<Rightarrow> Inl e
         | Inr None \<Rightarrow> Inr d
         | Inr (Some qos_notif) \<Rightarrow>
            (case py_get qos_notif ''congestion_level'' of
               Inl e \<Rightarrow> Inl e
             | Inr v \<Rightarrow>
                 if v = JStr ''high''
                 then Inr (d\<lparr>qosDecs := map (\<lambda>kv. (fst kv, reduce_best_effort (snd kv))) (qosDecs d)\<rparr>)
                 else Inr d))
      else Inr d)"

text \<open>The loop: the decision as the rounds before an exception left it, and the
  exception if one was raised.\<close>

fun apply_triggers ::
  "pcf_state \<Rightarrow> json \<Rightarrow> SmPolicyDecision \<Rightarrow> PolicyControlRequestTrigger list
     \<Rightarrow> py_exception option \<times> SmPolicyDecision" where
  "apply_triggers s context_updates d [] = (None, d)"
| "apply_triggers s context_updates d (t # ts) =
     (case apply_trigger s context_updates d t of
        Inl e \<Rightarrow> (Some e, d)
      | Inr d' \<Rightarrow> apply_triggers s context_updates d' ts)"

text \<open>\<open>PCF.update_sm_policy_decision\<close>.  The copy shares \<open>pccRules\<close> and \<open>qosDecs\<close>
  with the stored decision, so what the loop did to them is in the stored decision
  also when an exception ends the call; the new revalidation time is in the copy
  only.  The second component is the dictionary of decisions after the call.\<close>

definition update_sm_policy_decision ::
  "pcf_state \<Rightarrow> string \<Rightarrow> PolicyControlRequestTrigger list \<Rightarrow> json \<Rightarrow> int
     \<Rightarrow> (py_exception + SmPolicyDecision) \<times> pcf_state" where
  "update_sm_policy_decision s policy_association_id triggers context_updates now =
     (case sm_policy_decisions s policy_association_id of
        None \<Rightarrow> (Inl ValueError, s)
      | Some current_decision \<Rightarrow>
         (let (exc, d) = apply_triggers s context_updates current_decision triggers;
              s1 = s\<lparr>sm_policy_decisions := (sm_policy_decisions s)(policy_association_id \<mapsto> d)\<rparr>
          in case exc of
               Some e \<Rightarrow> (Inl e, s1)
             | None \<Rightarrow> (Inr (d\<lparr>revalidationTime := now + 86400\<rparr>), s1)))"

text \<open>The \<open>try\<close> block of \<open>update_sm_policy\<close>.\<close>

definition update_sm_policy_body ::
  "pcf_state \<Rightarrow> string \<Rightarrow> (string \<times> json) list option \<Rightarrow> int
     \<Rightarrow> (py_exception + SmPolicyDecision) \<times> pcf_state" where
  "update_sm_policy_body s smPolicyId update_data now =
     (if smPolicyId \<notin> dom (sm_policy_decisions s) then (Inl (RaisedHTTP 404), s)
      else case triggers_of update_data of
             Inl e \<Rightarrow> (Inl e, s)
           | Inr triggers \<Rightarrow>
              (case update_sm_policy_decision s smPolicyId triggers
                      (context_updates_of update_data) now of
                 (Inl e, s1) \<Rightarrow> (Inl e, s1)
               | (Inr updated_decision, s1) \<Rightarrow>
                   (Inr updated_decision,
                    s1\<lparr>sm_policy_decisions :=
                         (sm_policy_decisions s1)(smPolicyId \<mapsto> updated_decision)\<rparr>)))"

text \<open>\<open>update_sm_policy\<close> (PATCH /npcf-smpolicycontrol/v1/sm-policies/{smPolicyId}): its
  only clause is \<open>except Exception\<close>.\<close>

definition update_sm_policy ::
  "pcf_state \<Rightarrow> string \<Rightarrow> (string \<times> json) list option \<Rightarrow> int
     \<Rightarrow> SmPolicyDecision response \<times> pcf_state" where
  "update_sm_policy s smPolicyId update_data now =
     (let (r, s') = update_sm_policy_body s smPolicyId update_data now
      in (except_Exception_500 r, s'))"

text \<open>A session on the DNN \<open>internet\<close> and the state after its policy association has
  been created under the id \<open>p1\<close>.\<close>

definition internet_context :: SmPolicyContextData where
  "internet_context = \<lparr>pc_supi = ''imsi-001010000000001'', pc_dnn = ''internet'',
     pc_notificationUri = ''http://smf/notify'', pc_online = None, pc_offline = None\<rparr>"

definition pcf_with_p1 :: pcf_state where
  "pcf_with_p1 = snd (create_sm_policy pcf_init ''p1'' internet_context 0)"

section \<open>Network repository function: \<open>nrf.py\<close>\<close>

datatype NFType =
    NRF | UDM | AMF | SMF | AUSF | NEF | PCF | SMSF | NSSF | UDR | LMF | GMLC | UPF | N3IWF
  | AF | UDSF | BSF | CHF

datatype NFStatus = REGISTERED | UNDISCOVERABLE | SUSPENDED

record PlmnId =
  mcc :: string
  mnc :: string

text \<open>The fields of \<open>NFService\<close> and \<open>NFProfile\<close> that discovery reads.  The class
  \<open>Snssai\<close> of this module has the fields of the record of that name above.\<close>

record NFService =
  serviceInstanceId :: string
  serviceName :: string

record NFProfile =
  nfInstanceId :: string
  nfType :: NFType
  nfStatus :: NFStatus
  plmnList :: "PlmnId list option"
  sNssais :: "Snssai list option"
  allowedNfTypes :: "NFType list option"
  priority :: "int option"
  capacity :: "int option"
  nfServices :: "NFService list option"

text \<open>\<open>nf_profiles\<close>, in insertion order (\<open>values()\<close> iterates in that order).\<close>

type_synonym nf_registry = "(string \<times> NFProfile) list"

text \<open>\<open>x and y\<close> for an optional list \<open>x\<close>: the list when it is neither \<open>None\<close> nor
  empty.\<close>

definition nonempty :: "'a list option \<Rightarrow> 'a list option" where
  "nonempty x = (case x of None \<Rightarrow> None | Some xs \<Rightarrow> if xs = [] then None else Some xs)"

text \<open>\<open>v or 0\<close> for an optional integer.\<close>

definition or0 :: "int option \<Rightarrow> int" where
  "or0 v = (case v of None \<Rightarrow> 0 | Some i \<Rightarrow> i)"

text \<open>The five filters of the loop body; a profile that fails one is skipped.\<close>

definition type_ok :: "NFType option \<Rightarrow> NFProfile \<Rightarrow> bool" where
  "type_ok target_nf_type nf_profile =
     (case target_nf_type of None \<Rightarrow> True | Some t \<Rightarrow> nfType nf_profile = t)"

definition requester_ok :: "NFType option \<Rightarrow> NFProfile \<Rightarrow> bool" where
  "requester_ok requester_nf_type nf_profile =
     (case requester_nf_type of
        None \<Rightarrow> True
      | Some r \<Rightarrow>
         (case nonempty (allowedNfTypes nf_profile) of
            None \<Rightarrow> True
          | Some allowed \<Rightarrow> r \<in> set allowed))"

definition services_ok :: "string list option \<Rightarrow> NFProfile \<Rightarrow> bool" where
  "services_ok service_names nf_profile =
     (case nonempty service_names of
        None \<Rightarrow> True
      | Some names \<Rightarrow>
         (case nonempty (nfServices nf_profile) of
            None \<Rightarrow> True
          | Some services \<Rightarrow> list_ex (\<lambda>service. serviceName service \<in> set names) services))"

definition snssais_ok :: "Snssai list option \<Rightarrow> NFProfile \<Rightarrow> bool" where
  "snssais_ok snssais nf_profile =
     (case nonempty snssais of
        None \<Rightarrow> True
      | Some targets \<Rightarrow>
         (case nonempty (sNssais nf_profile) of
            None \<Rightarrow> True
          | Some own \<Rightarrow>
              list_ex (\<lambda>target_snssai.
                 list_ex (\<lambda>nf_snssai. sst target_snssai = sst nf_snssai
                                      \<and> sd target_snssai = sd nf_snssai) own) targets))"

definition plmn_ok :: "PlmnId list option \<Rightarrow> NFProfile \<Rightarrow> bool" where
  "plmn_ok plmn_list nf_profile =
     (case nonempty plmn_list of
        None \<Rightarrow> True
      | Some targets \<Rightarrow>
         (case nonempty (plmnList nf_profile) of
            None \<Rightarrow> True
          | Some own \<Rightarrow>
              list_ex (\<lambda>target_plmn.
                 list_ex (\<lambda>nf_plmn. mcc target_plmn = mcc nf_plmn
                                    \<and> mnc target_plmn = mnc nf_plmn) own) targets))"

text \<open>The key of the sort, \<open>(nf.priority or 0, -(nf.capacity or 0))\<close>; tuples compare
  lexicographically.\<close>

definition discovery_key :: "NFProfile \<Rightarrow> int \<times> int" where
  "discovery_key nf = (or0 (priority nf), - or0 (capacity nf))"

text \<open>\<open>xs[:limit]\<close> under \<open>if limit:\<close>; a negative bound counts from the end.\<close>

definition apply_limit :: "int option \<Rightarrow> 'a list \<Rightarrow> 'a list" where
  "apply_limit limit xs =
     (case limit of
        None \<Rightarrow> xs
      | Some n \<Rightarrow>
          if n = 0 then xs
          else if 0 < n then take (nat n) xs
          else take (length xs - nat (- n)) xs)"

text \<open>\<open>NRF.find_nf_instances\<close>.  \<open>list.sort\<close> is stable, as is \<open>sort_key\<close>.  The
  parameter \<open>dnn\<close> is not read.\<close>

definition find_nf_instances ::
  "nf_registry \<Rightarrow> NFType option \<Rightarrow> NFType option \<Rightarrow> string list option \<Rightarrow> Snssai list option
     \<Rightarrow> PlmnId list option \<Rightarrow> string option \<Rightarrow> int option \<Rightarrow> NFProfile list" where
  "find_nf_instances nf_profiles target_nf_type requester_nf_type service_names snssais plmn_list
       dnn limit =
     (let filtered_nfs =
            filter (\<lambda>nf_profile.
                type_ok target_nf_type nf_profile
              \<and> requester_ok requester_nf_type nf_profile
              \<and> services_ok service_names nf_profile
              \<and> snssais_ok snssais nf_profile
              \<and> plmn_ok plmn_list nf_profile
              \<and> nfStatus nf_profile = REGISTERED) (map snd nf_profiles)
      in apply_limit limit (sort_key discovery_key filtered_nfs))"

text \<open>Ascending priority, then descending capacity (an absent value counting as 0).\<close>

definition discovery_order :: "NFProfile \<Rightarrow> NFProfile \<Rightarrow> bool" where
  "discovery_order a b =
     (or0 (priority a) < or0 (priority b)
      \<or> (or0 (priority a) = or0 (priority b) \<and> or0 (capacity b) \<le> or0 (capacity a)))"

text \<open>A registry with three registered AMFs, a suspended AMF and a registered SMF.\<close>

definition nf_profile :: "string \<Rightarrow> NFType \<Rightarrow> NFStatus \<Rightarrow> int option \<Rightarrow> int option \<Rightarrow> NFProfile" where
  "nf_profile i t st p c =
     \<lparr>nfInstanceId = i, nfType = t, nfStatus = st, plmnList = None, sNssais = None,
      allowedNfTypes = None, priority = p, capacity = c, nfServices = None\<rparr>"

definition sample_registry :: nf_registry where
  "sample_registry =
     [(''amf-a'', nf_profile ''amf-a'' AMF REGISTERED (Some 2) (Some 10)),
      (''amf-b'', nf_profile ''amf-b'' AMF REGISTERED (Some 1) (Some 50)),
      (''amf-c'', nf_profile ''amf-c'' AMF SUSPENDED (Some 0) (Some 90)),
      (''smf-a'', nf_profile ''smf-a'' SMF REGISTERED None None),
      (''amf-d'', nf_profile ''amf-d'' AMF REGISTERED (Some 1) (Some 100))]"

section \<open>Distributed unit, RLC layer: \<open>du.py\<close>\<close>

datatype RlcMode = TM | UM | AM

text \<open>\<open>RlcHeader\<close> (\<open>sn\<close>, \<open>so\<close>, \<open>si\<close>, \<open>p\<close>) and \<open>RlcPdu\<close> (\<open>header\<close>, \<open>payload\<close>,
  \<open>mode\<close>, \<open>bearer_id\<close>); the fields carry a prefix here.  The timestamp is not kept.\<close>

record RlcHeader =
  hdr_sn :: int
  hdr_so :: "int option"
  hdr_si :: string
  hdr_p :: bool

record RlcPdu =
  pdu_header :: RlcHeader
  pdu_payload :: string
  pdu_mode :: RlcMode
  pdu_bearer_id :: int

text \<open>The entries of an AM entity that \<open>transmit_am_pdu\<close> and \<open>receive_am_pdu\<close> read or
  write; the other entries (\<open>poll_sn\<close>, the timers, \<open>max_retx_threshold\<close>) are set at
  creation and never read.\<close>

record am_entity =
  tx_window :: "int \<rightharpoonup> RlcPdu"
  rx_window :: "int \<rightharpoonup> RlcPdu"
  vt_s :: int
  vt_a :: int
  vr_r :: int
  vr_mr :: int
  pdu_without_poll :: int
  sn_field_length :: int

record rlc_layer =
  am_entities :: "string \<rightharpoonup> am_entity"

definition rlc_init :: rlc_layer where
  "rlc_init = \<lparr>am_entities = Map.empty\<rparr>"

text \<open>\<open>RlcLayer.create_am_entity\<close>.\<close>

definition create_am_entity :: "rlc_layer \<Rightarrow> int \<Rightarrow> int \<Rightarrow> string \<times> rlc_layer" where
  "create_am_entity s bearer_id ue_id =
     (let entity_id = ''am_'' @ str_int ue_id @ ''_'' @ str_int bearer_id
      in (entity_id,
          s\<lparr>am_entities := (am_entities s)(entity_id \<mapsto>
               \<lparr>tx_window = Map.empty, rx_window = Map.empty, vt_s = 0, vt_a = 0, vr_r = 0,
                vr_mr = 2048, pdu_without_poll = 0, sn_field_length = 12\<rparr>)\<rparr>))"

text \<open>\<open>RlcLayer.transmit_am_pdu\<close>.  \<open>bearer_of\<close> is \<open>int(entity_id.split("_")[2])\<close>,
  \<open>None\<close> when that raises.\<close>

definition transmit_am_pdu ::
  "(string \<Rightarrow> int option) \<Rightarrow> rlc_layer \<Rightarrow> string \<Rightarrow> string \<Rightarrow> py_exception + RlcPdu \<times> rlc_layer" where
  "transmit_am_pdu bearer_of s entity_id sdu =
     (case am_entities s entity_id of
        None \<Rightarrow> Inl ValueError
      | Some entity \<Rightarrow>
         (case bearer_of entity_id of
            None \<Rightarrow> Inl ValueError
          | Some b \<Rightarrow>
             (let rlc_pdu = \<lparr>pdu_header = \<lparr>hdr_sn = vt_s entity, hdr_so = None, hdr_si = ''COMPLETE'',
                                            hdr_p = (4 \<le> pdu_without_poll entity)\<rparr>,
                             pdu_payload = sdu, pdu_mode = AM, pdu_bearer_id = b\<rparr>;
                  entity' = entity\<lparr>tx_window := (tx_window entity)(vt_s entity \<mapsto> rlc_pdu),
                                   vt_s := (vt_s entity + 1) mod 2 ^ nat (sn_field_length entity),
                                   pdu_without_poll := pdu_without_poll entity + 1\<rparr>
              in Inr (rlc_pdu, s\<lparr>am_entities := (am_entities s)(entity_id \<mapsto> entity')\<rparr>))))"

text \<open>\<open>RlcLayer._is_in_receive_window\<close>.\<close>

definition is_in_receive_window :: "int \<Rightarrow> int \<Rightarrow> int \<Rightarrow> bool" where
  "is_in_receive_window sn r mr = (if r \<le> mr then r \<le> sn \<and> sn < mr else sn \<ge> r \<or> sn < mr)"

text \<open>What \<open>receive_am_pdu\<close> does to the entity, and the SDU it returns (\<open>None\<close> when it
  returns none).\<close>

definition am_receive :: "am_entity \<Rightarrow> RlcPdu \<Rightarrow> string option \<times> am_entity" where
  "am_receive entity rlc_pdu =
     (let sn = hdr_sn (pdu_header rlc_pdu)
      in if is_in_receive_window sn (vr_r entity) (vr_mr entity) then
           (let buffered = entity\<lparr>rx_window := (rx_window entity)(sn \<mapsto> rlc_pdu)\<rparr>
            in if sn = vr_r entity
               then (Some (pdu_payload rlc_pdu),
                     buffered\<lparr>vr_r := (vr_r entity + 1) mod 2 ^ nat (sn_field_length entity)\<rparr>)
               else (None, buffered))
         else (None, entity))"

text \<open>\<open>RlcLayer.receive_am_pdu\<close>.\<close>

definition receive_am_pdu ::
  "rlc_layer \<Rightarrow> string \<Rightarrow> RlcPdu \<Rightarrow> py_exception + string option \<times> rlc_layer" where
  "receive_am_pdu s entity_id rlc_pdu =
     (case am_entities s entity_id of
        None \<Rightarrow> Inl ValueError
      | Some entity \<Rightarrow>
         (let (delivered_sdu, entity') = am_receive entity rlc_pdu
          in Inr (delivered_sdu, s\<lparr>am_entities := (am_entities s)(entity_id \<mapsto> entity')\<rparr>)))"

text \<open>The PDUs of a list presented one after the other to \<open>receive_am_pdu\<close>: the SDUs
  returned, in the order of their return, and the layer afterwards.  A call that raises
  ends the run.\<close>

fun receive_all :: "rlc_layer \<Rightarrow> string \<Rightarrow> RlcPdu list \<Rightarrow> string list \<times> rlc_layer" where
  "receive_all s entity_id [] = ([], s)"
| "receive_all s entity_id (rlc_pdu # rest) =
     (case receive_am_pdu s entity_id rlc_pdu of
        Inl e \<Rightarrow> ([], s)
      | Inr (delivered_sdu, s') \<Rightarrow>
         (let (sdus, s'') = receive_all s' entity_id rest
          in ((case delivered_sdu of None \<Rightarrow> sdus | Some sdu \<Rightarrow> sdu # sdus), s'')))"

text \<open>SDUs transmitted one after the other: the PDUs, and the layer afterwards.\<close>

fun transmit_all ::
  "(string \<Rightarrow> int option) \<Rightarrow> rlc_layer \<Rightarrow> string \<Rightarrow> string list \<Rightarrow> RlcPdu list \<times> rlc_layer" where
  "transmit_all bearer_of s entity_id [] = ([], s)"
| "transmit_all bearer_of s entity_id (sdu # rest) =
     (case transmit_am_pdu bearer_of s entity_id sdu of
        Inl e \<Rightarrow> ([], s)
      | Inr (rlc_pdu, s') \<Rightarrow>
         (let (pdus, s'') = transmit_all bearer_of s' entity_id rest in (rlc_pdu # pdus, s'')))"

text \<open>The receiving side of an entity as \<open>create_am_entity\<close> makes it and as deliveries
  leave it: \<open>VR(MR)\<close> is 2048 (it is never written), the SN field has 12 bits, and
  \<open>VR(R)\<close> is at most \<open>VR(MR)\<close>.\<close>

definition rx_ready :: "am_entity \<Rightarrow> bool" where
  "rx_ready entity =
     (0 \<le> vr_r entity \<and> vr_r entity \<le> 2048 \<and> vr_mr entity = 2048 \<and> sn_field_length entity = 12)"

text \<open>A sending and a receiving layer with the entity of bearer 1 of UE 7, and the PDUs
  of the SDUs \<open>a\<close> and \<open>b\<close>.\<close>

definition rlc_peer :: rlc_layer where
  "rlc_peer = snd (create_am_entity rlc_init 1 7)"

definition two_pdus :: "RlcPdu list" where
  "two_pdus = fst (transmit_all (\<lambda>entity_id. Some 1) rlc_peer ''am_7_1'' [''a'', ''b''])"


text \<open>The PDUs of 2049 SDUs transmitted one after the other.\<close>

definition long_run_pdus :: "RlcPdu list" where
  "long_run_pdus = fst (transmit_all (\<lambda>entity_id. Some 1) rlc_peer ''am_7_1'' (replicate 2049 ''x''))"

section \<open>Verification\<close>

subsection \<open>User plane function\<close>

lemma pfcp_session_establishment_always_accepted:
  "\<exists>r. fst (pfcp_session_establishment s seid uuids now req) = Inr r \<and> cause r = 1"
  by (simp add: pfcp_session_establishment_def Let_def split: prod.splits)

text \<open>
  Claim C2.  With a pool of two host addresses, the first two IPv4 establishments get the
  two addresses.  The third one finds no free address: \<open>allocate_ip_address\<close> returns an
  empty result without raising, and the handler answers HTTP 200 with cause
  \<open>REQUEST_ACCEPTED\<close> and no allocated address, where the claim expects the request to
  fail with resource-exhausted (503).
\<close>

theorem ip_exhaustion_third_establishment_accepted:
  "fst (pfcp_session_establishment pool_slash30 ''seid-a'' [] 0 ipv4_request) =
     Inr \<lparr>messageType = 51, cause = 1, upFSeid = Some ''seid-a'',
           allocatedUeIpAddresses = [(''ipv4'', ''192.168.100.1'')], createdPdr = []\<rparr>
   \<and> allocated_ipv4 after_two_ipv4_sessions = {''192.168.100.1'', ''192.168.100.2''}
   \<and> fst (pfcp_session_establishment after_two_ipv4_sessions ''seid-c'' [] 2 ipv4_request) =
     Inr \<lparr>messageType = 51, cause = 1, upFSeid = Some ''seid-c'',
           allocatedUeIpAddresses = [], createdPdr = []\<rparr>"
  by (simp add: after_two_ipv4_sessions_def pfcp_session_establishment_def pool_slash30_def
      upf_init_def ipv4_request_def allocate_ip_address_def Let_def insert_commute)

text \<open>
  Claim C6.  For a SEID that is no key of \<open>pfcp_sessions\<close>, both handlers raise
  \<open>HTTPException(404)\<close> inside their \<open>try\<close> block, and their own \<open>except Exception\<close>
  clause turns it into \<open>HTTPException(500)\<close>: the client sees 500, not the 404 of the
  claim.  The state is left as it was.
\<close>

theorem pfcp_unknown_seid_answers_500:
  "pfcp_sessions s seid = None \<Longrightarrow>
     pfcp_session_modification s seid req now = (Inl (HTTPException 500), s)
   \<and> pfcp_session_deletion s seid = (Inl (HTTPException 500), s)"
  by (simp add: pfcp_session_modification_def pfcp_session_modification_body_def
      pfcp_session_deletion_def pfcp_session_deletion_body_def except_Exception_500_def)

theorem pfcp_unknown_seid_answers_500_witness:
  "pfcp_sessions pool_slash30 ''no-such-seid'' = None
   \<and> pfcp_session_modification pool_slash30 ''no-such-seid''
        \<lparr>updatePdr = None, updateFar = None, updateQer = None\<rparr> 0
      = (Inl (HTTPException 500), pool_slash30)
   \<and> pfcp_session_deletion pool_slash30 ''no-such-seid'' = (Inl (HTTPException 500), pool_slash30)"
proof -
  have h: "pfcp_sessions pool_slash30 ''no-such-seid'' = None"
    by (simp add: pool_slash30_def upf_init_def)
  show ?thesis
    using h pfcp_unknown_seid_answers_500 [OF h] by simp
qed


subsection \<open>QoS enforcement on the tunnels of a session\<close>

lemma enforce_qos_no_params:
  "find_qos_params (qos_enforcement s) tid = None
     \<Longrightarrow> enforce_qos s tid p direction t_new now = (Inr True, s)"
  by (simp add: enforce_qos_def)

lemma process_no_params:
  assumes "gtp_tunnels s tid = Some tn" and "find_qos_params (qos_enforcement s) tid = None"
  shows "process_gtp_packet s tid p direction t_new now
           = (Inr True,
              s\<lparr>gtp_tunnels := (gtp_tunnels s)(tid \<mapsto>
                   tn\<lparr>stats := count_packet (stats tn) direction (int (length (payload p)))\<rparr>)\<rparr>)"
  using assms by (simp add: process_gtp_packet_def Let_def enforce_qos_no_params)

lemma run_no_params:
  assumes "gtp_tunnels s tid \<noteq> None" and "find_qos_params (qos_enforcement s) tid = None"
  shows "fst (run_packets s tid direction evs) = offered_bytes evs
       \<and> token_buckets (snd (run_packets s tid direction evs)) = token_buckets s"
  using assms
proof (induction evs arbitrary: s)
  case Nil
  then show ?case by (simp add: offered_bytes_def)
next
  case (Cons ev evs)
  obtain t_new now p where ev: "ev = (t_new, now, p)" by (cases ev)
  obtain tn where tn: "gtp_tunnels s tid = Some tn" using Cons.prems(1) by auto
  let ?s1 = "s\<lparr>gtp_tunnels := (gtp_tunnels s)(tid \<mapsto>
                   tn\<lparr>stats := count_packet (stats tn) direction (int (length (payload p)))\<rparr>)\<rparr>"
  have step: "process_gtp_packet s tid p direction t_new now = (Inr True, ?s1)"
    using process_no_params [OF tn Cons.prems(2)] .
  have "gtp_tunnels ?s1 tid \<noteq> None" by simp
  moreover have "find_qos_params (qos_enforcement ?s1) tid = None" using Cons.prems(2) by simp
  ultimately have ih: "fst (run_packets ?s1 tid direction evs) = offered_bytes evs
       \<and> token_buckets (snd (run_packets ?s1 tid direction evs)) = token_buckets ?s1"
    by (rule Cons.IH)
  have "run_packets s tid direction (ev # evs)
          = (int (length (payload p)) + fst (run_packets ?s1 tid direction evs),
             snd (run_packets ?s1 tid direction evs))"
    using step by (simp add: ev split_beta)
  then show ?case using ih by (simp add: offered_bytes_def ev)
qed

lemma endpoint_no_params:
  assumes "gtp_tunnels s tid \<noteq> None" and "find_qos_params (qos_enforcement s) tid = None"
  shows "fst (process_gtp_packet_endpoint s
                \<lparr>req_tunnel_id = Some tid, req_direction = Some direction,
                 req_header = Some (header (p::GtpuPacket)), req_payload = Some (payload p)\<rparr> t_new now)
           = Inr \<lparr>status = ''SUCCESS'', resp_tunnel_id = Some tid, resp_direction = direction,
                  processed = True\<rparr>"
proof -
  obtain tn where tn: "gtp_tunnels s tid = Some tn" using assms(1) by auto
  obtain h pl where p: "p = \<lparr>header = h, payload = pl\<rparr>" by (cases p) simp
  show ?thesis
    unfolding p
    using process_no_params [OF tn assms(2), of "\<lparr>header = h, payload = pl\<rparr>" direction t_new now]
    by (simp add: process_gtp_packet_endpoint_def except_Exception_500_def)
qed

lemma qos_session_upf_tunnel: "gtp_tunnels qos_session_upf tunnel_uuid \<noteq> None"
  by code_simp

lemma qos_session_upf_stored:
  "map_option maximum_bitrate_dl (dict_get (qos_enforcement qos_session_upf) (session_uuid @ ''_1''))
     = Some (Some 320)"
  by code_simp

lemma qos_session_upf_no_params:
  "find_qos_params (qos_enforcement qos_session_upf) tunnel_uuid = None"
  by code_simp

lemma burst_offered: "offered_bytes burst_events = 70"
  by code_simp

lemma bitlen_numeral:
  "bitlen 0 = 0"
  "bitlen (Suc 0) = 1"
  "bitlen 1 = 1"
  "bitlen (numeral k) = Suc (bitlen (numeral k div 2))"
  by (simp_all add: bitlen.simps)

lemma refill_in_binary_floating_point: "tokens_to_add 290000 100 = Some 28"
  by (simp add: tokens_to_add_def round_double_def finite_double_def bitlen_numeral Let_def)

text \<open>
  Claim C1.  \<open>enforce_qos_policies\<close> stores the QoS parameters of a QER under the key
  \<open>"<session id>_<qer id>"\<close>; \<open>enforce_qos\<close> looks for a key that contains the tunnel id.
  The establishment handler draws the session id and the tunnel ids as separate UUIDs, so
  for the tunnels it creates the lookup finds nothing.  Where the lookup finds nothing,
  every packet on an existing tunnel is admitted and answered \<open>SUCCESS\<close>, no token
  bucket is created or consulted, and the bytes admitted over any trace are all the bytes
  offered: no bound in terms of the MBR holds, and no packet is reported \<open>DROPPED\<close>.
\<close>

theorem tunnel_of_established_session_is_not_rate_limited:
  assumes "gtp_tunnels s tid \<noteq> None" and "find_qos_params (qos_enforcement s) tid = None"
  shows "process_gtp_packet s tid p direction t_new now
           = (Inr True,
              s\<lparr>gtp_tunnels := (gtp_tunnels s)(tid \<mapsto>
                   (the (gtp_tunnels s tid))
                     \<lparr>stats := count_packet (stats (the (gtp_tunnels s tid))) direction
                                 (int (length (payload p)))\<rparr>)\<rparr>)
       \<and> fst (process_gtp_packet_endpoint s
                  \<lparr>req_tunnel_id = Some tid, req_direction = Some direction,
                   req_header = Some (header p), req_payload = Some (payload p)\<rparr> t_new now)
           = Inr \<lparr>status = ''SUCCESS'', resp_tunnel_id = Some tid, resp_direction = direction,
                  processed = True\<rparr>
       \<and> fst (run_packets s tid direction evs) = offered_bytes evs
       \<and> token_buckets (snd (run_packets s tid direction evs)) = token_buckets s"
proof -
  obtain tn where tn: "gtp_tunnels s tid = Some tn" using assms(1) by auto
  show ?thesis
    using process_no_params [OF tn assms(2), of p direction t_new now]
      endpoint_no_params [OF assms, of direction p t_new now]
      run_no_params [OF assms, of direction evs] tn
    by simp
qed

theorem tunnel_of_established_session_is_not_rate_limited_witness:
  "gtp_tunnels qos_session_upf tunnel_uuid \<noteq> None
   \<and> map_option maximum_bitrate_dl
        (dict_get (qos_enforcement qos_session_upf) (session_uuid @ ''_1'')) = Some (Some 320)
   \<and> find_qos_params (qos_enforcement qos_session_upf) tunnel_uuid = None
   \<and> offered_bytes burst_events = 70
   \<and> fst (run_packets qos_session_upf tunnel_uuid ''downlink'' burst_events) = 70
   \<and> \<not> fst (run_packets qos_session_upf tunnel_uuid ''downlink'' burst_events) \<le> 320 div 8 + 10
   \<and> token_buckets (snd (run_packets qos_session_upf tunnel_uuid ''downlink'' burst_events))
       = token_buckets qos_session_upf
   \<and> fst (process_gtp_packet_endpoint qos_session_upf
              \<lparr>req_tunnel_id = Some tunnel_uuid, req_direction = Some ''downlink'',
               req_header = Some (header ten_bytes), req_payload = Some (payload ten_bytes)\<rparr> 0 0)
       = Inr \<lparr>status = ''SUCCESS'', resp_tunnel_id = Some tunnel_uuid,
              resp_direction = ''downlink'', processed = True\<rparr>"
proof -
  note t = tunnel_of_established_session_is_not_rate_limited
    [OF qos_session_upf_tunnel qos_session_upf_no_params, of ten_bytes "''downlink''" 0 0 burst_events]
  have r: "fst (run_packets qos_session_upf tunnel_uuid ''downlink'' burst_events) = 70"
    using t burst_offered by simp
  then have n: "\<not> fst (run_packets qos_session_upf tunnel_uuid ''downlink'' burst_events) \<le> 320 div 8 + 10"
    by simp
  show ?thesis
    using t r n qos_session_upf_tunnel qos_session_upf_stored qos_session_upf_no_params burst_offered
    by simp
qed

subsection \<open>Authentication server function\<close>

lemma auth_request_state:
  "snd (ue_authentication_request H s u n udm i r q m) = s
   \<or> (\<exists>c. snd (ue_authentication_request H s u n udm i r q m) = s(i \<mapsto> c) \<and> ctx_status c = ''ONGOING'')"
proof (cases "auth_vectors_of H (supi_of u) udm r q m")
  case (Inl e)
  then show ?thesis
    by (simp add: ue_authentication_request_def ue_authentication_request_body_def)
next
  case (Inr v)
  show ?thesis
  proof (cases "vector_fields v")
    case None
    with Inr show ?thesis
      by (simp add: ue_authentication_request_def ue_authentication_request_body_def)
  next
    case (Some f)
    have "ctx_status (new_auth_ctx (supi_of u) n f) = ''ONGOING''"
      by (cases f) (simp add: new_auth_ctx_def)
    with Inr Some show ?thesis
      by (auto simp add: ue_authentication_request_def ue_authentication_request_body_def)
  qed
qed

lemma confirmation_state:
  "snd (authentication_confirmation H s i r) = s
   \<or> (\<exists>c c'. s i = Some c \<and> snd (authentication_confirmation H s i r) = s(i \<mapsto> c')
        \<and> ((ctx_status c' = ''SUCCESS'' \<and> ctx_kseaf c' \<noteq> None) \<or> ctx_status c' = ''FAILURE''))"
proof (cases "s i")
  case None
  then show ?thesis
    by (simp add: authentication_confirmation_def authentication_confirmation_body_def)
next
  case (Some c)
  show ?thesis
  proof (cases "verify_authentication_response s i r")
    case False
    with Some show ?thesis
      by (auto simp add: authentication_confirmation_def authentication_confirmation_body_def)
  next
    case True
    with Some show ?thesis
      by (cases "ctx_kausf c")
         (auto simp add: authentication_confirmation_def authentication_confirmation_body_def Let_def)
  qed
qed

lemma delete_state:
  "snd (delete_authentication_context s i) = s \<or> snd (delete_authentication_context s i) = s(i := None)"
  by (cases "s i") (simp_all add: delete_authentication_context_def)

lemma ausf_step_kseaf_inv: "kseaf_inv s \<Longrightarrow> kseaf_inv (ausf_step H s op)"
proof (cases op)
  case (AuthRequest u n udm i r q m)
  assume inv: "kseaf_inv s"
  from auth_request_state[of H s u n udm i r q m] show ?thesis
    using inv AuthRequest by (auto simp: kseaf_inv_def split: if_splits)
next
  case (Confirm i r)
  assume inv: "kseaf_inv s"
  from confirmation_state[of H s i r] show ?thesis
    using inv Confirm by (auto simp: kseaf_inv_def split: if_splits)
next
  case (DeleteCtx i)
  assume inv: "kseaf_inv s"
  from delete_state[of s i] show ?thesis
    using inv DeleteCtx by (auto simp: kseaf_inv_def split: if_splits)
qed

lemma foldl_kseaf_inv: "kseaf_inv s \<Longrightarrow> kseaf_inv (foldl (ausf_step H) s ops)"
  by (induction ops arbitrary: s) (auto simp: ausf_step_kseaf_inv)

lemma ausf_run_kseaf_inv: "kseaf_inv (ausf_run H ops)"
  unfolding ausf_run_def by (rule foldl_kseaf_inv) (simp add: kseaf_inv_def)

lemma terminal_step:
  assumes "s i = Some c" "terminal (ctx_status c)" "fresh_id s op" "ausf_step H s op i = Some c'"
  shows "terminal (ctx_status c')"
proof (cases op)
  case (AuthRequest u n udm j r q m)
  then have j: "s j = None" using assms(3) by simp
  then have "j \<noteq> i" using assms(1) by auto
  with auth_request_state[of H s u n udm j r q m] assms AuthRequest show ?thesis
    by (auto split: if_splits)
next
  case (Confirm j r)
  from confirmation_state[of H s j r] assms Confirm show ?thesis
    by (cases "j = i") (auto simp: terminal_def split: if_splits)
next
  case (DeleteCtx j)
  from delete_state[of s j] assms DeleteCtx show ?thesis
    by (cases "j = i") (auto split: if_splits)
qed

text \<open>
  Claim C3, as amended.  In every state that the handlers can reach from the empty
  dictionary, a context in status \<open>SUCCESS\<close> carries a \<open>kseaf\<close>.  A context in a terminal
  status (\<open>SUCCESS\<close> or \<open>FAILURE\<close>) is still in a terminal status after any further
  operation that leaves it in the dictionary (a new challenge drawing an unused UUID, a
  confirmation, a deletion); it never returns to \<open>ONGOING\<close>.  The status itself is not
  frozen: a confirmation PUT compares \<open>resStar\<close> again and writes \<open>SUCCESS\<close> or
  \<open>FAILURE\<close> whatever the status was (see the counterexample below).
\<close>

theorem ausf_success_has_kseaf_and_terminal_stays_terminal:
  "(\<forall>c. ausf_run H ops i = Some c \<longrightarrow> ctx_status c = ''SUCCESS'' \<longrightarrow> ctx_kseaf c \<noteq> None)
   \<and> (\<forall>c c'. s i = Some c \<and> terminal (ctx_status c) \<and> fresh_id s op
          \<and> ausf_step H s op i = Some c' \<longrightarrow> terminal (ctx_status c'))"
  using ausf_run_kseaf_inv[of H ops] terminal_step[of s i _ op H]
  by (auto simp: kseaf_inv_def)

lemmas ausf_eval_defs = ausf_run_def one_auth_request_def ue_authentication_request_def
  ue_authentication_request_body_def auth_vectors_of_def vector_fields_def new_auth_ctx_def
  auth_info_result_def supi_of_def authentication_confirmation_def
  authentication_confirmation_body_def verify_authentication_response_def dict_get_def
  except_Exception_500_def except_HTTPException_reraise_def derive_kseaf_def Let_def

lemma confirmed_state_ctx: "confirmed_state ''ctx-1'' = Some confirmed_ctx"
  by (simp add: confirmed_state_def confirmed_ctx_def ausf_eval_defs)

lemma reconfirm_wrong:
  "ausf_step toy_hash confirmed_state (Confirm ''ctx-1'' ''wrong'') ''ctx-1''
     = Some (confirmed_ctx\<lparr>ctx_status := ''FAILURE''\<rparr>)"
  using confirmed_state_ctx
  by (simp add: confirmed_ctx_def authentication_confirmation_def
      authentication_confirmation_body_def verify_authentication_response_def)

theorem ausf_success_has_kseaf_and_terminal_stays_terminal_witness:
  "ausf_run toy_hash [one_auth_request, Confirm ''ctx-1'' ''abc''] ''ctx-1'' = Some confirmed_ctx
   \<and> ctx_status confirmed_ctx = ''SUCCESS'' \<and> ctx_kseaf confirmed_ctx \<noteq> None
   \<and> confirmed_state ''ctx-1'' = Some confirmed_ctx \<and> terminal (ctx_status confirmed_ctx)
   \<and> fresh_id confirmed_state (Confirm ''ctx-1'' ''wrong'')
   \<and> ausf_step toy_hash confirmed_state (Confirm ''ctx-1'' ''wrong'') ''ctx-1''
        = Some (confirmed_ctx\<lparr>ctx_status := ''FAILURE''\<rparr>)
   \<and> terminal (ctx_status (confirmed_ctx\<lparr>ctx_status := ''FAILURE''\<rparr>))"
proof -
  have a: "ausf_run toy_hash [one_auth_request, Confirm ''ctx-1'' ''abc''] ''ctx-1'' = Some confirmed_ctx"
    using confirmed_state_ctx by (simp add: confirmed_state_def)
  have b: "ctx_status confirmed_ctx = ''SUCCESS''" by (simp add: confirmed_ctx_def)
  have t: "terminal (ctx_status confirmed_ctx)" by (simp add: terminal_def confirmed_ctx_def)
  have f: "fresh_id confirmed_state (Confirm ''ctx-1'' ''wrong'')" by simp
  from ausf_success_has_kseaf_and_terminal_stays_terminal
    [of toy_hash "[one_auth_request, Confirm ''ctx-1'' ''abc'']" "''ctx-1''" confirmed_state
        "Confirm ''ctx-1'' ''wrong''"]
  show ?thesis using a b t f confirmed_state_ctx reconfirm_wrong by blast
qed

theorem ausf_terminal_status_changes_counterexample:
  "map_option ctx_status (confirmed_state ''ctx-1'') = Some ''SUCCESS''
   \<and> map_option ctx_status
        (snd (authentication_confirmation toy_hash confirmed_state ''ctx-1'' ''wrong'') ''ctx-1'')
       = Some ''FAILURE''"
  using confirmed_state_ctx reconfirm_wrong by (simp add: confirmed_ctx_def)

subsection \<open>Session management function\<close>

lemma missing_field_400:
  assumes "f \<in> set required_fields" "dict_get d f = None"
  shows "create_sm_context s upf_url n4 d = (Inl (HTTPException 400), s)"
proof -
  have "f \<in> set (missing_fields d)" using assms by (simp add: missing_fields_def)
  then have "missing_fields d \<noteq> []" by auto
  then show ?thesis by (simp add: create_sm_context_def)
qed

lemma no_missing_fields:
  assumes "missing_fields d = []" "f \<in> set required_fields"
  shows "\<exists>v. dict_get d f = Some v \<and> truthy v"
proof -
  from assms(1) have "\<forall>x \<in> set required_fields.
      \<not> (case dict_get d x of None \<Rightarrow> True | Some v \<Rightarrow> \<not> truthy v)"
    unfolding missing_fields_def filter_empty_conv .
  with assms(2) show ?thesis by (auto split: option.splits)
qed

lemma success_shape:
  assumes "fst (create_sm_context s upf_url n4 d) = Inr r"
  shows "\<exists>i. map_option py_int_of (dict_get d ''pduSessionId'') = Some (Some i)
             \<and> ueIpAddress r = ''10.'' @ str_int ((i mod 254) + 1) @ ''.0.1''
             \<and> map qf_qfi (qosFlowSetupRequestList r) = [9]"
proof -
  have m: "missing_fields d = []" using assms by (auto simp: create_sm_context_def split: if_splits)
  from no_missing_fields[OF m, of "''pduSessionId''"]
  obtain v where v: "dict_get d ''pduSessionId'' = Some v"
    by (auto simp: required_fields_def)
  have body: "except_HTTPException_reraise (fst (create_sm_context_body s upf_url n4 d)) = Inr r"
    using assms m by (simp add: create_sm_context_def split_beta)
  show ?thesis
  proof (cases "py_int_of v")
    case None
    with body v show ?thesis
      by (simp add: create_sm_context_body_def except_HTTPException_reraise_def)
  next
    case (Some i)
    show ?thesis
    proof (cases "send_pfcp_establishment_request upf_url n4")
      case (Inl e)
      with body v Some show ?thesis
        by (cases e) (simp_all add: create_sm_context_body_def except_HTTPException_reraise_def Let_def)
    next
      case (Inr resp)
      with body v Some show ?thesis
        by (auto simp add: create_sm_context_body_def except_HTTPException_reraise_def Let_def)
    qed
  qed
qed

lemma s2_value:
  "fst (create_sm_context [] (Some ''http://127.0.0.1:9002'') (N4Response []) s2_request) =
     Inr \<lparr>sm_status = ''CREATED'', sm_cause = ''PDU_SESSION_ESTABLISHMENT_ACCEPTED'',
           sm_pduSessionId = JInt 1, ueIpAddress = ''10.2.0.1'',
           qosFlowSetupRequestList = [\<lparr>qf_qfi = 9, qf_5qi = 9, qf_priority = 80\<rparr>],
           contextId = ''imsi-001010000000001:1''\<rparr>"
  by (simp add: create_sm_context_def create_sm_context_body_def missing_fields_def
      required_fields_def s2_request_def dict_get_def send_pfcp_establishment_request_def
      except_HTTPException_reraise_def str_int_def str_nat.simps digit_char_def Let_def)

text \<open>
  Claim C7.  A request that lacks one of the mandatory fields is answered 400 (as is one
  whose field is falsy: \<open>not pdu_session_data.get(field)\<close>).  Every successful answer
  carries \<open>ueIpAddress = "10.<(pduSessionId % 254) + 1>.0.1"\<close> and a
  \<open>qosFlowSetupRequestList\<close> whose only entry has \<open>qfi = 9\<close>; for \<open>pduSessionId = 1\<close>
  the address is \<open>"10.2.0.1"\<close>.
\<close>

theorem create_sm_context_validates_and_allocates:
  "(f \<in> set required_fields \<and> dict_get d f = None
      \<longrightarrow> fst (create_sm_context s upf_url n4 d) = Inl (HTTPException 400))
   \<and> (fst (create_sm_context s upf_url n4 d) = Inr r
      \<longrightarrow> (\<exists>i. map_option py_int_of (dict_get d ''pduSessionId'') = Some (Some i)
               \<and> ueIpAddress r = ''10.'' @ str_int ((i mod 254) + 1) @ ''.0.1''
               \<and> map qf_qfi (qosFlowSetupRequestList r) = [9]))
   \<and> (fst (create_sm_context s upf_url n4 d) = Inr r \<and> dict_get d ''pduSessionId'' = Some (JInt 1)
      \<longrightarrow> ueIpAddress r = ''10.2.0.1'' \<and> map qf_qfi (qosFlowSetupRequestList r) = [9])"
proof (intro conjI impI)
  assume "f \<in> set required_fields \<and> dict_get d f = None"
  then show "fst (create_sm_context s upf_url n4 d) = Inl (HTTPException 400)"
    using missing_field_400[of f d s upf_url n4] by simp
next
  assume "fst (create_sm_context s upf_url n4 d) = Inr r"
  then show "\<exists>i. map_option py_int_of (dict_get d ''pduSessionId'') = Some (Some i)
               \<and> ueIpAddress r = ''10.'' @ str_int ((i mod 254) + 1) @ ''.0.1''
               \<and> map qf_qfi (qosFlowSetupRequestList r) = [9]"
    by (rule success_shape)
next
  assume a: "fst (create_sm_context s upf_url n4 d) = Inr r \<and> dict_get d ''pduSessionId'' = Some (JInt 1)"
  have two: "str_int 2 = ''2''" by (simp add: str_int_def str_nat.simps digit_char_def)
  from a success_shape[of s upf_url n4 d r]
  show "ueIpAddress r = ''10.2.0.1''" by (auto simp: two)
  from a success_shape[of s upf_url n4 d r]
  show "map qf_qfi (qosFlowSetupRequestList r) = [9]" by auto
qed

theorem create_sm_context_validates_and_allocates_witness:
  "''anType'' \<in> set required_fields \<and> dict_get (butlast s2_request) ''anType'' = None
   \<and> fst (create_sm_context [] (Some ''http://127.0.0.1:9002'') (N4Response []) (butlast s2_request))
        = Inl (HTTPException 400)
   \<and> dict_get s2_request ''pduSessionId'' = Some (JInt 1)
   \<and> (\<exists>r. fst (create_sm_context [] (Some ''http://127.0.0.1:9002'') (N4Response []) s2_request) = Inr r
          \<and> ueIpAddress r = ''10.2.0.1'' \<and> map qf_qfi (qosFlowSetupRequestList r) = [9])"
proof -
  have a: "''anType'' \<in> set required_fields" by (simp add: required_fields_def)
  have b: "dict_get (butlast s2_request) ''anType'' = None" by (simp add: s2_request_def dict_get_def)
  have c: "dict_get s2_request ''pduSessionId'' = Some (JInt 1)" by (simp add: s2_request_def dict_get_def)
  from create_sm_context_validates_and_allocates
         [of "''anType''" "butlast s2_request" "[]" "Some ''http://127.0.0.1:9002''" "N4Response []"]
       a b
  have d: "fst (create_sm_context [] (Some ''http://127.0.0.1:9002'') (N4Response []) (butlast s2_request))
        = Inl (HTTPException 400)" by blast
  from create_sm_context_validates_and_allocates
         [of _ s2_request "[]" "Some ''http://127.0.0.1:9002''" "N4Response []"] s2_value c
  have e: "\<exists>r. fst (create_sm_context [] (Some ''http://127.0.0.1:9002'') (N4Response []) s2_request) = Inr r
          \<and> ueIpAddress r = ''10.2.0.1'' \<and> map qf_qfi (qosFlowSetupRequestList r) = [9]"
    by blast
  show ?thesis using a b c d e by blast
qed

subsection \<open>Access and mobility management function: registration\<close>

lemma registration_state_written:
  "\<exists>c. ue_contexts (snd (process_registration_request py_hash s req auth_result udm_ok)) (supi_of (suci req)) = Some c
       \<and> registration_state c = (if authentication_initiated req auth_result then ''INITIAL'' else ''REGISTERED'')"
  by (simp add: process_registration_request_def process_registration_request_body_def Let_def
      initial_ue_context_def split: sum.splits)

lemma registration_other_contexts:
  "u \<noteq> supi_of (suci req) \<Longrightarrow>
   ue_contexts (snd (process_registration_request py_hash s req auth_result udm_ok)) u = ue_contexts s u"
  by (simp add: process_registration_request_def process_registration_request_body_def Let_def
      split: sum.splits)

lemma registration_status_authentication:
  assumes "fst (process_registration_request py_hash s req auth_result udm_ok) = Inr r"
  shows "reg_status r = ''AUTHENTICATION_REQUIRED'' \<longleftrightarrow> authentication_initiated req auth_result"
  using assms
  by (auto simp add: process_registration_request_def process_registration_request_body_def Let_def
      except_Exception_500_def split: sum.splits if_splits)

lemma registration_keeps_inv:
  assumes "amf_state_inv s"
  shows "amf_state_inv (snd (process_registration_request py_hash s req auth_result udm_ok))"
  unfolding amf_state_inv_def
proof (intro allI impI)
  fix u c
  let ?s' = "snd (process_registration_request py_hash s req auth_result udm_ok)"
  assume c: "ue_contexts ?s' u = Some c"
  show "registration_state c \<in> {''INITIAL'', ''REGISTERED''}"
  proof (cases "u = supi_of (suci req)")
    case True
    obtain c' where "ue_contexts ?s' (supi_of (suci req)) = Some c'"
      and "registration_state c' = (if authentication_initiated req auth_result then ''INITIAL'' else ''REGISTERED'')"
      using registration_state_written by blast
    with c True show ?thesis by auto
  next
    case False
    then have "ue_contexts s u = Some c"
      using c registration_other_contexts by simp
    with assms show ?thesis unfolding amf_state_inv_def by blast
  qed
qed

lemma security_mode_complete_keeps_inv:
  assumes "amf_state_inv s"
  shows "amf_state_inv (snd (process_security_mode_complete py_hash s supi imeisv_value))"
  using assms
  by (auto simp add: process_security_mode_complete_def amf_state_inv_def Let_def
      split: option.splits if_splits)

lemma amf_step_keeps_inv:
  "amf_state_inv s \<Longrightarrow> amf_state_inv (amf_step py_hash s op)"
  by (cases op) (simp_all add: registration_keeps_inv security_mode_complete_keeps_inv)

lemma foldl_amf_inv:
  "amf_state_inv s \<Longrightarrow> amf_state_inv (foldl (amf_step py_hash) s ops)"
  by (induction ops arbitrary: s) (simp_all add: amf_step_keeps_inv)

lemma amf_run_inv: "amf_state_inv (amf_run py_hash ops)"
  unfolding amf_run_def by (rule foldl_amf_inv) (simp add: amf_state_inv_def amf_init_def)

lemma s1_registration_answer:
  "fst (process_registration_request py_hash amf_init s1_registration (Some s1_auth_result) True)
     = Inr \<lparr>reg_status = ''AUTHENTICATION_REQUIRED'',
            reg_nas_message = AuthenticationRequestMsg (JStr ''r'') (JStr ''a''),
            reg_guti = None, reg_udm_registered = None\<rparr>"
  by (simp add: process_registration_request_def process_registration_request_body_def Let_def
      authentication_initiated_def s1_registration_def s1_auth_result_def
      create_authentication_request_def dict_get_def except_Exception_500_def)

lemma s1_supi: "supi_of (suci s1_registration) = ''imsi-000000001''"
  by (simp add: supi_of_def s1_registration_def)

text \<open>
  Claim C4, as amended.  On the path that answers \<open>AUTHENTICATION_REQUIRED\<close> the handler
  has stored the UE context under the derived SUPI with \<open>registration_state\<close>
  \<open>"INITIAL"\<close>, and in every state that the handlers reach from the empty dictionary the
  stored registration state is \<open>"INITIAL"\<close> or \<open>"REGISTERED"\<close>.  The code has no state
  named \<open>AUTH_PENDING\<close>, \<open>SEC_PENDING\<close> or \<open>DEREGISTERED\<close>: the context of a
  registration that waits for its authentication is in state \<open>"INITIAL"\<close>, which is not
  in the set of the claim (see the counterexample below).
\<close>

theorem registration_request_stores_initial_state:
  "(fst (process_registration_request py_hash s req auth_result udm_ok) = Inr r
      \<and> reg_status r = ''AUTHENTICATION_REQUIRED''
    \<longrightarrow> map_option registration_state
          (ue_contexts (snd (process_registration_request py_hash s req auth_result udm_ok))
             (supi_of (suci req))) = Some ''INITIAL'')
   \<and> (ue_contexts (amf_run py_hash ops) u = Some c
      \<longrightarrow> registration_state c \<in> {''INITIAL'', ''REGISTERED''})"
proof (intro conjI impI)
  assume a: "fst (process_registration_request py_hash s req auth_result udm_ok) = Inr r
      \<and> reg_status r = ''AUTHENTICATION_REQUIRED''"
  then have "authentication_initiated req auth_result"
    using registration_status_authentication by blast
  then show "map_option registration_state
          (ue_contexts (snd (process_registration_request py_hash s req auth_result udm_ok))
             (supi_of (suci req))) = Some ''INITIAL''"
    using registration_state_written [of py_hash s req auth_result udm_ok] by auto
next
  assume "ue_contexts (amf_run py_hash ops) u = Some c"
  then show "registration_state c \<in> {''INITIAL'', ''REGISTERED''}"
    using amf_run_inv [of py_hash ops] unfolding amf_state_inv_def by blast
qed

theorem registration_request_stores_initial_state_witness:
  "fst (process_registration_request (\<lambda>x. 0) amf_init s1_registration (Some s1_auth_result) True)
     = Inr \<lparr>reg_status = ''AUTHENTICATION_REQUIRED'',
            reg_nas_message = AuthenticationRequestMsg (JStr ''r'') (JStr ''a''),
            reg_guti = None, reg_udm_registered = None\<rparr>
   \<and> map_option registration_state
        (ue_contexts (snd (process_registration_request (\<lambda>x. 0) amf_init s1_registration
            (Some s1_auth_result) True)) ''imsi-000000001'') = Some ''INITIAL''
   \<and> (\<exists>c. ue_contexts (amf_run (\<lambda>x. 0) [RegistrationReq s1_registration (Some s1_auth_result) True,
              SecurityModeComplete (Some ''imsi-000000001'') None]) ''imsi-000000001'' = Some c
          \<and> registration_state c = ''REGISTERED''
          \<and> registration_state c \<in> {''INITIAL'', ''REGISTERED''})"
proof -
  let ?ops = "[RegistrationReq s1_registration (Some s1_auth_result) True,
              SecurityModeComplete (Some ''imsi-000000001'') None]"
  have run: "\<exists>c. ue_contexts (amf_run (\<lambda>x. 0) ?ops) ''imsi-000000001'' = Some c
          \<and> registration_state c = ''REGISTERED''"
    by (simp add: amf_run_def amf_init_def process_registration_request_def
        process_registration_request_body_def Let_def authentication_initiated_def
        s1_registration_def s1_auth_result_def create_authentication_request_def dict_get_def
        except_Exception_500_def supi_of_def process_security_mode_complete_def
        initial_ue_context_def)
  then obtain c where c: "ue_contexts (amf_run (\<lambda>x. 0) ?ops) ''imsi-000000001'' = Some c"
    "registration_state c = ''REGISTERED''" by blast
  note t = registration_request_stores_initial_state [of "\<lambda>x. 0" amf_init s1_registration
      "Some s1_auth_result" True
      "\<lparr>reg_status = ''AUTHENTICATION_REQUIRED'',
            reg_nas_message = AuthenticationRequestMsg (JStr ''r'') (JStr ''a''),
            reg_guti = None, reg_udm_registered = None\<rparr>" ?ops "''imsi-000000001''" c]
  show ?thesis
    using t c s1_registration_answer [of "\<lambda>x. 0"] s1_supi by auto
qed

theorem registration_state_not_auth_pending_counterexample:
  "fst (process_registration_request (\<lambda>x. 0) amf_init s1_registration (Some s1_auth_result) True)
     = Inr \<lparr>reg_status = ''AUTHENTICATION_REQUIRED'',
            reg_nas_message = AuthenticationRequestMsg (JStr ''r'') (JStr ''a''),
            reg_guti = None, reg_udm_registered = None\<rparr>
   \<and> map_option registration_state
        (ue_contexts (snd (process_registration_request (\<lambda>x. 0) amf_init s1_registration
            (Some s1_auth_result) True)) ''imsi-000000001'') = Some ''INITIAL''
   \<and> ''INITIAL'' \<noteq> ''AUTH_PENDING''
   \<and> ''INITIAL'' \<notin> {''DEREGISTERED'', ''AUTH_PENDING'', ''SEC_PENDING'', ''REGISTERED''}"
  by (simp add: process_registration_request_def process_registration_request_body_def Let_def
      authentication_initiated_def s1_registration_def s1_auth_result_def
      create_authentication_request_def dict_get_def except_Exception_500_def supi_of_def
      initial_ue_context_def)

subsection \<open>Delegation of the PDU session establishment to the SMF\<close>

lemma smf_request_keys:
  "map fst (smf_request_of pdu_req)
     = [''pduSessionId'', ''dnn'', ''sNssai'', ''pduSessionType'', ''sscMode'']"
  by (simp add: smf_request_of_def)

lemma smf_request_lacks_supi: "dict_get (smf_request_of pdu_req) ''supi'' = None"
  by (simp add: smf_request_of_def dict_get_def)

lemma smf_request_lacks_anType: "dict_get (smf_request_of pdu_req) ''anType'' = None"
  by (simp add: smf_request_of_def dict_get_def)

lemma smf_rejects_amf_request:
  "create_sm_context ss upf_url n4 (smf_request_of pdu_req) = (Inl (HTTPException 400), ss)"
  by (rule missing_field_400 [where f = "''supi''"])
     (simp_all add: required_fields_def smf_request_lacks_supi)

lemma smf_peer_answer:
  "smf_peer ss upf_url n4 (smf_request_of pdu_req)
     = HttpResponse 400 (Some (JObj [(''detail'', JNull)]))"
  by (simp add: smf_peer_def smf_rejects_amf_request)

text \<open>
  Claim C10.  The dictionary that the AMF posts to the SMF has exactly the keys
  \<open>pduSessionId\<close>, \<open>dnn\<close>, \<open>sNssai\<close>, \<open>pduSessionType\<close> and \<open>sscMode\<close>; \<open>supi\<close> and
  \<open>anType\<close> are no keys of it.  The SMF's \<open>create_sm_context\<close> answers it with 400 and
  leaves its state as it was, whatever its state, its UPF and the request are.  With the
  SMF as the peer, whatever \<open>smf_url\<close> is, the AMF answers
  \<open>PDU_SESSION_ESTABLISHMENT_ACCEPT\<close> with \<open>allocated_ip\<close> \<open>"192.168.1.100"\<close> and no
  session context, and stores the session as \<open>ACTIVE\<close> without an SMF context.
\<close>

theorem amf_sm_context_request_rejected_and_fallback_accept:
  "map fst (smf_request_of pdu_req)
     = [''pduSessionId'', ''dnn'', ''sNssai'', ''pduSessionType'', ''sscMode'']
   \<and> dict_get (smf_request_of pdu_req) ''supi'' = None
   \<and> dict_get (smf_request_of pdu_req) ''anType'' = None
   \<and> create_sm_context ss upf_url n4 (smf_request_of pdu_req) = (Inl (HTTPException 400), ss)
   \<and> fst (process_pdu_session_establishment_request s session_id pdu_req smf_url
             (smf_peer ss upf_url n4))
       = Inr \<lparr>pdu_status = ''PDU_SESSION_ESTABLISHMENT_ACCEPT'',
              resp_pdu_session_id = pdu_session_id pdu_req, session_context = None,
              allocated_ip = Some ''192.168.1.100''\<rparr>
   \<and> pdu_sessions (snd (process_pdu_session_establishment_request s session_id pdu_req smf_url
             (smf_peer ss upf_url n4))) session_id
       = Some \<lparr>ps_pdu_session_id = pdu_session_id pdu_req, ps_pti = pti pdu_req,
               ps_pdu_session_type = pdu_session_type pdu_req,
               ps_ssc_mode = ssc_mode pdu_req, ps_state = ''ACTIVE'', smf_context = None\<rparr>"
proof (intro conjI)
  show "map fst (smf_request_of pdu_req)
     = [''pduSessionId'', ''dnn'', ''sNssai'', ''pduSessionType'', ''sscMode'']"
    by (rule smf_request_keys)
  show "dict_get (smf_request_of pdu_req) ''supi'' = None" by (rule smf_request_lacks_supi)
  show "dict_get (smf_request_of pdu_req) ''anType'' = None" by (rule smf_request_lacks_anType)
  show "create_sm_context ss upf_url n4 (smf_request_of pdu_req) = (Inl (HTTPException 400), ss)"
    by (rule smf_rejects_amf_request)
  show "fst (process_pdu_session_establishment_request s session_id pdu_req smf_url
             (smf_peer ss upf_url n4))
       = Inr \<lparr>pdu_status = ''PDU_SESSION_ESTABLISHMENT_ACCEPT'',
              resp_pdu_session_id = pdu_session_id pdu_req, session_context = None,
              allocated_ip = Some ''192.168.1.100''\<rparr>"
    by (simp add: process_pdu_session_establishment_request_def smf_peer_answer Let_def
        split: option.splits)
  show "pdu_sessions (snd (process_pdu_session_establishment_request s session_id pdu_req smf_url
             (smf_peer ss upf_url n4))) session_id
       = Some \<lparr>ps_pdu_session_id = pdu_session_id pdu_req, ps_pti = pti pdu_req,
               ps_pdu_session_type = pdu_session_type pdu_req,
               ps_ssc_mode = ssc_mode pdu_req, ps_state = ''ACTIVE'', smf_context = None\<rparr>"
    by (simp add: process_pdu_session_establishment_request_def smf_peer_answer Let_def
        split: option.splits)
qed

subsection \<open>Policy control function\<close>

lemma convert_triggers_unknown:
  "t \<in> set ts \<Longrightarrow> trigger_of_json t = None \<Longrightarrow> convert_triggers ts = Inl ValueError"
proof (induction ts)
  case Nil
  then show ?case by simp
next
  case (Cons a ts)
  show ?case
  proof (cases "trigger_of_json a")
    case None
    then show ?thesis by simp
  next
    case (Some g)
    with Cons.prems have "t \<in> set ts" by auto
    then have "convert_triggers ts = Inl ValueError" using Cons.IH Cons.prems(2) by simp
    then show ?thesis using Some by simp
  qed
qed

lemma convert_triggers_error:
  "convert_triggers ts = Inl e \<Longrightarrow> e = ValueError"
  by (induction ts arbitrary: e) (auto split: option.splits sum.splits)

lemma update_unknown_id:
  assumes "sm_policy_decisions s smPolicyId = None"
  shows "update_sm_policy s smPolicyId update_data now = (Inl (HTTPException 500), s)"
  using assms
  by (simp add: update_sm_policy_def update_sm_policy_body_def except_Exception_500_def domIff)

lemma update_unknown_trigger:
  assumes "sm_policy_decisions s smPolicyId = Some d"
    and "dict_get u ''triggers'' = Some (JList ts)"
    and "t \<in> set ts" and "trigger_of_json t = None"
  shows "update_sm_policy s smPolicyId (Some u) now = (Inl (HTTPException 500), s)"
proof -
  have "triggers_of (Some u) = Inl ValueError"
    using assms(2) convert_triggers_unknown [OF assms(3,4)] by (simp add: triggers_of_def)
  moreover have "smPolicyId \<in> dom (sm_policy_decisions s)" using assms(1) by auto
  ultimately show ?thesis
    by (simp add: update_sm_policy_def update_sm_policy_body_def except_Exception_500_def)
qed

lemma internet_no_service_dnn:
  "\<not> sublist ''video'' ''internet'' \<and> \<not> sublist ''gaming'' ''internet''"
  by code_simp

lemma p1_known: "sm_policy_decisions pcf_with_p1 ''p1'' \<noteq> None"
  using internet_no_service_dnn
  by (simp add: pcf_with_p1_def create_sm_policy_def create_sm_policy_decision_def
      add_rule_and_qos_def pcf_init_def internet_context_def dict_get_def
      default_pcc_rules_def default_qos_data_def Let_def)

lemma p2_unknown: "sm_policy_decisions pcf_with_p1 ''p2'' = None"
  using internet_no_service_dnn
  by (simp add: pcf_with_p1_def create_sm_policy_def create_sm_policy_decision_def
      add_rule_and_qos_def pcf_init_def internet_context_def dict_get_def
      default_pcc_rules_def default_qos_data_def Let_def)

lemma bogus_no_trigger: "trigger_of_json (JStr ''BOGUS'') = None"
  by (simp add: trigger_values_def)

text \<open>
  Claim C5, as amended.  A PATCH for an id that is no key of \<open>sm_policy_decisions\<close> is
  answered with an error and changes nothing, and the GET handler answers 404 for such
  an id.  A PATCH for a known id whose \<open>triggers\<close> list holds a value that is no member
  of \<open>PolicyControlRequestTrigger\<close> is answered 500 (the \<open>ValueError\<close> of the enumeration
  is caught by \<open>except Exception\<close>; nothing in the handler answers 400) and changes
  nothing.
\<close>

theorem update_sm_policy_rejects_unknown_id_and_unknown_trigger:
  "(sm_policy_decisions s smPolicyId = None
      \<longrightarrow> isl (fst (update_sm_policy s smPolicyId update_data now))
          \<and> snd (update_sm_policy s smPolicyId update_data now) = s
          \<and> get_sm_policy s smPolicyId = Inl (HTTPException 404))
   \<and> (sm_policy_decisions s' smPolicyId' \<noteq> None \<and> dict_get u ''triggers'' = Some (JList ts)
        \<and> t \<in> set ts \<and> trigger_of_json t = None
      \<longrightarrow> update_sm_policy s' smPolicyId' (Some u) now' = (Inl (HTTPException 500), s'))"
proof (intro conjI impI)
  assume a: "sm_policy_decisions s smPolicyId = None"
  show "isl (fst (update_sm_policy s smPolicyId update_data now))"
    by (simp add: update_unknown_id [OF a])
  show "snd (update_sm_policy s smPolicyId update_data now) = s"
    by (simp add: update_unknown_id [OF a])
  show "get_sm_policy s smPolicyId = Inl (HTTPException 404)"
    using a by (simp add: get_sm_policy_def)
next
  assume b: "sm_policy_decisions s' smPolicyId' \<noteq> None \<and> dict_get u ''triggers'' = Some (JList ts)
        \<and> t \<in> set ts \<and> trigger_of_json t = None"
  then obtain d where "sm_policy_decisions s' smPolicyId' = Some d" by auto
  then show "update_sm_policy s' smPolicyId' (Some u) now' = (Inl (HTTPException 500), s')"
    using b update_unknown_trigger by blast
qed

theorem update_sm_policy_rejects_unknown_id_and_unknown_trigger_witness:
  "sm_policy_decisions pcf_with_p1 ''p2'' = None
   \<and> isl (fst (update_sm_policy pcf_with_p1 ''p2'' None 5))
   \<and> snd (update_sm_policy pcf_with_p1 ''p2'' None 5) = pcf_with_p1
   \<and> get_sm_policy pcf_with_p1 ''p2'' = Inl (HTTPException 404)
   \<and> sm_policy_decisions pcf_with_p1 ''p1'' \<noteq> None
   \<and> dict_get [(''triggers'', JList [JStr ''APP_STA'', JStr ''BOGUS''])] ''triggers''
        = Some (JList [JStr ''APP_STA'', JStr ''BOGUS''])
   \<and> JStr ''BOGUS'' \<in> set [JStr ''APP_STA'', JStr ''BOGUS'']
   \<and> trigger_of_json (JStr ''BOGUS'') = None
   \<and> update_sm_policy pcf_with_p1 ''p1''
        (Some [(''triggers'', JList [JStr ''APP_STA'', JStr ''BOGUS''])]) 5
       = (Inl (HTTPException 500), pcf_with_p1)"
proof -
  have g: "dict_get [(''triggers'', JList [JStr ''APP_STA'', JStr ''BOGUS''])] ''triggers''
        = Some (JList [JStr ''APP_STA'', JStr ''BOGUS''])"
    by (simp add: dict_get_def)
  have m: "JStr ''BOGUS'' \<in> set [JStr ''APP_STA'', JStr ''BOGUS'']" by simp
  note t = update_sm_policy_rejects_unknown_id_and_unknown_trigger
    [of pcf_with_p1 "''p2''" None 5 pcf_with_p1 "''p1''"
        "[(''triggers'', JList [JStr ''APP_STA'', JStr ''BOGUS''])]"
        "[JStr ''APP_STA'', JStr ''BOGUS'']" "JStr ''BOGUS''" 5]
  show ?thesis
    using t p1_known p2_unknown bogus_no_trigger g m by blast
qed

theorem update_sm_policy_answers_500_counterexample:
  "sm_policy_decisions pcf_with_p1 ''p2'' = None
   \<and> fst (update_sm_policy pcf_with_p1 ''p2'' None 5) = Inl (HTTPException 500)
   \<and> fst (update_sm_policy pcf_with_p1 ''p2'' None 5) \<noteq> Inl (HTTPException 404)
   \<and> sm_policy_decisions pcf_with_p1 ''p1'' \<noteq> None
   \<and> trigger_of_json (JStr ''BOGUS'') = None
   \<and> fst (update_sm_policy pcf_with_p1 ''p1'' (Some [(''triggers'', JList [JStr ''BOGUS''])]) 5)
       = Inl (HTTPException 500)
   \<and> fst (update_sm_policy pcf_with_p1 ''p1'' (Some [(''triggers'', JList [JStr ''BOGUS''])]) 5)
       \<noteq> Inl (HTTPException 400)"
proof -
  have "triggers_of (Some [(''triggers'', JList [JStr ''BOGUS''])]) = Inl ValueError"
    by (simp add: triggers_of_def dict_get_def trigger_values_def)
  moreover have "''p1'' \<in> dom (sm_policy_decisions pcf_with_p1)"
    using p1_known by auto
  ultimately have a: "fst (update_sm_policy pcf_with_p1 ''p1'' (Some [(''triggers'', JList [JStr ''BOGUS''])]) 5)
       = Inl (HTTPException 500)"
    by (simp add: update_sm_policy_def update_sm_policy_body_def except_Exception_500_def)
  have b: "fst (update_sm_policy pcf_with_p1 ''p2'' None 5) = Inl (HTTPException 500)"
    using p2_unknown
    by (simp add: update_sm_policy_def update_sm_policy_body_def except_Exception_500_def domIff)
  have a': "fst (update_sm_policy pcf_with_p1 ''p1'' (Some [(''triggers'', JList [JStr ''BOGUS''])]) 5)
       \<noteq> Inl (HTTPException 400)"
    by (simp add: a)
  have b': "fst (update_sm_policy pcf_with_p1 ''p2'' None 5) \<noteq> Inl (HTTPException 404)"
    by (simp add: b)
  show ?thesis
    using a b a' b' p1_known p2_unknown bogus_no_trigger by blast
qed

subsection \<open>Network repository function\<close>

lemma apply_limit_subset: "set (apply_limit limit xs) \<subseteq> set xs"
  by (auto simp add: apply_limit_def split: option.splits dest: in_set_takeD)

lemma apply_limit_sorted:
  "sorted_wrt R xs \<Longrightarrow> sorted_wrt R (apply_limit limit xs)"
  by (simp add: apply_limit_def sorted_wrt_take split: option.splits)

lemma discovery_key_order:
  "discovery_key a \<le> discovery_key b \<longleftrightarrow> discovery_order a b"
  by (auto simp add: discovery_key_def discovery_order_def less_eq_prod_def)

lemma sort_key_discovery_order:
  "sorted_wrt discovery_order (sort_key discovery_key xs)"
proof -
  have "sorted (map discovery_key (sort_key discovery_key xs))" by (rule sorted_sort_key)
  then have "sorted_wrt (\<lambda>a b. discovery_key a \<le> discovery_key b) (sort_key discovery_key xs)"
    by (simp add: sorted_map)
  then show ?thesis by (simp add: discovery_key_order)
qed

lemma found_registered:
  assumes "p \<in> set (find_nf_instances reg target requester names snssais plmns dnn limit)"
  shows "nfStatus p = REGISTERED \<and> p \<in> set (map snd reg)"
proof -
  let ?f = "filter (\<lambda>nf_profile.
                type_ok target nf_profile
              \<and> requester_ok requester nf_profile
              \<and> services_ok names nf_profile
              \<and> snssais_ok snssais nf_profile
              \<and> plmn_ok plmns nf_profile
              \<and> nfStatus nf_profile = REGISTERED) (map snd reg)"
  have "p \<in> set (sort_key discovery_key ?f)"
    using assms apply_limit_subset [of limit "sort_key discovery_key ?f"]
    by (auto simp add: find_nf_instances_def)
  then have "p \<in> set ?f" by simp
  then show ?thesis by auto
qed

lemma found_by_type:
  assumes "p \<in> set (map snd reg)"
  shows "p \<in> set (find_nf_instances reg (Some (nfType p)) None None None None None None)
           \<longleftrightarrow> nfStatus p = REGISTERED"
  using assms
  by (auto simp add: find_nf_instances_def apply_limit_def type_ok_def requester_ok_def
      services_ok_def snssais_ok_def plmn_ok_def nonempty_def)

lemma found_sorted:
  "sorted_wrt discovery_order (find_nf_instances reg target requester names snssais plmns dnn limit)"
  by (simp add: find_nf_instances_def apply_limit_sorted sort_key_discovery_order)

lemma found_limit:
  assumes "1 \<le> n"
  shows "find_nf_instances reg target requester names snssais plmns dnn (Some n)
           = take (nat n) (find_nf_instances reg target requester names snssais plmns dnn None)"
  using assms by (simp add: find_nf_instances_def apply_limit_def)

lemma sample_amf_search:
  "map nfInstanceId (find_nf_instances sample_registry (Some AMF) None None None None None None)
     = [''amf-d'', ''amf-b'', ''amf-a'']"
  by code_simp

lemma sample_amf_search_limit:
  "map nfInstanceId (find_nf_instances sample_registry (Some AMF) None None None None None (Some 2))
     = [''amf-d'', ''amf-b'']"
  by code_simp

text \<open>
  Claim C8.  Every profile that a discovery returns has \<open>nfStatus\<close> \<open>REGISTERED\<close>,
  whatever the filters are.  For a stored profile \<open>p\<close>, the discovery with target type
  \<open>p.nfType\<close> and no other filter and no limit includes \<open>p\<close> iff \<open>p.nfStatus\<close> is
  \<open>REGISTERED\<close>.  The list returned is in ascending order of priority and, among equal
  priorities, in descending order of capacity (an absent value counting as 0, as in the
  key of the sort).  With a limit \<open>n\<close> (the endpoint admits \<open>n \<ge> 1\<close> only) the list is
  the first \<open>n\<close> profiles of the list without limit.
\<close>

theorem discovery_returns_registered_sorted_limited:
  "(\<forall>q \<in> set (find_nf_instances reg target requester names snssais plmns dnn limit).
        nfStatus q = REGISTERED)
   \<and> (p \<in> set (map snd reg)
        \<longrightarrow> (p \<in> set (find_nf_instances reg (Some (nfType p)) None None None None None None)
              \<longleftrightarrow> nfStatus p = REGISTERED))
   \<and> sorted_wrt discovery_order
         (find_nf_instances reg target requester names snssais plmns dnn limit)
   \<and> (1 \<le> n
        \<longrightarrow> find_nf_instances reg target requester names snssais plmns dnn (Some n)
              = take (nat n) (find_nf_instances reg target requester names snssais plmns dnn None)
          \<and> length (find_nf_instances reg target requester names snssais plmns dnn (Some n))
              \<le> nat n)"
proof (intro conjI ballI impI)
  fix q
  assume "q \<in> set (find_nf_instances reg target requester names snssais plmns dnn limit)"
  then show "nfStatus q = REGISTERED" using found_registered by blast
next
  assume "p \<in> set (map snd reg)"
  then show "p \<in> set (find_nf_instances reg (Some (nfType p)) None None None None None None)
              \<longleftrightarrow> nfStatus p = REGISTERED"
    by (rule found_by_type)
next
  show "sorted_wrt discovery_order
         (find_nf_instances reg target requester names snssais plmns dnn limit)"
    by (rule found_sorted)
next
  assume n: "1 \<le> n"
  show "find_nf_instances reg target requester names snssais plmns dnn (Some n)
              = take (nat n) (find_nf_instances reg target requester names snssais plmns dnn None)"
    using n by (rule found_limit)
  then show "length (find_nf_instances reg target requester names snssais plmns dnn (Some n))
              \<le> nat n"
    by simp
qed

theorem discovery_returns_registered_sorted_limited_witness:
  "nf_profile ''amf-c'' AMF SUSPENDED (Some 0) (Some 90) \<in> set (map snd sample_registry)
   \<and> nf_profile ''amf-c'' AMF SUSPENDED (Some 0) (Some 90)
        \<notin> set (find_nf_instances sample_registry (Some AMF) None None None None None None)
   \<and> map nfInstanceId
        (find_nf_instances sample_registry (Some AMF) None None None None None (Some 2))
       = [''amf-d'', ''amf-b'']
   \<and> list_all (\<lambda>q. nfStatus q = REGISTERED)
        (find_nf_instances sample_registry (Some AMF) None None None None None (Some 2))
   \<and> sorted_wrt discovery_order
        (find_nf_instances sample_registry (Some AMF) None None None None None (Some 2))
   \<and> (1::int) \<le> 2
   \<and> find_nf_instances sample_registry (Some AMF) None None None None None (Some 2)
       = take 2 (find_nf_instances sample_registry (Some AMF) None None None None None None)"
proof -
  let ?p = "nf_profile ''amf-c'' AMF SUSPENDED (Some 0) (Some 90)"
  have m: "?p \<in> set (map snd sample_registry)" by (simp add: sample_registry_def)
  have ty: "nfType ?p = AMF" and st: "nfStatus ?p \<noteq> REGISTERED"
    by (simp_all add: nf_profile_def)
  note t = discovery_returns_registered_sorted_limited
      [of sample_registry "Some AMF" None None None None None "Some 2" ?p 2]
  have one: "(1::int) \<le> 2" by simp
  have a: "?p \<notin> set (find_nf_instances sample_registry (Some AMF) None None None None None None)"
    using t [THEN conjunct2, THEN conjunct1] m st by (simp only: ty) blast
  have b: "list_all (\<lambda>q. nfStatus q = REGISTERED)
        (find_nf_instances sample_registry (Some AMF) None None None None None (Some 2))"
    using t [THEN conjunct1] by (simp only: list_all_iff)
  have c: "sorted_wrt discovery_order
        (find_nf_instances sample_registry (Some AMF) None None None None None (Some 2))"
    using t [THEN conjunct2, THEN conjunct2, THEN conjunct1] .
  have d: "find_nf_instances sample_registry (Some AMF) None None None None None (Some 2)
       = take 2 (find_nf_instances sample_registry (Some AMF) None None None None None None)"
    using t [THEN conjunct2, THEN conjunct2, THEN conjunct2] one by simp
  show ?thesis using m a b c d one sample_amf_search_limit by blast
qed

subsection \<open>RLC acknowledged mode: reception\<close>

lemma am_receive_cases:
  assumes "rx_ready e"
  shows "(hdr_sn (pdu_header pdu) = vr_r e \<and> vr_r e < 2048
            \<and> am_receive e pdu
                = (Some (pdu_payload pdu),
                   e\<lparr>rx_window := (rx_window e)(vr_r e \<mapsto> pdu), vr_r := vr_r e + 1\<rparr>))
       \<or> (\<not> (hdr_sn (pdu_header pdu) = vr_r e \<and> vr_r e < 2048)
            \<and> fst (am_receive e pdu) = None \<and> vr_r (snd (am_receive e pdu)) = vr_r e
            \<and> vr_mr (snd (am_receive e pdu)) = vr_mr e
            \<and> sn_field_length (snd (am_receive e pdu)) = sn_field_length e)"
proof (cases "hdr_sn (pdu_header pdu) = vr_r e \<and> vr_r e < 2048")
  case True
  then have "(vr_r e + 1) mod 4096 = vr_r e + 1" using assms by (simp add: rx_ready_def)
  then show ?thesis
    using True assms by (simp add: am_receive_def is_in_receive_window_def rx_ready_def Let_def)
next
  case False
  then show ?thesis
    using assms by (auto simp add: am_receive_def is_in_receive_window_def rx_ready_def Let_def)
qed

lemma am_receive_ready: "rx_ready e \<Longrightarrow> rx_ready (snd (am_receive e pdu))"
  using am_receive_cases [of e pdu] by (auto simp add: rx_ready_def)

lemma am_receive_buffers:
  "is_in_receive_window (hdr_sn (pdu_header pdu)) (vr_r e) (vr_mr e)
     \<Longrightarrow> rx_window (snd (am_receive e pdu)) (hdr_sn (pdu_header pdu)) = Some pdu"
  by (simp add: am_receive_def Let_def)

lemma am_receive_delivers:
  "fst (am_receive e pdu)
     = (if is_in_receive_window (hdr_sn (pdu_header pdu)) (vr_r e) (vr_mr e)
           \<and> hdr_sn (pdu_header pdu) = vr_r e
        then Some (pdu_payload pdu) else None)"
  by (auto simp add: am_receive_def Let_def)

lemma am_receive_advances:
  "vr_r (snd (am_receive e pdu))
     = (if fst (am_receive e pdu) \<noteq> None then (vr_r e + 1) mod 2 ^ nat (sn_field_length e)
        else vr_r e)"
  by (auto simp add: am_receive_def Let_def)

lemma receive_all_trace:
  assumes "am_entities s eid = Some e" "rx_ready e"
  shows "\<exists>ds e'. subseq ds pdus
            \<and> fst (receive_all s eid pdus) = map pdu_payload ds
            \<and> map (\<lambda>d. hdr_sn (pdu_header d)) ds = [vr_r e..vr_r e' - 1]
            \<and> am_entities (snd (receive_all s eid pdus)) eid = Some e'
            \<and> rx_ready e' \<and> vr_r e \<le> vr_r e'"
  using assms
proof (induction pdus arbitrary: s e)
  case Nil
  then show ?case by (intro exI [of _ "[]"] exI [of _ e]) simp
next
  case (Cons pdu pdus)
  obtain d e1 where r: "am_receive e pdu = (d, e1)" by (cases "am_receive e pdu")
  let ?s1 = "s\<lparr>am_entities := (am_entities s)(eid \<mapsto> e1)\<rparr>"
  have step: "receive_am_pdu s eid pdu = Inr (d, ?s1)"
    using Cons.prems(1) r by (simp add: receive_am_pdu_def)
  have e1: "am_entities ?s1 eid = Some e1" by simp
  have ready1: "rx_ready e1" using am_receive_ready [OF Cons.prems(2), of pdu] r by simp
  from Cons.IH [OF e1 ready1]
  obtain ds e' where ih: "subseq ds pdus"
      "fst (receive_all ?s1 eid pdus) = map pdu_payload ds"
      "map (\<lambda>d. hdr_sn (pdu_header d)) ds = [vr_r e1..vr_r e' - 1]"
      "am_entities (snd (receive_all ?s1 eid pdus)) eid = Some e'"
      "rx_ready e'" "vr_r e1 \<le> vr_r e'"
    by blast
  have unfold: "receive_all s eid (pdu # pdus)
      = ((case d of None \<Rightarrow> fst (receive_all ?s1 eid pdus)
                  | Some sdu \<Rightarrow> sdu # fst (receive_all ?s1 eid pdus)),
         snd (receive_all ?s1 eid pdus))"
    using step by (simp add: split_beta)
  from am_receive_cases [OF Cons.prems(2), of pdu]
  show ?case
  proof
    assume a: "hdr_sn (pdu_header pdu) = vr_r e \<and> vr_r e < 2048
            \<and> am_receive e pdu
                = (Some (pdu_payload pdu),
                   e\<lparr>rx_window := (rx_window e)(vr_r e \<mapsto> pdu), vr_r := vr_r e + 1\<rparr>)"
    then have d: "d = Some (pdu_payload pdu)" and v: "vr_r e1 = vr_r e + 1"
      using r by auto
    have "[vr_r e..vr_r e' - 1] = vr_r e # [vr_r e + 1..vr_r e' - 1]"
      using ih(6) v by (simp add: upto_rec1)
    then have sns: "map (\<lambda>d. hdr_sn (pdu_header d)) (pdu # ds) = [vr_r e..vr_r e' - 1]"
      using ih(3) v a by simp
    have "subseq (pdu # ds) (pdu # pdus)" using ih(1) by simp
    moreover have "fst (receive_all s eid (pdu # pdus)) = map pdu_payload (pdu # ds)"
      using unfold d ih(2) by simp
    moreover have "am_entities (snd (receive_all s eid (pdu # pdus))) eid = Some e'"
      using unfold ih(4) by simp
    moreover have "vr_r e \<le> vr_r e'" using ih(6) v by simp
    ultimately show ?thesis using sns ih(5) by blast
  next
    assume a: "\<not> (hdr_sn (pdu_header pdu) = vr_r e \<and> vr_r e < 2048)
            \<and> fst (am_receive e pdu) = None \<and> vr_r (snd (am_receive e pdu)) = vr_r e
            \<and> vr_mr (snd (am_receive e pdu)) = vr_mr e
            \<and> sn_field_length (snd (am_receive e pdu)) = sn_field_length e"
    then have d: "d = None" and v: "vr_r e1 = vr_r e" using r by auto
    have "subseq ds (pdu # pdus)" using ih(1) by (rule list_emb_Cons)
    moreover have "fst (receive_all s eid (pdu # pdus)) = map pdu_payload ds"
      using unfold d ih(2) by simp
    moreover have "am_entities (snd (receive_all s eid (pdu # pdus))) eid = Some e'"
      using unfold ih(4) by simp
    moreover have "map (\<lambda>d. hdr_sn (pdu_header d)) ds = [vr_r e..vr_r e' - 1]"
      using ih(3) v by simp
    moreover have "vr_r e \<le> vr_r e'" using ih(6) v by simp
    ultimately show ?thesis using ih(5) by blast
  qed
qed

lemma created_entity_ready:
  "\<exists>e. am_entities (snd (create_am_entity s b u)) (fst (create_am_entity s b u)) = Some e
        \<and> rx_ready e \<and> vr_r e = 0 \<and> rx_window e = Map.empty"
  by (simp add: create_am_entity_def Let_def rx_ready_def)

lemma two_pdus_shape:
  "map (\<lambda>d. hdr_sn (pdu_header d)) two_pdus = [0, 1] \<and> map pdu_payload two_pdus = [''a'', ''b'']"
  by code_simp

lemma rlc_peer_entity:
  "am_entities rlc_peer ''am_7_1'' \<noteq> None \<and> rx_ready (the (am_entities rlc_peer ''am_7_1''))"
  by code_simp

lemma reordered_then_repeated:
  "fst (receive_all rlc_peer ''am_7_1'' (rev two_pdus @ two_pdus)) = [''a'', ''b'']"
  by code_simp

lemma reordered_release:
  "fst (receive_all rlc_peer ''am_7_1'' (rev two_pdus)) = [''a'']"
  by code_simp

lemma reordered_state:
  "map_option vr_r (am_entities (snd (receive_all rlc_peer ''am_7_1'' (rev two_pdus))) ''am_7_1'')
     = Some 1
   \<and> map_option (\<lambda>e. map_option pdu_payload (rx_window e 1))
        (am_entities (snd (receive_all rlc_peer ''am_7_1'' (rev two_pdus))) ''am_7_1'')
     = Some (Some ''b'')"
  by code_simp

lemma transmit_step:
  assumes "am_entities s eid = Some e" and "bearer_of eid = Some b"
  shows "\<exists>pdu e'. transmit_am_pdu bearer_of s eid sdu
                     = Inr (pdu, s\<lparr>am_entities := (am_entities s)(eid \<mapsto> e')\<rparr>)
            \<and> hdr_sn (pdu_header pdu) = vt_s e \<and> pdu_payload pdu = sdu
            \<and> vt_s e' = (vt_s e + 1) mod 2 ^ nat (sn_field_length e)
            \<and> sn_field_length e' = sn_field_length e"
  using assms
  apply (simp add: transmit_am_pdu_def Let_def)
  apply (rule exI, rule conjI, rule refl)
  apply simp
  done

lemma transmit_all_sns:
  assumes "am_entities s eid = Some e" and "bearer_of eid = Some b"
    and "sn_field_length e = 12" and "0 \<le> vt_s e" and "vt_s e + int (length sdus) \<le> 4096"
  shows "map (\<lambda>d. hdr_sn (pdu_header d)) (fst (transmit_all bearer_of s eid sdus))
           = map (\<lambda>i. vt_s e + int i) [0..<length sdus]
       \<and> map pdu_payload (fst (transmit_all bearer_of s eid sdus)) = sdus"
  using assms
proof (induction sdus arbitrary: s e)
  case Nil
  then show ?case by simp
next
  case (Cons sdu rest)
  from transmit_step [where bearer_of = bearer_of and eid = eid and sdu = sdu, OF Cons.prems(1,2)]
  obtain pdu e' where st: "transmit_am_pdu bearer_of s eid sdu
                     = Inr (pdu, s\<lparr>am_entities := (am_entities s)(eid \<mapsto> e')\<rparr>)"
      and sn: "hdr_sn (pdu_header pdu) = vt_s e" and pl: "pdu_payload pdu = sdu"
      and vt: "vt_s e' = (vt_s e + 1) mod 2 ^ nat (sn_field_length e)"
      and fl: "sn_field_length e' = sn_field_length e"
    by blast
  let ?s1 = "s\<lparr>am_entities := (am_entities s)(eid \<mapsto> e')\<rparr>"
  have unfold: "fst (transmit_all bearer_of s eid (sdu # rest))
                  = pdu # fst (transmit_all bearer_of ?s1 eid rest)"
    using st by (simp add: split_beta)
  show ?case
  proof (cases "rest = []")
    case True
    then show ?thesis using unfold sn pl by simp
  next
    case False
    then have "vt_s e + 1 < 4096" using Cons.prems(5) by (cases rest) auto
    then have vt1: "vt_s e' = vt_s e + 1" using vt Cons.prems(3,4) by simp
    have e1: "am_entities ?s1 eid = Some e'" by simp
    have "map (\<lambda>d. hdr_sn (pdu_header d)) (fst (transmit_all bearer_of ?s1 eid rest))
           = map (\<lambda>i. vt_s e' + int i) [0..<length rest]
       \<and> map pdu_payload (fst (transmit_all bearer_of ?s1 eid rest)) = rest"
      using Cons.IH [OF e1 Cons.prems(2)] fl Cons.prems(3,4,5) vt1 by simp
    moreover have "map (\<lambda>i. vt_s e + int i) [0..<length (sdu # rest)]
                     = vt_s e # map (\<lambda>i. vt_s e' + int i) [0..<length rest]"
      using vt1 by (simp add: map_upt_Suc del: upt_Suc)
    ultimately show ?thesis using unfold sn pl by simp
  qed
qed

lemma transmit_all_length:
  assumes "am_entities s eid = Some e" and "bearer_of eid = Some b"
  shows "length (fst (transmit_all bearer_of s eid sdus)) = length sdus"
  using assms
proof (induction sdus arbitrary: s e)
  case Nil
  then show ?case by simp
next
  case (Cons sdu rest)
  from transmit_step [where bearer_of = bearer_of and eid = eid and sdu = sdu, OF Cons.prems(1,2)]
  obtain pdu e' where st: "transmit_am_pdu bearer_of s eid sdu
                     = Inr (pdu, s\<lparr>am_entities := (am_entities s)(eid \<mapsto> e')\<rparr>)"
    by blast
  let ?s1 = "s\<lparr>am_entities := (am_entities s)(eid \<mapsto> e')\<rparr>"
  have e1: "am_entities ?s1 eid = Some e'" by simp
  show ?case using st Cons.IH [OF e1 Cons.prems(2)] by (simp add: split_beta)
qed

lemma receive_step:
  assumes "am_entities s eid = Some e"
  shows "receive_am_pdu s eid pdu
           = Inr (fst (am_receive e pdu), s\<lparr>am_entities := (am_entities s)(eid \<mapsto> snd (am_receive e pdu))\<rparr>)"
  using assms by (simp add: receive_am_pdu_def split_beta)

lemma receive_frozen:
  assumes "am_entities s eid = Some e" and "rx_ready e" and "vr_r e = 2048"
  shows "fst (receive_all s eid pdus) = []"
  using assms
proof (induction pdus arbitrary: s e)
  case Nil
  then show ?case by simp
next
  case (Cons pdu pdus)
  let ?e1 = "snd (am_receive e pdu)"
  let ?s1 = "s\<lparr>am_entities := (am_entities s)(eid \<mapsto> ?e1)\<rparr>"
  from am_receive_cases [OF Cons.prems(2), of pdu] Cons.prems(3)
  have none: "fst (am_receive e pdu) = None" and v: "vr_r ?e1 = 2048" by auto
  have ready: "rx_ready ?e1" using am_receive_ready [OF Cons.prems(2)] .
  have e1: "am_entities ?s1 eid = Some ?e1" by simp
  have "fst (receive_all ?s1 eid pdus) = []" using Cons.IH [OF e1 ready v] .
  then show ?case
    using receive_step [OF Cons.prems(1), of pdu] none by (simp add: split_beta)
qed

lemma receive_in_order:
  assumes "am_entities s eid = Some e" and "rx_ready e"
    and "map (\<lambda>d. hdr_sn (pdu_header d)) pdus = map (\<lambda>i. vr_r e + int i) [0..<length pdus]"
  shows "fst (receive_all s eid pdus) = map pdu_payload (take (nat (2048 - vr_r e)) pdus)"
  using assms
proof (induction pdus arbitrary: s e)
  case Nil
  then show ?case by simp
next
  case (Cons pdu pdus)
  have sn: "hdr_sn (pdu_header pdu) = vr_r e"
    and rest: "map (\<lambda>d. hdr_sn (pdu_header d)) pdus = map (\<lambda>i. vr_r e + 1 + int i) [0..<length pdus]"
    using Cons.prems(3) by (simp_all add: map_upt_Suc del: upt_Suc)
  let ?e1 = "snd (am_receive e pdu)"
  let ?s1 = "s\<lparr>am_entities := (am_entities s)(eid \<mapsto> ?e1)\<rparr>"
  have ready: "rx_ready ?e1" using am_receive_ready [OF Cons.prems(2)] .
  have e1: "am_entities ?s1 eid = Some ?e1" by simp
  show ?case
  proof (cases "vr_r e < 2048")
    case True
    from am_receive_cases [OF Cons.prems(2), of pdu] sn True
    have d: "fst (am_receive e pdu) = Some (pdu_payload pdu)" and v: "vr_r ?e1 = vr_r e + 1"
      by auto
    have "fst (receive_all ?s1 eid pdus) = map pdu_payload (take (nat (2048 - vr_r ?e1)) pdus)"
      using Cons.IH [OF e1 ready] rest v by simp
    moreover have "nat (2048 - vr_r e) = Suc (nat (2048 - vr_r ?e1))" using True v by simp
    ultimately show ?thesis
      using receive_step [OF Cons.prems(1), of pdu] d by (simp add: split_beta)
  next
    case False
    then have v: "vr_r e = 2048" using Cons.prems(2) by (simp add: rx_ready_def)
    have "fst (receive_all s eid (pdu # pdus)) = []"
      using receive_frozen [OF Cons.prems(1,2) v] .
    then show ?thesis using v by simp
  qed
qed

lemma rlc_peer_fresh:
  "am_entities rlc_peer ''am_7_1'' \<noteq> None
   \<and> vr_r (the (am_entities rlc_peer ''am_7_1'')) = 0
   \<and> vr_mr (the (am_entities rlc_peer ''am_7_1'')) = 2048
   \<and> vt_s (the (am_entities rlc_peer ''am_7_1'')) = 0
   \<and> sn_field_length (the (am_entities rlc_peer ''am_7_1'')) = 12"
  by code_simp

lemma long_run_shape:
  "map (\<lambda>d. hdr_sn (pdu_header d)) long_run_pdus = map int [0..<2049]
   \<and> length long_run_pdus = 2049"
proof -
  obtain e where e: "am_entities rlc_peer ''am_7_1'' = Some e"
    using rlc_peer_fresh by blast
  then have f: "vt_s e = 0" "sn_field_length e = 12" using rlc_peer_fresh by simp_all
  have b: "(\<lambda>entity_id. Some (1::int)) ''am_7_1'' = Some 1" by simp
  have "map (\<lambda>d. hdr_sn (pdu_header d)) long_run_pdus
          = map (\<lambda>i. vt_s e + int i) [0..<length (replicate 2049 ''x'')]"
    unfolding long_run_pdus_def
    using transmit_all_sns [where bearer_of = "\<lambda>entity_id. Some 1" and eid = "''am_7_1''"
        and sdus = "replicate 2049 ''x''", OF e b f(2)] f(1) by simp
  moreover have "length long_run_pdus = length (replicate 2049 ''x'')"
    unfolding long_run_pdus_def
    by (rule transmit_all_length [where bearer_of = "\<lambda>entity_id. Some 1" and eid = "''am_7_1''", OF e b])
  ultimately show ?thesis using f(1) by simp
qed

lemma long_run_release:
  "fst (receive_all rlc_peer ''am_7_1'' long_run_pdus) = map pdu_payload (take 2048 long_run_pdus)"
proof -
  obtain e where e: "am_entities rlc_peer ''am_7_1'' = Some e"
    using rlc_peer_fresh by blast
  then have v: "vr_r e = 0" using rlc_peer_fresh by simp
  have r: "rx_ready e" using rlc_peer_entity e by simp
  have "map (\<lambda>d. hdr_sn (pdu_header d)) long_run_pdus
          = map (\<lambda>i. vr_r e + int i) [0..<length long_run_pdus]"
    using long_run_shape v by simp
  from receive_in_order [OF e r this] show ?thesis using v by simp
qed

lemma two_pdus_head:
  "hdr_sn (pdu_header (hd two_pdus)) = 0 \<and> pdu_payload (hd two_pdus) = ''a''"
  by code_simp

text \<open>
  Claim C9, as amended.  For an entity whose receiving side is as \<open>create_am_entity\<close>
  made it or as earlier deliveries left it, with \<open>VR(R)\<close> below \<open>VR(MR)\<close>, and PDUs
  presented in any order: \<open>receive_am_pdu\<close> buffers each PDU whose SN is in the receive
  window; it returns the SDU of a PDU exactly when the SN of the PDU equals \<open>VR(R)\<close>, and
  then advances \<open>VR(R)\<close> by one; so the SDUs returned over a run are those of PDUs with
  the consecutive SNs \<open>VR(R), VR(R)+1, \<dots>\<close>, in that order.  A PDU that arrives ahead
  of \<open>VR(R)\<close> is buffered and its SDU is not returned, neither then nor when \<open>VR(R)\<close>
  reaches its SN (\<open>rx_window\<close> is never read): SDUs presented out of order are
  released only as far as their PDUs are presented again in order.  The claim as it
  stands fails for two PDUs presented in reverse order, and also in order once \<open>VR(R)\<close>
  has reached \<open>VR(MR)\<close>, which is never advanced (see the counterexample below).
\<close>

theorem rlc_am_releases_consecutive_sns_in_order:
  assumes "am_entities s eid = Some e" and "rx_ready e" and "vr_r e < vr_mr e"
  shows "receive_am_pdu s eid pdu
           = Inr (fst (am_receive e pdu), s\<lparr>am_entities := (am_entities s)(eid \<mapsto> snd (am_receive e pdu))\<rparr>)
       \<and> (is_in_receive_window (hdr_sn (pdu_header pdu)) (vr_r e) (vr_mr e)
            \<longrightarrow> rx_window (snd (am_receive e pdu)) (hdr_sn (pdu_header pdu)) = Some pdu)
       \<and> fst (am_receive e pdu)
            = (if hdr_sn (pdu_header pdu) = vr_r e then Some (pdu_payload pdu) else None)
       \<and> vr_r (snd (am_receive e pdu))
            = (if hdr_sn (pdu_header pdu) = vr_r e then vr_r e + 1 else vr_r e)
       \<and> (\<exists>ds e'. subseq ds pdus
              \<and> fst (receive_all s eid pdus) = map pdu_payload ds
              \<and> map (\<lambda>d. hdr_sn (pdu_header d)) ds = [vr_r e..vr_r e' - 1]
              \<and> am_entities (snd (receive_all s eid pdus)) eid = Some e'
              \<and> vr_r e \<le> vr_r e')"
proof (intro conjI)
  have below: "vr_r e < 2048" using assms(2,3) by (simp add: rx_ready_def)
  show "receive_am_pdu s eid pdu
           = Inr (fst (am_receive e pdu), s\<lparr>am_entities := (am_entities s)(eid \<mapsto> snd (am_receive e pdu))\<rparr>)"
    using assms(1) by (rule receive_step)
  show "is_in_receive_window (hdr_sn (pdu_header pdu)) (vr_r e) (vr_mr e)
            \<longrightarrow> rx_window (snd (am_receive e pdu)) (hdr_sn (pdu_header pdu)) = Some pdu"
    using am_receive_buffers by blast
  show "fst (am_receive e pdu)
            = (if hdr_sn (pdu_header pdu) = vr_r e then Some (pdu_payload pdu) else None)"
    using am_receive_cases [OF assms(2), of pdu] below by auto
  show "vr_r (snd (am_receive e pdu))
            = (if hdr_sn (pdu_header pdu) = vr_r e then vr_r e + 1 else vr_r e)"
    using am_receive_cases [OF assms(2), of pdu] below by auto
  show "\<exists>ds e'. subseq ds pdus
              \<and> fst (receive_all s eid pdus) = map pdu_payload ds
              \<and> map (\<lambda>d. hdr_sn (pdu_header d)) ds = [vr_r e..vr_r e' - 1]
              \<and> am_entities (snd (receive_all s eid pdus)) eid = Some e'
              \<and> vr_r e \<le> vr_r e'"
    using receive_all_trace [OF assms(1,2), of pdus] by blast
qed

theorem rlc_am_releases_consecutive_sns_in_order_witness:
  "am_entities rlc_peer ''am_7_1'' \<noteq> None
   \<and> rx_ready (the (am_entities rlc_peer ''am_7_1''))
   \<and> vr_r (the (am_entities rlc_peer ''am_7_1'')) < vr_mr (the (am_entities rlc_peer ''am_7_1''))
   \<and> fst (am_receive (the (am_entities rlc_peer ''am_7_1'')) (hd two_pdus)) = Some ''a''
   \<and> fst (receive_all rlc_peer ''am_7_1'' (rev two_pdus @ two_pdus)) = [''a'', ''b'']
   \<and> (\<exists>ds e'. subseq ds (rev two_pdus @ two_pdus)
          \<and> [''a'', ''b''] = map pdu_payload ds
          \<and> map (\<lambda>d. hdr_sn (pdu_header d)) ds
              = [vr_r (the (am_entities rlc_peer ''am_7_1''))..vr_r e' - 1]
          \<and> am_entities (snd (receive_all rlc_peer ''am_7_1'' (rev two_pdus @ two_pdus))) ''am_7_1''
              = Some e')"
proof -
  obtain e where e: "am_entities rlc_peer ''am_7_1'' = Some e"
    using rlc_peer_entity by blast
  then have r: "rx_ready e" using rlc_peer_entity by simp
  have v: "vr_r e = 0" and b: "vr_r e < vr_mr e" using rlc_peer_fresh e by simp_all
  note t = rlc_am_releases_consecutive_sns_in_order
    [OF e r b, of "hd two_pdus" "rev two_pdus @ two_pdus"]
  note h = two_pdus_head
  have first: "fst (am_receive e (hd two_pdus)) = Some ''a''"
    using t [THEN conjunct2, THEN conjunct2, THEN conjunct1] h v by simp
  from t [THEN conjunct2, THEN conjunct2, THEN conjunct2, THEN conjunct2]
  obtain ds e' where d: "subseq ds (rev two_pdus @ two_pdus)"
      "fst (receive_all rlc_peer ''am_7_1'' (rev two_pdus @ two_pdus)) = map pdu_payload ds"
      "map (\<lambda>d. hdr_sn (pdu_header d)) ds = [vr_r e..vr_r e' - 1]"
      "am_entities (snd (receive_all rlc_peer ''am_7_1'' (rev two_pdus @ two_pdus))) ''am_7_1'' = Some e'"
    by blast
  have "[''a'', ''b''] = map pdu_payload ds" using d(2) reordered_then_repeated by simp
  then show ?thesis
    using d(1,3,4) e r b first rlc_peer_entity reordered_then_repeated by auto
qed

theorem rlc_am_out_of_order_sdu_not_released_counterexample:
  "map (\<lambda>d. hdr_sn (pdu_header d)) two_pdus = [0, 1]
   \<and> map pdu_payload two_pdus = [''a'', ''b'']
   \<and> fst (receive_all rlc_peer ''am_7_1'' (rev two_pdus)) = [''a'']
   \<and> fst (receive_all rlc_peer ''am_7_1'' (rev two_pdus)) \<noteq> [''a'', ''b'']
   \<and> map_option vr_r (am_entities (snd (receive_all rlc_peer ''am_7_1'' (rev two_pdus))) ''am_7_1'')
       = Some 1
   \<and> map_option (\<lambda>e. map_option pdu_payload (rx_window e 1))
        (am_entities (snd (receive_all rlc_peer ''am_7_1'' (rev two_pdus))) ''am_7_1'')
       = Some (Some ''b'')
   \<and> map (\<lambda>d. hdr_sn (pdu_header d)) long_run_pdus = map int [0..<2049]
   \<and> length long_run_pdus = 2049
   \<and> fst (receive_all rlc_peer ''am_7_1'' long_run_pdus)
       = map pdu_payload (take 2048 long_run_pdus)
   \<and> length (fst (receive_all rlc_peer ''am_7_1'' long_run_pdus)) = 2048"
proof -
  have a: "fst (receive_all rlc_peer ''am_7_1'' (rev two_pdus)) \<noteq> [''a'', ''b'']"
    by (simp add: reordered_release)
  have l: "length (fst (receive_all rlc_peer ''am_7_1'' long_run_pdus)) = 2048"
    using long_run_release long_run_shape by simp
  show ?thesis
    using two_pdus_shape reordered_release reordered_state a long_run_shape long_run_release l
    by blast
qed

end
